theory Spec2Isabelle
  imports Main
begin

section \<open>JavaScript values\<close>

text \<open>
  Tool results, message contents, wire messages and configuration values are the values
  that \<^verbatim>\<open>JSON.parse\<close> produces. Objects are association lists from property names to
  values, in the order the source writes the properties. The code never calculates with
  a number that it finds in such a value: it tests it for truthiness and converts it to
  text. A number is therefore kept as the text that ToString gives for it, so that zero
  (also minus zero) is \<open>JNum ''0''\<close>. An absent property (\<^verbatim>\<open>undefined\<close>) is
  \<open>None\<close>.
\<close>

datatype json =
    JNull
  | JBool bool
  | JNum string
  | JStr string
  | JArr "json list"
  | JObj "(string \<times> json) list"

datatype js_error = TypeError | SyntaxError | Error string

text \<open>
  \<open>jget v k\<close> is the property read \<^verbatim>\<open>v.k\<close> for a value that is not \<^verbatim>\<open>null\<close>:
  primitives and arrays have none of the properties read below. Reading a property of
  \<^verbatim>\<open>null\<close> raises TypeError in JavaScript; where the source reads a property without
  a guard, the functions below return \<open>Inl TypeError\<close> themselves.
\<close>

fun jget :: "json \<Rightarrow> string \<Rightarrow> json option" where
  "jget (JObj kvs) k = map_of kvs k"
| "jget _ k = None"

definition jget2 :: "json \<Rightarrow> string \<Rightarrow> string \<Rightarrow> json option" where
  "jget2 v a b = (case jget v a of None \<Rightarrow> None | Some x \<Rightarrow> jget x b)"

fun truthy :: "json \<Rightarrow> bool" where
  "truthy JNull = False"
| "truthy (JBool b) = b"
| "truthy (JNum n) = (n \<noteq> ''0'' \<and> n \<noteq> ''NaN'')"
| "truthy (JStr s) = (s \<noteq> [])"
| "truthy (JArr xs) = True"
| "truthy (JObj kvs) = True"

definition truthy_opt :: "json option \<Rightarrow> bool" where
  "truthy_opt v = (case v of None \<Rightarrow> False | Some x \<Rightarrow> truthy x)"

text \<open>\<^verbatim>\<open>typeof v === 'string'\<close>, giving the string.\<close>

fun str_of :: "json option \<Rightarrow> string option" where
  "str_of (Some (JStr s)) = Some s"
| "str_of _ = None"

definition is_str_opt :: "json option \<Rightarrow> bool" where
  "is_str_opt v = (str_of v \<noteq> None)"

text \<open>\<^verbatim>\<open>typeof v === 'object'\<close>: objects, arrays and \<^verbatim>\<open>null\<close>.\<close>

fun typeof_object :: "json \<Rightarrow> bool" where
  "typeof_object JNull = True"
| "typeof_object (JArr xs) = True"
| "typeof_object (JObj kvs) = True"
| "typeof_object _ = False"

text \<open>\<^verbatim>\<open>v.content && Array.isArray(v.content)\<close>, giving the array.\<close>

definition content_array :: "json \<Rightarrow> json list option" where
  "content_array v = (case jget v ''content'' of Some (JArr bs) \<Rightarrow> Some bs | _ \<Rightarrow> None)"

text \<open>
  \<^verbatim>\<open>Array.prototype.find\<close> (and \<^verbatim>\<open>some\<close>) with a callback that reads a
  property of the element: the search stops at the first match, and a \<^verbatim>\<open>null\<close>
  element met before it raises TypeError.
\<close>

fun js_find :: "(json \<Rightarrow> bool) \<Rightarrow> json list \<Rightarrow> js_error + json option" where
  "js_find P [] = Inr None"
| "js_find P (x # xs) =
     (if x = JNull then Inl TypeError else if P x then Inr (Some x) else js_find P xs)"

subsection \<open>Strings\<close>

text \<open>
  A string is a list of UTF-16 code units, and a \<open>char\<close> stands for a code unit below
  256. Among those, the white space that \<^verbatim>\<open>String.prototype.trim\<close> removes is tab,
  line feed, vertical tab, form feed, carriage return, space and the no-break space
  U+00A0.
\<close>

definition is_js_space :: "char \<Rightarrow> bool" where
  "is_js_space c =
     (c \<in> set [CHR 0x09, CHR 0x0A, CHR 0x0B, CHR 0x0C, CHR 0x0D, CHR '' '', CHR 0xA0])"

definition js_trim :: "string \<Rightarrow> string" where
  "js_trim s = rev (dropWhile is_js_space (rev (dropWhile is_js_space s)))"

subsection \<open>Number and value to text\<close>

definition digit_char :: "nat \<Rightarrow> char" where
  "digit_char d = ''0123456789'' ! d"

fun show_nat :: "nat \<Rightarrow> string" where
  "show_nat n = (if n < 10 then [digit_char n] else show_nat (n div 10) @ [digit_char (n mod 10)])"

declare show_nat.simps [simp del]

definition show_int :: "int \<Rightarrow> string" where
  "show_int i = (if i < 0 then CHR ''-'' # show_nat (nat (- i)) else show_nat (nat i))"

fun intercalate :: "string \<Rightarrow> string list \<Rightarrow> string" where
  "intercalate sep [] = []"
| "intercalate sep [x] = x"
| "intercalate sep (x # y # ys) = x @ sep @ intercalate sep (y # ys)"

text \<open>ToString, as a template literal applies it to an interpolated value.\<close>

fun js_ToString :: "json \<Rightarrow> string" where
  "js_ToString JNull = ''null''"
| "js_ToString (JBool b) = (if b then ''true'' else ''false'')"
| "js_ToString (JNum n) = n"
| "js_ToString (JStr s) = s"
| "js_ToString (JArr xs) =
     intercalate '','' (map (\<lambda>x. if x = JNull then [] else js_ToString x) xs)"
| "js_ToString (JObj kvs) = ''[object Object]''"

section \<open>The canonical conversation history (mcp-client.js)\<close>

datatype role = User | Assistant | Tool | System

record tool_call =
  tc_id :: string
  tc_name :: string
  tc_args :: json

text \<open>
  A message of \<^verbatim>\<open>this.conversation\<close>. The content of a user message is a string or
  an array of parts, that of an assistant message a string, that of a tool message the
  raw tool result.
\<close>

record message =
  msg_role :: role
  msg_content :: json
  msg_tool_calls :: "tool_call list option"
  msg_tool_call_id :: "string option"
  msg_name :: "string option"

text \<open>
  \<^verbatim>\<open>{ role: 'user', content: query }\<close>, the message that processQuery appends.
\<close>

definition user_message :: "string \<Rightarrow> message" where
  "user_message query =
     \<lparr>msg_role = User, msg_content = JStr query, msg_tool_calls = None,
      msg_tool_call_id = None, msg_name = None\<rparr>"

definition assistant_message :: "string \<Rightarrow> tool_call list option \<Rightarrow> message" where
  "assistant_message textContent toolCalls =
     \<lparr>msg_role = Assistant, msg_content = JStr textContent, msg_tool_calls = toolCalls,
      msg_tool_call_id = None, msg_name = None\<rparr>"

definition tool_message :: "string \<Rightarrow> string \<Rightarrow> json \<Rightarrow> message" where
  "tool_message callId toolName result =
     \<lparr>msg_role = Tool, msg_content = result, msg_tool_calls = None,
      msg_tool_call_id = Some callId, msg_name = Some toolName\<rparr>"

datatype log_event =
    LogInfo string
  | LogWarn string
  | LogError string
  | ConsoleLog string
  | ConsoleInfo string
  | ConsoleError string
  | HistoryTrimmed int int
  | HistoryLimited int

record history_state =
  conversation :: "message list"
  maxConversationHistoryLength :: "int option"
  logs :: "log_event list"

subsection \<open>The history bound\<close>

text \<open>
  \<^verbatim>\<open>parseInt(value, 10)\<close> is a built-in of the runtime and a parameter here: it maps
  the value it is given (\<open>None\<close> for \<^verbatim>\<open>undefined\<close>) to the integer it reads, or to
  \<open>None\<close> for \<^verbatim>\<open>NaN\<close>.

  The constructor's choice of the bound (mcp-client.js, lines 92-101): the value of
  config.json wins when it parses to a positive number, then the environment variable
  MAX\_CONVERSATION\_HISTORY\_LENGTH, else the bound stays \<^verbatim>\<open>null\<close>.
\<close>

definition initMaxConversationHistoryLength ::
  "(json option \<Rightarrow> int option) \<Rightarrow> json option \<Rightarrow> json option \<Rightarrow> int option" where
  "initMaxConversationHistoryLength parseInt configValue envValue =
     (let configHistoryLength = parseInt configValue;
          envHistoryLength = parseInt envValue
      in if configHistoryLength \<noteq> None \<and> the configHistoryLength > 0 then configHistoryLength
         else if envHistoryLength \<noteq> None \<and> the envHistoryLength > 0 then envHistoryLength
         else None)"

text \<open>
  \<^verbatim>\<open>_trimConversationHistory\<close> (mcp-client.js, lines 158-164). The bound is tested
  for truthiness (\<^verbatim>\<open>null\<close> and 0 are falsy); \<^verbatim>\<open>splice(0, n)\<close> removes the
  first n elements, all of them when n exceeds the length.
\<close>

definition trimConversationHistory :: "'a history_state_scheme \<Rightarrow> 'a history_state_scheme" where
  "trimConversationHistory st =
     (case maxConversationHistoryLength st of
        None \<Rightarrow> st
      | Some m \<Rightarrow>
          if m \<noteq> 0 \<and> int (length (conversation st)) > m
          then (let numToRemove = int (length (conversation st)) - m
                in st\<lparr>conversation := drop (nat numToRemove) (conversation st),
                      logs := logs st @ [HistoryTrimmed numToRemove m]\<rparr>)
          else st)"

definition not_positive :: "int option \<Rightarrow> bool" where
  "not_positive p = (case p of None \<Rightarrow> True | Some n \<Rightarrow> n \<le> 0)"

section \<open>extractToolCalls of the five adapters\<close>

text \<open>
  \<^verbatim>\<open>JSON.parse\<close> belongs to the runtime; it is a parameter \<open>parse\<close> of the model,
  with \<open>None\<close> for the SyntaxError it raises on text that is not JSON.
  The raw responses have the shapes of the providers' SDKs.
\<close>

record oa_function =
  fn_name :: string
  fn_arguments :: string

record oa_tool_call =
  oa_id :: string
  oa_type :: string
  oa_function :: oa_function

record oa_message =
  oa_content :: "string option"
  oa_tool_calls :: "oa_tool_call list option"

record oa_choice =
  choice_message :: "oa_message option"

record oa_response =
  oa_choices :: "oa_choice list option"

text \<open>
  The message that the OpenAI-compatible extractors read:
  \<^verbatim>\<open>llmResponse.choices && llmResponse.choices.length > 0 && llmResponse.choices[0].message\<close>
  (DeepSeek tests \<^verbatim>\<open>llmResponse.choices[0]\<close> instead of the length, which selects
  the same responses).
\<close>

definition first_message :: "oa_response \<Rightarrow> oa_message option" where
  "first_message llmResponse =
     (case oa_choices llmResponse of
        Some (c # _) \<Rightarrow> choice_message c
      | _ \<Rightarrow> None)"

text \<open>
  OpenAIProvider.extractToolCalls (openai.js, lines 387-408): the loop with its
  try/catch. A call whose arguments do not parse is logged and skipped.
\<close>

fun openai_valid_calls ::
  "(string \<Rightarrow> json option) \<Rightarrow> oa_tool_call list \<Rightarrow> tool_call list \<times> log_event list" where
  "openai_valid_calls parse [] = ([], [])"
| "openai_valid_calls parse (tc # tcs) =
     (case parse (fn_arguments (oa_function tc)) of
        Some parsedArgs \<Rightarrow>
          (\<lparr>tc_id = oa_id tc, tc_name = fn_name (oa_function tc), tc_args = parsedArgs\<rparr>
             # fst (openai_valid_calls parse tcs),
           snd (openai_valid_calls parse tcs))
      | None \<Rightarrow>
          (fst (openai_valid_calls parse tcs),
           LogError (''Failed to parse arguments for tool call '' @ fn_name (oa_function tc))
             # snd (openai_valid_calls parse tcs)))"

definition extractToolCalls_openai ::
  "(string \<Rightarrow> json option) \<Rightarrow> oa_response \<Rightarrow> tool_call list option \<times> log_event list" where
  "extractToolCalls_openai parse llmResponse =
     (case first_message llmResponse of
        None \<Rightarrow> (None, [])
      | Some m \<Rightarrow>
          (case oa_tool_calls m of
             None \<Rightarrow> (None, [])
           | Some tcs \<Rightarrow>
               (let validToolCalls = fst (openai_valid_calls parse tcs)
                in (if length validToolCalls > 0 then Some validToolCalls else None,
                    snd (openai_valid_calls parse tcs)))))"

text \<open>
  DeepSeekProvider.extractToolCalls (deepseek.js, lines 206-227): the same loop, over
  the calls of type \<^verbatim>\<open>'function'\<close> only.
\<close>

definition extractToolCalls_deepseek ::
  "(string \<Rightarrow> json option) \<Rightarrow> oa_response \<Rightarrow> tool_call list option \<times> log_event list" where
  "extractToolCalls_deepseek parse llmResponse =
     (case first_message llmResponse of
        None \<Rightarrow> (None, [])
      | Some m \<Rightarrow>
          (case oa_tool_calls m of
             None \<Rightarrow> (None, [])
           | Some tcs \<Rightarrow>
               (let fs = filter (\<lambda>tc. oa_type tc = ''function'') tcs;
                    validToolCalls = fst (openai_valid_calls parse fs)
                in (if length validToolCalls > 0 then Some validToolCalls else None,
                    snd (openai_valid_calls parse fs)))))"

text \<open>
  HuggingFaceProvider.extractToolCalls (huggingface.js, lines 240-250):
  \<^verbatim>\<open>tool_calls.map(tc => ({..., args: JSON.parse(tc.function.arguments)}))
      .filter(tc => tc.args !== null)\<close>.
  There is no try/catch: the first SyntaxError leaves the function. The result of the
  filter is returned as it is.
\<close>

fun huggingface_map_calls ::
  "(string \<Rightarrow> json option) \<Rightarrow> oa_tool_call list \<Rightarrow> js_error + tool_call list" where
  "huggingface_map_calls parse [] = Inr []"
| "huggingface_map_calls parse (tc # tcs) =
     (case parse (fn_arguments (oa_function tc)) of
        None \<Rightarrow> Inl SyntaxError
      | Some parsedArgs \<Rightarrow>
          (case huggingface_map_calls parse tcs of
             Inl e \<Rightarrow> Inl e
           | Inr rest \<Rightarrow>
               Inr (\<lparr>tc_id = oa_id tc, tc_name = fn_name (oa_function tc), tc_args = parsedArgs\<rparr>
                      # rest)))"

definition extractToolCalls_huggingface ::
  "(string \<Rightarrow> json option) \<Rightarrow> oa_response \<Rightarrow> js_error + tool_call list option" where
  "extractToolCalls_huggingface parse llmResponse =
     (case first_message llmResponse of
        None \<Rightarrow> Inr None
      | Some m \<Rightarrow>
          (case oa_tool_calls m of
             None \<Rightarrow> Inr None
           | Some tcs \<Rightarrow>
               (case huggingface_map_calls parse tcs of
                  Inl e \<Rightarrow> Inl e
                | Inr calls \<Rightarrow> Inr (Some (filter (\<lambda>tc. tc_args tc \<noteq> JNull) calls)))))"

text \<open>
  AnthropicProvider.extractToolCalls (anthropic.js, lines 180-192): the
  \<^verbatim>\<open>tool_use\<close> blocks of the response, \<^verbatim>\<open>input || {}\<close> as arguments.
\<close>

datatype anthropic_block =
    TextBlock string
  | ToolUseBlock string string "json option"
  | OtherBlock string

record anthropic_response =
  ar_content :: "anthropic_block list option"

fun anthropic_tool_uses :: "anthropic_block list \<Rightarrow> tool_call list" where
  "anthropic_tool_uses [] = []"
| "anthropic_tool_uses (ToolUseBlock i n inp # bs) =
     \<lparr>tc_id = i, tc_name = n,
      tc_args = (if truthy_opt inp then the inp else JObj [])\<rparr> # anthropic_tool_uses bs"
| "anthropic_tool_uses (_ # bs) = anthropic_tool_uses bs"

definition extractToolCalls_anthropic :: "anthropic_response \<Rightarrow> tool_call list option" where
  "extractToolCalls_anthropic llmResponse =
     (case ar_content llmResponse of
        None \<Rightarrow> None
      | Some bs \<Rightarrow>
          (let toolCalls = anthropic_tool_uses bs
           in if length toolCalls > 0 then Some toolCalls else None))"

text \<open>
  GoogleProvider.extractToolCalls (huggingface.js, lines 520-534). The parts are
  \<^verbatim>\<open>llmResponse?.response?.candidates?.[0]?.content?.parts\<close>, absent when a link of
  the chain is. An id is the function name, an underscore and the clock reading
  \<^verbatim>\<open>Date.now()\<close> taken at that part; \<open>now k\<close> is the reading at part number \<open>k\<close>.
\<close>

record google_function_call =
  fc_name :: string
  fc_args :: "json option"

record google_part =
  gp_text :: "string option"
  gp_functionCall :: "google_function_call option"

record google_response =
  gr_parts :: "google_part list option"

fun google_function_calls :: "(nat \<Rightarrow> int) \<Rightarrow> nat \<Rightarrow> google_part list \<Rightarrow> tool_call list" where
  "google_function_calls now k [] = []"
| "google_function_calls now k (p # ps) =
     (case gp_functionCall p of
        Some fc \<Rightarrow>
          \<lparr>tc_id = fc_name fc @ ''_'' @ show_int (now k), tc_name = fc_name fc,
           tc_args = (if truthy_opt (fc_args fc) then the (fc_args fc) else JObj [])\<rparr>
            # google_function_calls now (Suc k) ps
      | None \<Rightarrow> google_function_calls now (Suc k) ps)"

definition extractToolCalls_google ::
  "(nat \<Rightarrow> int) \<Rightarrow> google_response \<Rightarrow> tool_call list option" where
  "extractToolCalls_google now llmResponse =
     (let toolCalls = (case gr_parts llmResponse of
                         None \<Rightarrow> []
                       | Some ps \<Rightarrow> google_function_calls now 0 ps)
      in if length toolCalls > 0 then Some toolCalls else None)"

section \<open>convertToolResult of the string-variant adapters\<close>

text \<open>
  \<^verbatim>\<open>JSON.stringify\<close> is the runtime's too: the parameter \<open>stringify\<close>. It is
  applied to values that came out of \<^verbatim>\<open>JSON.parse\<close>, on which it returns a string
  and does not raise.
\<close>

text \<open>
  The image test of \<^verbatim>\<open>_convertToolResultForOpenAI\<close> (openai.js, lines 59-68) and
  \<^verbatim>\<open>_convertToolResultForPartner\<close> (huggingface.js, lines 87-96).
\<close>

definition has_direct_image :: "json \<Rightarrow> bool" where
  "has_direct_image r =
     (truthy_opt (jget r ''image'') \<and> is_str_opt (jget2 r ''image'' ''base64Data'')
      \<and> truthy_opt (jget2 r ''image'' ''mimeType''))"

definition is_image_part :: "json \<Rightarrow> bool" where
  "is_image_part p =
     (jget p ''type'' = Some (JStr ''image'') \<and> truthy_opt (jget p ''data'')
      \<and> is_str_opt (jget p ''data'') \<and> truthy_opt (jget p ''mimeType''))"

definition hasImage :: "json \<Rightarrow> js_error + bool" where
  "hasImage mcpToolResult =
     (if truthy mcpToolResult \<and> typeof_object mcpToolResult then
        (if has_direct_image mcpToolResult then Inr True
         else (case content_array mcpToolResult of
                 Some bs \<Rightarrow>
                   (case js_find is_image_part bs of
                      Inl e \<Rightarrow> Inl e
                    | Inr found \<Rightarrow> Inr (found \<noteq> None))
               | None \<Rightarrow> Inr False))
      else Inr False)"

text \<open>
  The loop over the content blocks (openai.js, lines 80-89; deepseek.js, lines 52-61;
  huggingface.js, lines 111-116): it returns the first text block that parses, and
  remembers the first text block on the way.
\<close>

datatype scan_result = Returned string | Fell "string option" | Threw js_error

fun scanTextParts ::
  "(string \<Rightarrow> json option) \<Rightarrow> string option \<Rightarrow> json list \<Rightarrow> scan_result" where
  "scanTextParts parse firstTextPartContent [] = Fell firstTextPartContent"
| "scanTextParts parse firstTextPartContent (part # rest) =
     (if part = JNull then Threw TypeError
      else if jget part ''type'' = Some (JStr ''text'') \<and> is_str_opt (jget part ''text'') then
        (let t = the (str_of (jget part ''text''));
             first' = (if firstTextPartContent = None then Some t else firstTextPartContent)
         in (case parse t of
               Some parsed \<Rightarrow> Returned t
             | None \<Rightarrow> scanTextParts parse first' rest))
      else scanTextParts parse firstTextPartContent rest)"

definition is_data_part :: "json \<Rightarrow> bool" where
  "is_data_part p = (jget p ''type'' = Some (JStr ''data'') \<and> jget p ''data'' \<noteq> None)"

text \<open>
  The summarising statements that the three adapters share word for word: a string
  passes; a content array is searched; everything else is serialised whole.
\<close>

definition summarizeToolResult ::
  "(string \<Rightarrow> json option) \<Rightarrow> (json \<Rightarrow> string) \<Rightarrow> json \<Rightarrow> js_error + string" where
  "summarizeToolResult parse stringify mcpToolResult =
     (case mcpToolResult of
        JStr s \<Rightarrow> Inr s
      | _ \<Rightarrow>
         (case (if truthy mcpToolResult then content_array mcpToolResult else None) of
            Some bs \<Rightarrow>
              (case scanTextParts parse None bs of
                 Threw e \<Rightarrow> Inl e
               | Returned t \<Rightarrow> Inr t
               | Fell firstTextPartContent \<Rightarrow>
                   (case js_find is_data_part bs of
                      Inl e \<Rightarrow> Inl e
                    | Inr (Some dataPart) \<Rightarrow> Inr (stringify (the (jget dataPart ''data'')))
                    | Inr None \<Rightarrow>
                        (case firstTextPartContent of
                           Some t \<Rightarrow> Inr t
                         | None \<Rightarrow> Inr (stringify mcpToolResult))))
          | None \<Rightarrow> Inr (stringify mcpToolResult)))"

definition image_placeholder :: string where
  "image_placeholder = ''Tool execution was successful. Output includes image data, which will be processed separately if applicable by the client.''"

definition convertToolResultForDeepSeek ::
  "(string \<Rightarrow> json option) \<Rightarrow> (json \<Rightarrow> string) \<Rightarrow> json \<Rightarrow> js_error + string" where
  "convertToolResultForDeepSeek parse stringify mcpToolResult =
     summarizeToolResult parse stringify mcpToolResult"

definition convertToolResultForOpenAI ::
  "(string \<Rightarrow> json option) \<Rightarrow> (json \<Rightarrow> string) \<Rightarrow> json \<Rightarrow> js_error + string" where
  "convertToolResultForOpenAI parse stringify mcpToolResult =
     (case hasImage mcpToolResult of
        Inl e \<Rightarrow> Inl e
      | Inr True \<Rightarrow> Inr image_placeholder
      | Inr False \<Rightarrow> summarizeToolResult parse stringify mcpToolResult)"


subsection \<open>The conversion as the specification words it\<close>





section \<open>Images in tool results (mcp-client.js)\<close>

definition startsWith :: "string \<Rightarrow> string \<Rightarrow> bool" where
  "startsWith s p = (take (length p) s = p)"

text \<open>
  \<^verbatim>\<open>s.substring(s.indexOf(',') + 1)\<close>: the text after the first comma; the whole
  string when there is no comma (\<^verbatim>\<open>indexOf\<close> is -1 then).
\<close>

definition after_first_comma :: "string \<Rightarrow> string" where
  "after_first_comma s =
     (case dropWhile (\<lambda>c. c \<noteq> CHR '','') s of [] \<Rightarrow> s | c # rest \<Rightarrow> rest)"

definition raw_base64 :: "string \<Rightarrow> string" where
  "raw_base64 base64Data =
     (if startsWith base64Data ''data:'' then after_first_comma base64Data else base64Data)"

definition is_mcp_image_part :: "json \<Rightarrow> bool" where
  "is_mcp_image_part p =
     (jget p ''type'' = Some (JStr ''image'') \<and> is_str_opt (jget p ''data'')
      \<and> is_str_opt (jget p ''mimeType''))"

text \<open>
  \<^verbatim>\<open>_extractImageFromMcpToolResult\<close> (mcp-client.js, lines 731-765). The result is
  the pair of the raw base64 text and the media type, or \<^verbatim>\<open>null\<close>.
\<close>

definition extractImageFromMcpToolResult :: "json \<Rightarrow> js_error + (string \<times> string) option" where
  "extractImageFromMcpToolResult toolResultContent =
     (if \<not> truthy toolResultContent \<or> \<not> typeof_object toolResultContent then Inr None
      else
        (let imageObj = (if truthy_opt (jget toolResultContent ''image'')
                         then the (jget toolResultContent ''image'') else toolResultContent)
         in if is_str_opt (jget imageObj ''base64Data'') \<and> is_str_opt (jget imageObj ''mimeType'')
            then Inr (Some (raw_base64 (the (str_of (jget imageObj ''base64Data''))),
                            the (str_of (jget imageObj ''mimeType''))))
            else (case jget toolResultContent ''content'' of
                    Some (JArr parts) \<Rightarrow>
                      (case js_find is_mcp_image_part parts of
                         Inl e \<Rightarrow> Inl e
                       | Inr (Some imagePart) \<Rightarrow>
                           Inr (Some (raw_base64 (the (str_of (jget imagePart ''data''))),
                                      the (str_of (jget imagePart ''mimeType''))))
                       | Inr None \<Rightarrow> Inr None)
                  | _ \<Rightarrow> Inr None)))"

text \<open>
  The synthetic user message that handleLLMResponse appends after a tool call whose
  result held an image (mcp-client.js, lines 847-869): the canonical image part of type
  \<^verbatim>\<open>image_mcp\<close> and a text part. It is appended only when both the base64 text and
  the media type are truthy.
\<close>

definition image_mcp_part :: "string \<Rightarrow> string \<Rightarrow> json" where
  "image_mcp_part mimeType base64Data =
     JObj [(''type'', JStr ''image_mcp''),
           (''source'', JObj [(''media_type'', JStr mimeType), (''data'', JStr base64Data)])]"

definition image_note :: "string \<Rightarrow> string" where
  "image_note toolName =
     ''[Image from tool '' @ [CHR 0x27] @ toolName @ [CHR 0x27]
       @ ''. This is the image content. You can now analyze this image.]''"

definition syntheticUserMessage :: "string \<Rightarrow> string \<Rightarrow> string \<Rightarrow> message" where
  "syntheticUserMessage toolName mimeType base64Data =
     \<lparr>msg_role = User,
      msg_content = JArr [image_mcp_part mimeType base64Data,
                          JObj [(''type'', JStr ''text''), (''text'', JStr (image_note toolName))]],
      msg_tool_calls = None, msg_tool_call_id = None, msg_name = None\<rparr>"

definition augmentation :: "string \<Rightarrow> json \<Rightarrow> js_error + message list" where
  "augmentation toolName toolResult =
     (case extractImageFromMcpToolResult toolResult of
        Inl e \<Rightarrow> Inl e
      | Inr None \<Rightarrow> Inr []
      | Inr (Some (base64Data, mimeType)) \<Rightarrow>
          (if base64Data \<noteq> [] \<and> mimeType \<noteq> []
           then Inr [syntheticUserMessage toolName mimeType base64Data] else Inr []))"

section \<open>The block-structured adapter (anthropic.js)\<close>

subsection \<open>Data URIs\<close>

definition is_alnum :: "char \<Rightarrow> bool" where
  "is_alnum c =
     (c \<in> set ''abcdefghijklmnopqrstuvwxyzABCDEFGHIJKLMNOPQRSTUVWXYZ0123456789'')"

text \<open>
  The regular expression \<^verbatim>\<open>/^data:[a-zA-Z0-9\/+]+;base64,/\<close> of convertToolResult:
  the length of the matched prefix, if it matches. A semicolon is not in the class, so
  the class run is the longest one.
\<close>

definition data_uri_prefix :: "(char \<Rightarrow> bool) \<Rightarrow> string \<Rightarrow> nat option" where
  "data_uri_prefix cls s =
     (if startsWith s ''data:'' then
        (let mt = takeWhile cls (drop 5 s); rest = dropWhile cls (drop 5 s)
         in if mt \<noteq> [] \<and> startsWith rest '';base64,'' then Some (5 + length mt + 8) else None)
      else None)"

definition anthropic_mime_class :: "char \<Rightarrow> bool" where
  "anthropic_mime_class c = (is_alnum c \<or> c = CHR ''/'' \<or> c = CHR ''+'')"

text \<open>
  \<^verbatim>\<open>if (re.test(base64Data)) base64Data = base64Data.replace(re, '')\<close>. The test
  converts a value that is not a string to text; such a value has no \<^verbatim>\<open>replace\<close>
  method, so a match raises TypeError.
\<close>

definition strip_data_uri :: "(char \<Rightarrow> bool) \<Rightarrow> json \<Rightarrow> js_error + json" where
  "strip_data_uri cls base64Data =
     (case data_uri_prefix cls (js_ToString base64Data) of
        None \<Rightarrow> Inr base64Data
      | Some n \<Rightarrow> (case base64Data of JStr s \<Rightarrow> Inr (JStr (drop n s)) | _ \<Rightarrow> Inl TypeError))"

definition text_block :: "string \<Rightarrow> json" where
  "text_block t = JObj [(''type'', JStr ''text''), (''text'', JStr t)]"

definition image_block :: "json \<Rightarrow> json \<Rightarrow> json" where
  "image_block mediaType base64Data =
     JObj [(''type'', JStr ''image''),
           (''source'', JObj [(''type'', JStr ''base64''), (''media_type'', mediaType),
                             (''data'', base64Data)])]"

subsection \<open>convertToolResult (anthropic.js, lines 194-276)\<close>

text \<open>\<^verbatim>\<open>typeof v === 'object' && v !== null\<close>.\<close>

definition nonnull_object_opt :: "json option \<Rightarrow> bool" where
  "nonnull_object_opt v = (case v of None \<Rightarrow> False | Some x \<Rightarrow> typeof_object x \<and> x \<noteq> JNull)"

text \<open>One turn of the loop over \<^verbatim>\<open>mcpToolResult.content\<close>: the blocks it pushes.\<close>

definition anthropic_part :: "(json \<Rightarrow> string) \<Rightarrow> json \<Rightarrow> js_error + json list" where
  "anthropic_part stringify part =
     (if part = JNull then Inl TypeError
      else if jget part ''type'' = Some (JStr ''text'') \<and> is_str_opt (jget part ''text'')
        then Inr [text_block (the (str_of (jget part ''text'')))]
      else if jget part ''type'' = Some (JStr ''image'') \<and> truthy_opt (jget part ''data'')
              \<and> truthy_opt (jget part ''mimeType'')
        then (case strip_data_uri anthropic_mime_class (the (jget part ''data'')) of
                Inl e \<Rightarrow> Inl e
              | Inr d \<Rightarrow> Inr [image_block (the (jget part ''mimeType'')) d])
      else if jget part ''type'' = Some (JStr ''data'') \<and> nonnull_object_opt (jget part ''data'')
        then Inr [text_block (stringify (the (jget part ''data'')))]
      else Inr [])"

fun anthropic_parts :: "(json \<Rightarrow> string) \<Rightarrow> json list \<Rightarrow> js_error + json list" where
  "anthropic_parts stringify [] = Inr []"
| "anthropic_parts stringify (part # rest) =
     (case anthropic_part stringify part of
        Inl e \<Rightarrow> Inl e
      | Inr bs \<Rightarrow>
          (case anthropic_parts stringify rest of
             Inl e \<Rightarrow> Inl e
           | Inr others \<Rightarrow> Inr (bs @ others)))"

text \<open>
  The end of convertToolResult: no block gives the empty string, a single text block its
  text, anything else the array of blocks.
\<close>

definition anthropic_content_result :: "json list \<Rightarrow> json" where
  "anthropic_content_result anthropicContent =
     (case anthropicContent of
        [] \<Rightarrow> JStr []
      | [b] \<Rightarrow> (if jget b ''type'' = Some (JStr ''text'') then the (jget b ''text'')
                 else JArr anthropicContent)
      | _ \<Rightarrow> JArr anthropicContent)"

fun without_image :: "json \<Rightarrow> (string \<times> json) list" where
  "without_image (JObj kvs) = filter (\<lambda>kv. fst kv \<noteq> ''image'') kvs"
| "without_image _ = []"

definition convertToolResult_anthropic :: "(json \<Rightarrow> string) \<Rightarrow> json \<Rightarrow> js_error + json" where
  "convertToolResult_anthropic stringify mcpToolResult =
     (case mcpToolResult of
        JStr s \<Rightarrow> Inr (JStr s)
      | _ \<Rightarrow>
        (case (if truthy mcpToolResult then content_array mcpToolResult else None) of
           Some parts \<Rightarrow>
             (case anthropic_parts stringify parts of
                Inl e \<Rightarrow> Inl e
              | Inr anthropicContent \<Rightarrow> Inr (anthropic_content_result anthropicContent))
         | None \<Rightarrow>
            (if truthy mcpToolResult \<and> truthy_opt (jget mcpToolResult ''image'')
                \<and> is_str_opt (jget2 mcpToolResult ''image'' ''base64Data'')
                \<and> truthy_opt (jget2 mcpToolResult ''image'' ''mimeType'')
             then
               (case strip_data_uri anthropic_mime_class
                       (the (jget2 mcpToolResult ''image'' ''base64Data'')) of
                  Inl e \<Rightarrow> Inl e
                | Inr d \<Rightarrow>
                    Inr (anthropic_content_result
                           (image_block (the (jget2 mcpToolResult ''image'' ''mimeType'')) d
                            # (if without_image mcpToolResult \<noteq> []
                               then [text_block (stringify (JObj (without_image mcpToolResult)))]
                               else []))))
             else if typeof_object mcpToolResult \<and> mcpToolResult \<noteq> JNull
               then Inr (JStr (stringify mcpToolResult))
             else Inr (JStr (js_ToString mcpToolResult)))))"

subsection \<open>User content (anthropic.js, lines 284-339)\<close>

definition word_class :: "char \<Rightarrow> bool" where
  "word_class c =
     (is_alnum c \<or> c = CHR ''_'' \<or> c = CHR ''/'' \<or> c = CHR ''-'' \<or> c = CHR ''.'')"

text \<open>
  \<^verbatim>\<open>_parseDataUrl\<close>: the regular expression
  \<^verbatim>\<open>/^data:([\w\/\-\.]+);base64,(.*)$/\<close>; the payload may not hold a line break.
\<close>

definition parseDataUrl :: "string \<Rightarrow> (string \<times> string) option" where
  "parseDataUrl dataUrl =
     (case data_uri_prefix word_class dataUrl of
        None \<Rightarrow> None
      | Some n \<Rightarrow>
          (if list_all (\<lambda>c. c \<noteq> CHR 0x0A \<and> c \<noteq> CHR 0x0D) (drop n dataUrl)
           then Some (takeWhile word_class (drop 5 dataUrl), drop n dataUrl)
           else None))"

text \<open>
  One part of a user message's content array: the blocks that the callback of
  \<^verbatim>\<open>forEach\<close> pushes. The callback reads \<^verbatim>\<open>part.type\<close> first, which raises
  TypeError for a part that is \<^verbatim>\<open>null\<close>.
\<close>

definition anthropic_user_part :: "json \<Rightarrow> js_error + json list" where
  "anthropic_user_part part =
     (if part = JNull then Inl TypeError
      else if jget part ''type'' = Some (JStr ''text'') \<and> is_str_opt (jget part ''text'')
        then Inr [text_block (the (str_of (jget part ''text'')))]
      else if jget part ''type'' = Some (JStr ''image'') \<and> truthy_opt (jget part ''source'')
              \<and> jget2 part ''source'' ''type'' = Some (JStr ''base64'')
        then Inr [part]
      else if jget part ''type'' = Some (JStr ''image_url'') \<and> truthy_opt (jget part ''image_url'')
              \<and> is_str_opt (jget2 part ''image_url'' ''url'')
        then (case parseDataUrl (the (str_of (jget2 part ''image_url'' ''url''))) of
                Some (mimeType, base64Data) \<Rightarrow>
                  (if mimeType \<noteq> [] \<and> base64Data \<noteq> []
                   then Inr [image_block (JStr mimeType) (JStr base64Data)] else Inr [])
              | None \<Rightarrow> Inr [])
      else if jget part ''type'' = Some (JStr ''image_mcp'') \<and> truthy_opt (jget part ''source'')
              \<and> truthy_opt (jget2 part ''source'' ''media_type'')
              \<and> truthy_opt (jget2 part ''source'' ''data'')
        then Inr [image_block (the (jget2 part ''source'' ''media_type''))
                              (the (jget2 part ''source'' ''data''))]
      else Inr [])"

fun anthropic_user_parts :: "json list \<Rightarrow> js_error + json list" where
  "anthropic_user_parts [] = Inr []"
| "anthropic_user_parts (part # rest) =
     (case anthropic_user_part part of
        Inl e \<Rightarrow> Inl e
      | Inr bs \<Rightarrow>
          (case anthropic_user_parts rest of
             Inl e \<Rightarrow> Inl e
           | Inr others \<Rightarrow> Inr (bs @ others)))"

definition convertUserContentForAnthropic :: "json \<Rightarrow> js_error + json list" where
  "convertUserContentForAnthropic messageContent =
     (case messageContent of
        JStr s \<Rightarrow> Inr [text_block s]
      | JArr parts \<Rightarrow> anthropic_user_parts parts
      | _ \<Rightarrow> Inr [])"

subsection \<open>formatConversation (anthropic.js, lines 45-148)\<close>

definition wire_message :: "string \<Rightarrow> json \<Rightarrow> json" where
  "wire_message r c = JObj [(''role'', JStr r), (''content'', c)]"

text \<open>
  \<^verbatim>\<open>toolResultsMap\<close> is an object literal used as a dictionary, so its keys live
  beside the properties that every object inherits. \<open>own_results\<close> are the assignments,
  the latest in front. An assignment to the key \<^verbatim>\<open>__proto__\<close> creates no property: it
  replaces the prototype when the value is an array and does nothing when the value is
  a string (convertToolResult returns nothing but strings and arrays);
  \<open>replaced_prototype\<close> is that array.
\<close>

record tool_results_map =
  own_results :: "(string \<times> json) list"
  replaced_prototype :: "json list option"

definition empty_map :: tool_results_map where
  "empty_map = \<lparr>own_results = [], replaced_prototype = None\<rparr>"

definition map_assign :: "string \<Rightarrow> json \<Rightarrow> tool_results_map \<Rightarrow> tool_results_map" where
  "map_assign k v m =
     (if k = ''__proto__''
      then (case v of JArr bs \<Rightarrow> m\<lparr>replaced_prototype := Some bs\<rparr> | _ \<Rightarrow> m)
      else m\<lparr>own_results := (k, v) # own_results m\<rparr>)"

text \<open>
  The names that \<^verbatim>\<open>Object.prototype\<close> and \<^verbatim>\<open>Array.prototype\<close> (ECMAScript 2023)
  define, \<^verbatim>\<open>__proto__\<close> apart; each of them is a function.
\<close>

definition object_prototype_names :: "string list" where
  "object_prototype_names =
     [''constructor'', ''__defineGetter__'', ''__defineSetter__'', ''hasOwnProperty'',
      ''__lookupGetter__'', ''__lookupSetter__'', ''isPrototypeOf'', ''propertyIsEnumerable'',
      ''toString'', ''valueOf'', ''toLocaleString'']"

definition array_prototype_names :: "string list" where
  "array_prototype_names =
     [''at'', ''concat'', ''copyWithin'', ''fill'', ''find'', ''findIndex'', ''findLast'',
      ''findLastIndex'', ''lastIndexOf'', ''pop'', ''push'', ''reverse'', ''shift'', ''unshift'',
      ''slice'', ''sort'', ''splice'', ''includes'', ''indexOf'', ''join'', ''keys'', ''entries'',
      ''values'', ''forEach'', ''filter'', ''flat'', ''flatMap'', ''map'', ''every'', ''some'',
      ''reduce'', ''reduceRight'', ''toReversed'', ''toSorted'', ''toSpliced'', ''with'']"

text \<open>
  What the read \<^verbatim>\<open>toolResultsMap[k]\<close> finds: nothing, an inherited function, or a
  value. Under \<^verbatim>\<open>__proto__\<close> it finds the prototype itself: \<^verbatim>\<open>Object.prototype\<close>,
  an object without enumerable properties, or the array that replaced it. An array as
  prototype lends its elements under their indices and its length.
\<close>

datatype slot = Absent | Function | Value json

definition map_read :: "tool_results_map \<Rightarrow> string \<Rightarrow> slot" where
  "map_read m k =
     (if k = ''__proto__''
      then Value (case replaced_prototype m of None \<Rightarrow> JObj [] | Some bs \<Rightarrow> JArr bs)
      else
        (case map_of (own_results m) k of
           Some v \<Rightarrow> Value v
         | None \<Rightarrow>
            (case replaced_prototype m of
               None \<Rightarrow> (if k \<in> set object_prototype_names then Function else Absent)
             | Some bs \<Rightarrow>
                 (case find (\<lambda>i. show_nat i = k) [0..<length bs] of
                    Some i \<Rightarrow> Value (bs ! i)
                  | None \<Rightarrow>
                     (if k = ''length'' then Value (JNum (show_nat (length bs)))
                      else if k \<in> set array_prototype_names \<or> k \<in> set object_prototype_names
                      then Function else Absent)))))"

text \<open>
  First pass: \<^verbatim>\<open>toolResultsMap[message.tool_call_id] = this.convertToolResult(...)\<close>
  for every tool message with a truthy id.
\<close>

fun collectToolResults ::
  "(json \<Rightarrow> string) \<Rightarrow> tool_results_map \<Rightarrow> message list \<Rightarrow> js_error + tool_results_map" where
  "collectToolResults stringify toolResultsMap [] = Inr toolResultsMap"
| "collectToolResults stringify toolResultsMap (message # rest) =
     (if msg_role message = Tool \<and> msg_tool_call_id message \<noteq> None
         \<and> the (msg_tool_call_id message) \<noteq> []
      then (case convertToolResult_anthropic stringify (msg_content message) of
              Inl e \<Rightarrow> Inl e
            | Inr c \<Rightarrow>
                collectToolResults stringify
                  (map_assign (the (msg_tool_call_id message)) c toolResultsMap) rest)
      else collectToolResults stringify toolResultsMap rest)"

definition tool_use_block :: "tool_call \<Rightarrow> json" where
  "tool_use_block toolCall =
     JObj [(''type'', JStr ''tool_use''), (''id'', JStr (tc_id toolCall)),
           (''name'', JStr (tc_name toolCall)),
           (''input'', if truthy (tc_args toolCall) then tc_args toolCall else JObj [])]"

text \<open>
  A wire message is what \<^verbatim>\<open>JSON.stringify\<close> sends of it: a property whose value is a
  function is left out, like one whose value is \<^verbatim>\<open>undefined\<close>.
\<close>

definition tool_result_block :: "string \<Rightarrow> slot \<Rightarrow> json" where
  "tool_result_block toolUseId toolResultForThisCall =
     JObj ([(''type'', JStr ''tool_result''), (''tool_use_id'', JStr toolUseId)]
           @ (case toolResultForThisCall of Value c \<Rightarrow> [(''content'', c)] | _ \<Rightarrow> []))"

definition truthy_slot :: "slot \<Rightarrow> bool" where
  "truthy_slot x = (case x of Absent \<Rightarrow> False | Function \<Rightarrow> True | Value v \<Rightarrow> truthy v)"

text \<open>
  The loop over the tool calls of an assistant message: the blocks it adds to
  \<^verbatim>\<open>pendingToolResults\<close>. A call whose entry in the map is not truthy adds none.
\<close>

fun pending_of_calls :: "tool_results_map \<Rightarrow> tool_call list \<Rightarrow> json list" where
  "pending_of_calls toolResultsMap [] = []"
| "pending_of_calls toolResultsMap (toolCall # rest) =
     (let toolResultForThisCall = map_read toolResultsMap (tc_id toolCall)
      in if truthy_slot toolResultForThisCall
         then tool_result_block (tc_id toolCall) toolResultForThisCall
                # pending_of_calls toolResultsMap rest
         else pending_of_calls toolResultsMap rest)"

definition calls_of :: "message \<Rightarrow> tool_call list" where
  "calls_of message = (case msg_tool_calls message of None \<Rightarrow> [] | Some tcs \<Rightarrow> tcs)"

text \<open>
  \<^verbatim>\<open>content && typeof content === 'string' && content.trim() !== ''\<close>, giving the
  text.
\<close>

definition nonblank_text :: "json \<Rightarrow> string option" where
  "nonblank_text c =
     (case c of JStr s \<Rightarrow> (if list_all is_js_space s then None else Some s) | _ \<Rightarrow> None)"

definition assistantContent :: "message \<Rightarrow> json list" where
  "assistantContent message =
     (case nonblank_text (msg_content message) of Some s \<Rightarrow> [text_block s] | None \<Rightarrow> [])
     @ map tool_use_block (calls_of message)"

definition anthropic_assistant_turn :: "message \<Rightarrow> json list" where
  "anthropic_assistant_turn message =
     (if assistantContent message \<noteq> []
      then [wire_message ''assistant'' (JArr (assistantContent message))] else [])"

definition anthropic_user_turn :: "message \<Rightarrow> js_error + json list" where
  "anthropic_user_turn message =
     (case convertUserContentForAnthropic (msg_content message) of
        Inl e \<Rightarrow> Inl e
      | Inr processedUserContent \<Rightarrow>
          Inr (if processedUserContent \<noteq> []
               then [wire_message ''user'' (JArr processedUserContent)]
               else (case msg_content message of
                       JStr s \<Rightarrow> [wire_message ''user'' (JStr s)]
                     | _ \<Rightarrow> [])))"

definition flush :: "json list \<Rightarrow> json list" where
  "flush pendingToolResults =
     (if pendingToolResults \<noteq> [] then [wire_message ''user'' (JArr pendingToolResults)] else [])"

text \<open>
  Second pass. The result is the list of the messages pushed to
  \<^verbatim>\<open>formattedMessages\<close> from the current position on; \<open>pending\<close> is
  \<^verbatim>\<open>pendingToolResults\<close>. The test \<^verbatim>\<open>i === length - 1 || history[i+1]?.role !== 'user'\<close>
  looks at the rest of the list.
\<close>

fun anthropic_loop ::
  "tool_results_map \<Rightarrow> json list \<Rightarrow> message list \<Rightarrow> js_error + json list" where
  "anthropic_loop toolResultsMap pending [] = Inr (flush pending)"
| "anthropic_loop toolResultsMap pending (message # rest) =
     (case msg_role message of
        User \<Rightarrow>
          (case anthropic_user_turn message of
             Inl e \<Rightarrow> Inl e
           | Inr turn \<Rightarrow>
               (case anthropic_loop toolResultsMap [] rest of
                  Inl e \<Rightarrow> Inl e
                | Inr others \<Rightarrow> Inr (flush pending @ turn @ others)))
      | Assistant \<Rightarrow>
          (let pending' = pending @ pending_of_calls toolResultsMap (calls_of message)
           in if pending' \<noteq> [] \<and> (rest = [] \<or> msg_role (hd rest) \<noteq> User)
              then (case anthropic_loop toolResultsMap [] rest of
                      Inl e \<Rightarrow> Inl e
                    | Inr others \<Rightarrow>
                        Inr (anthropic_assistant_turn message @ flush pending' @ others))
              else (case anthropic_loop toolResultsMap pending' rest of
                      Inl e \<Rightarrow> Inl e
                    | Inr others \<Rightarrow> Inr (anthropic_assistant_turn message @ others)))
      | _ \<Rightarrow> anthropic_loop toolResultsMap pending rest)"

definition formatConversation_anthropic :: "(json \<Rightarrow> string) \<Rightarrow> message list \<Rightarrow> js_error + json list" where
  "formatConversation_anthropic stringify conversationHistory =
     (case collectToolResults stringify empty_map conversationHistory of
        Inl e \<Rightarrow> Inl e
      | Inr toolResultsMap \<Rightarrow> anthropic_loop toolResultsMap [] conversationHistory)"

section \<open>The OpenAI adapter (openai.js)\<close>

text \<open>
  The regular expression of extractImageFromToolResult is written
  \<^verbatim>\<open>/^data:[a-zA-Z0-9\\/\\+]+;base64,/\<close>: its class also holds the backslash.
\<close>

definition openai_mime_class :: "char \<Rightarrow> bool" where
  "openai_mime_class c = (is_alnum c \<or> c = CHR 0x5C \<or> c = CHR ''/'' \<or> c = CHR ''+'')"

record image_details =
  base64ImageData :: "string option"
  mimeType :: "json option"

definition no_image :: image_details where
  "no_image = \<lparr>base64ImageData = None, mimeType = None\<rparr>"

text \<open>
  The search that extractImageFromToolResult starts with, the same statements in the
  OpenAI adapter (openai.js, lines 113-129) and the Google adapter (huggingface.js, lines
  588-605): a direct \<^verbatim>\<open>image\<close> property first, else the first image part of the
  content array.
\<close>

definition locate_image :: "json \<Rightarrow> js_error + image_details" where
  "locate_image toolCallResult =
     (if truthy toolCallResult \<and> typeof_object toolCallResult then
        (if has_direct_image toolCallResult
         then Inr \<lparr>base64ImageData = str_of (jget2 toolCallResult ''image'' ''base64Data''),
                  mimeType = jget2 toolCallResult ''image'' ''mimeType''\<rparr>
         else (case content_array toolCallResult of
                 Some parts \<Rightarrow>
                   (case js_find is_image_part parts of
                      Inl e \<Rightarrow> Inl e
                    | Inr (Some imageContentPart) \<Rightarrow>
                        Inr \<lparr>base64ImageData = str_of (jget imageContentPart ''data''),
                             mimeType = jget imageContentPart ''mimeType''\<rparr>
                    | Inr None \<Rightarrow> Inr no_image)
               | None \<Rightarrow> Inr no_image))
      else Inr no_image)"

text \<open>
  \<open>image_found\<close> is the test \<^verbatim>\<open>base64ImageData && mimeType\<close>, made inside the
  function and again by its callers.
\<close>

definition image_found :: "image_details \<Rightarrow> bool" where
  "image_found d =
     (base64ImageData d \<noteq> None \<and> the (base64ImageData d) \<noteq> [] \<and> truthy_opt (mimeType d))"

definition strip_image_prefix :: "image_details \<Rightarrow> image_details" where
  "strip_image_prefix d =
     (case data_uri_prefix openai_mime_class (the (base64ImageData d)) of
        Some n \<Rightarrow> d\<lparr>base64ImageData := Some (drop n (the (base64ImageData d)))\<rparr>
      | None \<Rightarrow> d)"

text \<open>
  OpenAIProvider.extractImageFromToolResult (openai.js, lines 109-142): the prefix is
  stripped when both fields are truthy; otherwise the fields are returned as found.
\<close>

definition extractImageFromToolResult_openai :: "json \<Rightarrow> js_error + image_details" where
  "extractImageFromToolResult_openai toolCallResult =
     (case locate_image toolCallResult of
        Inl e \<Rightarrow> Inl e
      | Inr d \<Rightarrow> (if image_found d then Inr (strip_image_prefix d) else Inr d))"

definition image_url_part :: "string \<Rightarrow> json" where
  "image_url_part url =
     JObj [(''type'', JStr ''image_url''), (''image_url'', JObj [(''url'', JStr url)])]"

text \<open>A template literal applies ToString; an absent value reads \<^verbatim>\<open>undefined\<close>.\<close>

definition interpolate :: "json option \<Rightarrow> string" where
  "interpolate v = (case v of None \<Rightarrow> ''undefined'' | Some x \<Rightarrow> js_ToString x)"

definition data_url :: "json option \<Rightarrow> json option \<Rightarrow> string" where
  "data_url mediaType base64Data =
     ''data:'' @ interpolate mediaType @ '';base64,'' @ interpolate base64Data"

text \<open>
  prepareImageMessageContent (openai.js, lines 151-161).
\<close>

definition prepareImageMessageContent :: "string \<Rightarrow> json \<Rightarrow> string \<Rightarrow> json" where
  "prepareImageMessageContent base64Data mediaType textPrompt =
     JArr [text_block textPrompt, image_url_part (data_url (Some mediaType) (Some (JStr base64Data)))]"

text \<open>
  The blocks inside an Anthropic-style \<^verbatim>\<open>tool_result\<close> part met in a user message
  (openai.js, lines 216-231): the last image and the texts, in one pass.
\<close>

definition is_nested_image :: "json \<Rightarrow> bool" where
  "is_nested_image b =
     (jget b ''type'' = Some (JStr ''image'') \<and> truthy_opt (jget b ''source'')
      \<and> jget2 b ''source'' ''type'' = Some (JStr ''base64'')
      \<and> is_str_opt (jget2 b ''source'' ''media_type'')
      \<and> is_str_opt (jget2 b ''source'' ''data''))"

fun nested_blocks ::
  "json option \<Rightarrow> string list \<Rightarrow> json list \<Rightarrow> js_error + (json option \<times> string list)" where
  "nested_blocks img texts [] = Inr (img, texts)"
| "nested_blocks img texts (innerBlock # rest) =
     (if innerBlock = JNull then Inl TypeError
      else if is_nested_image innerBlock
        then nested_blocks
               (Some (image_url_part (data_url (jget2 innerBlock ''source'' ''media_type'')
                                               (jget2 innerBlock ''source'' ''data''))))
               texts rest
      else if jget innerBlock ''type'' = Some (JStr ''text'') \<and> is_str_opt (jget innerBlock ''text'')
        then nested_blocks img (texts @ [the (str_of (jget innerBlock ''text''))]) rest
      else nested_blocks img texts rest)"

definition newline :: string where
  "newline = [CHR 0x0A]"

definition openai_tool_result_part :: "json \<Rightarrow> js_error + json list" where
  "openai_tool_result_part part =
     (case (case the (jget part ''content'') of
              JArr inner \<Rightarrow> nested_blocks None [] inner
            | JObj kvs \<Rightarrow>
                (if jget (JObj kvs) ''type'' = Some (JStr ''image'')
                    \<and> truthy_opt (jget (JObj kvs) ''source'')
                    \<and> jget2 (JObj kvs) ''source'' ''type'' = Some (JStr ''base64'')
                 then Inr (Some (image_url_part
                                  (data_url (jget2 (JObj kvs) ''source'' ''media_type'')
                                            (jget2 (JObj kvs) ''source'' ''data''))), [])
                 else Inr (None, []))
            | JStr s \<Rightarrow> Inr (None, [s])
            | _ \<Rightarrow> Inr (None, [])) of
        Inl e \<Rightarrow> Inl e
      | Inr (Some tempImagePartForOpenAI, texts) \<Rightarrow>
          Inr [text_block (''A previous operation returned an image. Original information: ''
                  @ [CHR 0x22] @ intercalate newline texts @ [CHR 0x22]
                  @ ''. The image is provided here. Please analyze it if relevant to the current or next user query. You are capable of identifying elements and their pixel coordinates (x,y from top-left).''),
               tempImagePartForOpenAI]
      | Inr (None, texts) \<Rightarrow>
          (if texts \<noteq> []
           then Inr [text_block (''(Tool '' @ interpolate (jget part ''tool_use_id'') @ '' result: ''
                        @ intercalate newline texts @ '')'')]
           else Inr [text_block (''(Tool '' @ interpolate (jget part ''tool_use_id'')
                        @ '' provided a result of unhandled structure or empty.)'')]))"

text \<open>
  One part of a user message's content array (openai.js, lines 188-258), in the order
  of the source's tests; the first test reads \<^verbatim>\<open>part.type\<close>, which raises TypeError
  for a part that is \<^verbatim>\<open>null\<close>.
\<close>

definition openai_user_part :: "json \<Rightarrow> js_error + json list" where
  "openai_user_part part =
     (if part = JNull then Inl TypeError
      else if jget part ''type'' = Some (JStr ''text'') \<and> is_str_opt (jget part ''text'')
        then Inr [part]
      else if jget part ''type'' = Some (JStr ''image_url'') \<and> truthy_opt (jget part ''image_url'')
              \<and> is_str_opt (jget2 part ''image_url'' ''url'')
        then Inr [part]
      else if jget part ''type'' = Some (JStr ''image'') \<and> truthy_opt (jget part ''source'')
              \<and> jget2 part ''source'' ''type'' = Some (JStr ''base64'')
              \<and> truthy_opt (jget2 part ''source'' ''media_type'')
              \<and> truthy_opt (jget2 part ''source'' ''data'')
        then Inr [image_url_part (data_url (jget2 part ''source'' ''media_type'')
                                           (jget2 part ''source'' ''data''))]
      else if jget part ''type'' = Some (JStr ''image_mcp'') \<and> truthy_opt (jget part ''source'')
              \<and> truthy_opt (jget2 part ''source'' ''media_type'')
              \<and> truthy_opt (jget2 part ''source'' ''data'')
        then Inr [image_url_part (data_url (jget2 part ''source'' ''media_type'')
                                           (jget2 part ''source'' ''data''))]
      else if jget part ''type'' = Some (JStr ''tool_result'') \<and> truthy_opt (jget part ''tool_use_id'')
              \<and> jget part ''content'' \<noteq> None
        then openai_tool_result_part part
      else Inr [])"

fun openai_user_parts :: "json list \<Rightarrow> js_error + json list" where
  "openai_user_parts [] = Inr []"
| "openai_user_parts (part # rest) =
     (case openai_user_part part of
        Inl e \<Rightarrow> Inl e
      | Inr bs \<Rightarrow>
          (case openai_user_parts rest of
             Inl e \<Rightarrow> Inl e
           | Inr others \<Rightarrow> Inr (bs @ others)))"

text \<open>
  The body of formatConversation's loop for a user message (openai.js, lines 184-270):
  the messages it pushes. A content array that keeps no part becomes the empty string.
\<close>

definition openai_user_turn :: "message \<Rightarrow> js_error + json list" where
  "openai_user_turn message =
     (case msg_content message of
        JArr parts \<Rightarrow>
          (case openai_user_parts parts of
             Inl e \<Rightarrow> Inl e
           | Inr newContentArray \<Rightarrow>
               Inr [wire_message ''user''
                      (if newContentArray \<noteq> [] then JArr newContentArray else JStr [])])
      | JStr s \<Rightarrow> Inr [wire_message ''user'' (JStr s)]
      | _ \<Rightarrow> Inr [])"


subsection \<open>formatConversation (openai.js, lines 163-353)\<close>

text \<open>
  An assistant message (openai.js, lines 271-293; deepseek.js, lines 102-132, has the
  same statements): the content is the text or \<^verbatim>\<open>null\<close>, the tool calls are added
  when there are any, and the message is pushed when it has either.
\<close>

definition wire_tool_call :: "(json \<Rightarrow> string) \<Rightarrow> tool_call \<Rightarrow> json" where
  "wire_tool_call stringify tc =
     JObj [(''id'', JStr (tc_id tc)), (''type'', JStr ''function''),
           (''function'',
            JObj [(''name'', JStr (tc_name tc)),
                  (''arguments'',
                   JStr (case tc_args tc of
                           JStr s \<Rightarrow> s
                         | _ \<Rightarrow> stringify (if truthy (tc_args tc) then tc_args tc else JObj [])))])]"

definition openai_assistant_turn :: "(json \<Rightarrow> string) \<Rightarrow> message \<Rightarrow> json list" where
  "openai_assistant_turn stringify message =
     (if nonblank_text (msg_content message) \<noteq> None \<or> calls_of message \<noteq> []
      then [JObj ([(''role'', JStr ''assistant''),
                   (''content'', (case nonblank_text (msg_content message) of
                                    Some s \<Rightarrow> JStr s | None \<Rightarrow> JNull))]
                  @ (if calls_of message \<noteq> []
                     then [(''tool_calls'', JArr (map (wire_tool_call stringify) (calls_of message)))]
                     else []))]
      else [])"

definition opt_text :: "string option \<Rightarrow> string" where
  "opt_text v = (case v of None \<Rightarrow> ''undefined'' | Some s \<Rightarrow> s)"

definition truthy_str :: "string option \<Rightarrow> bool" where
  "truthy_str v = (case v of None \<Rightarrow> False | Some s \<Rightarrow> s \<noteq> [])"

definition quote :: string where
  "quote = [CHR 0x27]"

definition dquote :: string where
  "dquote = [CHR 0x22]"

text \<open>
  The text that the image prompt of a tool message quotes (openai.js, lines 311-334).
  The default names the tool. A content array gives the text of its first part of type
  \<^verbatim>\<open>text\<close>, when that text is truthy; any other object gives the first of its
  properties \<^verbatim>\<open>text\<close>, \<^verbatim>\<open>summary\<close>, \<^verbatim>\<open>description\<close>, \<^verbatim>\<open>message\<close> that is a
  string, else the serialisation of what is left of it without \<^verbatim>\<open>image\<close>,
  \<^verbatim>\<open>base64Data\<close>, \<^verbatim>\<open>data\<close> and \<^verbatim>\<open>content\<close>, when anything is left (the
  spread of an array has its elements under their indices). The value found under
  \<^verbatim>\<open>textPart.text\<close> need not be a string.
\<close>

definition default_image_text :: "string option \<Rightarrow> string" where
  "default_image_text toolName = ''Image captured by tool '' @ quote @ opt_text toolName @ quote @ ''.''"

definition is_text_typed :: "json \<Rightarrow> bool" where
  "is_text_typed p = (jget p ''type'' = Some (JStr ''text''))"

definition stripped_object :: "json \<Rightarrow> (string \<times> json) list" where
  "stripped_object c =
     (case c of
        JObj kvs \<Rightarrow> filter (\<lambda>kv. fst kv \<notin> set [''image'', ''base64Data'', ''data'', ''content'']) kvs
      | JArr xs \<Rightarrow> zip (map show_nat [0..<length xs]) xs
      | _ \<Rightarrow> [])"

definition textualContentFromToolResult ::
  "(json \<Rightarrow> string) \<Rightarrow> message \<Rightarrow> js_error + json" where
  "textualContentFromToolResult stringify message =
     (let c = msg_content message; dflt = default_image_text (msg_name message)
      in case (if truthy c then jget c ''content'' else None) of
           Some (JArr parts) \<Rightarrow>
             (case js_find is_text_typed parts of
                Inl e \<Rightarrow> Inl e
              | Inr (Some textPart) \<Rightarrow>
                  (if truthy_opt (jget textPart ''text'') then Inr (the (jget textPart ''text''))
                   else Inr (JStr dflt))
              | Inr None \<Rightarrow> Inr (JStr dflt))
         | _ \<Rightarrow>
             (case c of
                JStr s \<Rightarrow> Inr (JStr s)
              | _ \<Rightarrow>
                 (if truthy c \<and> typeof_object c then
                    (case find (\<lambda>field. is_str_opt (jget c field))
                            [''text'', ''summary'', ''description'', ''message''] of
                       Some field \<Rightarrow>
                         (if the (str_of (jget c field)) = dflt \<and> stripped_object c \<noteq> []
                          then Inr (JStr (stringify (JObj (stripped_object c))))
                          else Inr (JStr (the (str_of (jget c field)))))
                     | None \<Rightarrow>
                         (if stripped_object c \<noteq> []
                          then Inr (JStr (stringify (JObj (stripped_object c))))
                          else Inr (JStr dflt)))
                  else Inr (JStr dflt))))"

text \<open>
  The prompt (line 336) takes \<^verbatim>\<open>substring(0,150)\<close> of that text, a method that only
  a string has. The suffix is \<^verbatim>\<open>this.imageAnalysisPromptSuffix\<close>.
\<close>

definition historical_image_prompt ::
  "string option \<Rightarrow> message \<Rightarrow> string \<Rightarrow> string" where
  "historical_image_prompt suffix message t =
     ''The tool '' @ quote @ opt_text (msg_name message) @ quote @ '' (called with ID: ''
       @ (if truthy_str (msg_tool_call_id message) then the (msg_tool_call_id message) else ''N/A'')
       @ '') previously returned an image, and its summary has just been provided. Original textual information from tool: ''
       @ dquote @ take 150 t @ (if length t > 150 then ''...'' else []) @ dquote
       @ ''. This image is now being provided separately. '' @ opt_text suffix"

text \<open>
  A tool message (openai.js, lines 294-349): the message of role \<^verbatim>\<open>tool\<close> with the
  summary, and after it, when the tool result holds an image, a user message with the
  prompt and the image.
\<close>

definition opt_field :: "string \<Rightarrow> json option \<Rightarrow> (string \<times> json) list" where
  "opt_field k v = (case v of None \<Rightarrow> [] | Some x \<Rightarrow> [(k, x)])"

definition wire_tool_message :: "string option \<Rightarrow> string \<Rightarrow> json" where
  "wire_tool_message callId c =
     JObj ([(''role'', JStr ''tool'')] @ opt_field ''tool_call_id'' (map_option JStr callId)
           @ [(''content'', JStr c)])"

definition openai_tool_turn ::
  "(string \<Rightarrow> json option) \<Rightarrow> (json \<Rightarrow> string) \<Rightarrow> string option \<Rightarrow> message \<Rightarrow> js_error + json list" where
  "openai_tool_turn parse stringify suffix message =
     (case convertToolResultForOpenAI parse stringify (msg_content message) of
        Inl e \<Rightarrow> Inl e
      | Inr summary \<Rightarrow>
         (case extractImageFromToolResult_openai (msg_content message) of
            Inl e \<Rightarrow> Inl e
          | Inr d \<Rightarrow>
             (if image_found d then
                (case textualContentFromToolResult stringify message of
                   Inl e \<Rightarrow> Inl e
                 | Inr (JStr t) \<Rightarrow>
                     Inr [wire_tool_message (msg_tool_call_id message) summary,
                          wire_message ''user''
                            (JArr [text_block (historical_image_prompt suffix message t),
                                   image_url_part
                                     (data_url (mimeType d) (Some (JStr (the (base64ImageData d)))))])]
                 | Inr _ \<Rightarrow> Inl TypeError)
              else Inr [wire_tool_message (msg_tool_call_id message) summary])))"

text \<open>The messages that the loop pushes for one message of the history.\<close>

definition openai_turns ::
  "(string \<Rightarrow> json option) \<Rightarrow> (json \<Rightarrow> string) \<Rightarrow> string option \<Rightarrow> message \<Rightarrow> js_error + json list" where
  "openai_turns parse stringify suffix message =
     (case msg_role message of
        System \<Rightarrow> Inr []
      | User \<Rightarrow> openai_user_turn message
      | Assistant \<Rightarrow> Inr (openai_assistant_turn stringify message)
      | Tool \<Rightarrow> openai_tool_turn parse stringify suffix message)"

fun openai_loop ::
  "(string \<Rightarrow> json option) \<Rightarrow> (json \<Rightarrow> string) \<Rightarrow> string option \<Rightarrow> message list \<Rightarrow> js_error + json list" where
  "openai_loop parse stringify suffix [] = Inr []"
| "openai_loop parse stringify suffix (message # rest) =
     (case openai_turns parse stringify suffix message of
        Inl e \<Rightarrow> Inl e
      | Inr ts \<Rightarrow>
          (case openai_loop parse stringify suffix rest of
             Inl e \<Rightarrow> Inl e
           | Inr others \<Rightarrow> Inr (ts @ others)))"

text \<open>
  The system message goes first, when it is not empty and the history does not begin
  with a message of role \<^verbatim>\<open>system\<close>.
\<close>

definition system_turn :: "string \<Rightarrow> message list \<Rightarrow> json list" where
  "system_turn sysMsg conversationHistory =
     (if sysMsg \<noteq> [] \<and> (conversationHistory = [] \<or> msg_role (hd conversationHistory) \<noteq> System)
      then [wire_message ''system'' (JStr sysMsg)] else [])"

definition formatConversation_openai ::
  "(string \<Rightarrow> json option) \<Rightarrow> (json \<Rightarrow> string) \<Rightarrow> string \<Rightarrow> string option \<Rightarrow> message list
     \<Rightarrow> js_error + json list" where
  "formatConversation_openai parse stringify sysMsg suffix conversationHistory =
     (case openai_loop parse stringify suffix conversationHistory of
        Inl e \<Rightarrow> Inl e
      | Inr ms \<Rightarrow> Inr (system_turn sysMsg conversationHistory @ ms))"

section \<open>The reduced adapter (deepseek.js)\<close>

text \<open>
  A user message (deepseek.js, lines 87-101): a content array becomes the texts of its
  text parts, joined by line breaks, with a note when it held an image; any other
  content is passed on as it is.
\<close>

definition is_text_part :: "json \<Rightarrow> bool" where
  "is_text_part p = (jget p ''type'' = Some (JStr ''text'') \<and> is_str_opt (jget p ''text''))"

definition is_any_image_part :: "json \<Rightarrow> bool" where
  "is_any_image_part p =
     (jget p ''type'' = Some (JStr ''image_mcp'') \<or> jget p ''type'' = Some (JStr ''image_url'')
      \<or> jget p ''type'' = Some (JStr ''image''))"

definition deepseek_user_turn :: "message \<Rightarrow> js_error + json list" where
  "deepseek_user_turn message =
     (case msg_content message of
        JArr parts \<Rightarrow>
          (if JNull \<in> set parts then Inl TypeError
           else
             (let texts = map (\<lambda>p. the (str_of (jget p ''text''))) (filter is_text_part parts);
                  textSummary = intercalate newline texts;
                  withNote =
                    (if list_ex is_any_image_part parts
                     then textSummary @ (if textSummary \<noteq> [] then newline else [])
                            @ ''[Image data was present in history but not sent to DeepSeek provider]''
                     else textSummary)
              in Inr [wire_message ''user''
                        (JStr (if withNote \<noteq> [] then withNote
                               else ''[Unsupported multi-part user message content]''))]))
      | c \<Rightarrow> Inr [wire_message ''user'' c])"

definition deepseek_tool_turn ::
  "(string \<Rightarrow> json option) \<Rightarrow> (json \<Rightarrow> string) \<Rightarrow> message \<Rightarrow> js_error + json list" where
  "deepseek_tool_turn parse stringify message =
     (case convertToolResultForDeepSeek parse stringify (msg_content message) of
        Inl e \<Rightarrow> Inl e
      | Inr summary \<Rightarrow> Inr [wire_tool_message (msg_tool_call_id message) summary])"

definition deepseek_turns ::
  "(string \<Rightarrow> json option) \<Rightarrow> (json \<Rightarrow> string) \<Rightarrow> message \<Rightarrow> js_error + json list" where
  "deepseek_turns parse stringify message =
     (case msg_role message of
        System \<Rightarrow> Inr []
      | User \<Rightarrow> deepseek_user_turn message
      | Assistant \<Rightarrow> Inr (openai_assistant_turn stringify message)
      | Tool \<Rightarrow> deepseek_tool_turn parse stringify message)"

fun deepseek_loop ::
  "(string \<Rightarrow> json option) \<Rightarrow> (json \<Rightarrow> string) \<Rightarrow> message list \<Rightarrow> js_error + json list" where
  "deepseek_loop parse stringify [] = Inr []"
| "deepseek_loop parse stringify (message # rest) =
     (case deepseek_turns parse stringify message of
        Inl e \<Rightarrow> Inl e
      | Inr ts \<Rightarrow>
          (case deepseek_loop parse stringify rest of
             Inl e \<Rightarrow> Inl e
           | Inr others \<Rightarrow> Inr (ts @ others)))"

definition formatConversation_deepseek ::
  "(string \<Rightarrow> json option) \<Rightarrow> (json \<Rightarrow> string) \<Rightarrow> string \<Rightarrow> message list \<Rightarrow> js_error + json list" where
  "formatConversation_deepseek parse stringify sysMsg conversationHistory =
     (case deepseek_loop parse stringify conversationHistory of
        Inl e \<Rightarrow> Inl e
      | Inr ms \<Rightarrow> Inr (system_turn sysMsg conversationHistory @ ms))"
section \<open>The stateful-session adapter (GoogleProvider, in huggingface.js)\<close>

subsection \<open>convertToolResult (lines 537-582)\<close>

text \<open>
  The first loop: the first text part that parses decides the response data, wrapped
  unless it is a plain object.
\<close>

fun google_scan_text :: "(string \<Rightarrow> json option) \<Rightarrow> json list \<Rightarrow> js_error + json option" where
  "google_scan_text parse [] = Inr None"
| "google_scan_text parse (part # rest) =
     (if part = JNull then Inl TypeError
      else if jget part ''type'' = Some (JStr ''text'') \<and> is_str_opt (jget part ''text'') then
        (case parse (the (str_of (jget part ''text''))) of
           Some parsedJson \<Rightarrow>
             Inr (Some (case parsedJson of
                          JArr xs \<Rightarrow> JObj [(''result'', parsedJson)]
                        | JObj kvs \<Rightarrow> parsedJson
                        | _ \<Rightarrow> JObj [(''value'', parsedJson)]))
         | None \<Rightarrow> google_scan_text parse rest)
      else google_scan_text parse rest)"

definition is_object_data_part :: "json \<Rightarrow> bool" where
  "is_object_data_part p =
     (jget p ''type'' = Some (JStr ''data'') \<and> nonnull_object_opt (jget p ''data''))"

definition is_loose_image_part :: "json \<Rightarrow> bool" where
  "is_loose_image_part p =
     (jget p ''type'' = Some (JStr ''image'') \<and> truthy_opt (jget p ''data'')
      \<and> truthy_opt (jget p ''mimeType''))"

definition is_truthy_text_part :: "json \<Rightarrow> bool" where
  "is_truthy_text_part p = (jget p ''type'' = Some (JStr ''text'') \<and> truthy_opt (jget p ''text''))"

definition image_status :: string where
  "image_status = ''Image data provided separately to the model.''"

text \<open>
  \<^verbatim>\<open>textContentPart ? textContentPart.text.substring(0,100)+"..." : "Image content."\<close>;
  a truthy text that is not a string has no \<^verbatim>\<open>substring\<close> method.
\<close>

definition image_description :: "json option \<Rightarrow> js_error + string" where
  "image_description textContentPart =
     (case textContentPart of
        None \<Rightarrow> Inr ''Image content.''
      | Some t \<Rightarrow>
          (case jget t ''text'' of
             Some (JStr s) \<Rightarrow> Inr (take 100 s @ ''...'')
           | _ \<Rightarrow> Inl TypeError))"

text \<open>
  Object spread \<^verbatim>\<open>{...o, k: v}\<close>: an existing property keeps its place and takes the
  new value, a new property goes last.
\<close>

fun obj_set :: "(string \<times> json) list \<Rightarrow> string \<Rightarrow> json \<Rightarrow> (string \<times> json) list" where
  "obj_set [] k v = [(k, v)]"
| "obj_set ((k', v') # kvs) k v = (if k' = k then (k, v) # kvs else (k', v') # obj_set kvs k v)"

fun obj_without :: "string \<Rightarrow> json \<Rightarrow> (string \<times> json) list" where
  "obj_without k (JObj kvs) = filter (\<lambda>kv. fst kv \<noteq> k) kvs"
| "obj_without k _ = []"

text \<open>The content-array branch: the value of \<^verbatim>\<open>responseData\<close>, \<open>None\<close> for null.\<close>

definition google_content_data ::
  "(string \<Rightarrow> json option) \<Rightarrow> json list \<Rightarrow> js_error + json option" where
  "google_content_data parse parts =
     (case google_scan_text parse parts of
        Inl e \<Rightarrow> Inl e
      | Inr (Some d) \<Rightarrow> Inr (Some d)
      | Inr None \<Rightarrow>
         (case js_find is_object_data_part parts of
            Inl e \<Rightarrow> Inl e
          | Inr (Some dataPart) \<Rightarrow> Inr (jget dataPart ''data'')
          | Inr None \<Rightarrow>
             (case js_find is_loose_image_part parts of
                Inl e \<Rightarrow> Inl e
              | Inr imageContentPart \<Rightarrow>
                 (case js_find is_truthy_text_part parts of
                    Inl e \<Rightarrow> Inl e
                  | Inr textContentPart \<Rightarrow>
                     (case imageContentPart of
                        Some img \<Rightarrow>
                          (case image_description textContentPart of
                             Inl e \<Rightarrow> Inl e
                           | Inr description \<Rightarrow>
                               Inr (Some (JObj [(''image_captured_summary'',
                                  JObj [(''mime_type'', the (jget img ''mimeType'')),
                                        (''status'', JStr image_status),
                                        (''description'', JStr description)])])))
                      | None \<Rightarrow>
                          (if length parts > 0
                           then Inr (Some (JObj [(''mcpToolCallResponseContentSummary'',
                                  JStr (''Processed '' @ show_nat (length parts) @ '' parts.''))]))
                           else Inr None))))))"

definition google_response_data ::
  "(string \<Rightarrow> json option) \<Rightarrow> json \<Rightarrow> js_error + json option" where
  "google_response_data parse mcpToolResult =
     (case (if truthy mcpToolResult then content_array mcpToolResult else None) of
        Some parts \<Rightarrow> google_content_data parse parts
      | None \<Rightarrow>
         (if typeof_object mcpToolResult \<and> mcpToolResult \<noteq> JNull then
            (case mcpToolResult of
               JArr xs \<Rightarrow> Inr (Some (JObj [(''tool_result_array'', mcpToolResult)]))
             | _ \<Rightarrow>
                (if truthy_opt (jget mcpToolResult ''image'')
                    \<and> is_str_opt (jget2 mcpToolResult ''image'' ''base64Data'')
                 then Inr (Some (JObj (obj_set (obj_without ''image'' mcpToolResult) ''image_summary''
                        (JObj (obj_set (obj_without ''base64Data'' (the (jget mcpToolResult ''image'')))
                                 ''status'' (JStr image_status))))))
                 else Inr (Some mcpToolResult)))
          else (case mcpToolResult of
                  JStr s \<Rightarrow> Inr (Some (JObj [(''result'', JStr s)]))
                | _ \<Rightarrow> Inr (Some (JObj [(''result'', JStr (js_ToString mcpToolResult))])))))"

definition convertToolResult_google ::
  "(string \<Rightarrow> json option) \<Rightarrow> json \<Rightarrow> string option \<Rightarrow> js_error + json" where
  "convertToolResult_google parse mcpToolResult toolName =
     (case google_response_data parse mcpToolResult of
        Inl e \<Rightarrow> Inl e
      | Inr responseData \<Rightarrow>
          Inr (JObj [(''functionResponse'',
                 JObj (opt_field ''name'' (map_option JStr toolName)
                       @ [(''response'',
                           (if responseData = None \<or> \<not> typeof_object (the responseData)
                            then JObj [(''error'', JStr ''Failed to process tool result into valid object.'')]
                            else the responseData))]))]))"

text \<open>
  GoogleProvider.extractImageFromToolResult (lines 584-617): both fields, the prefix
  stripped, or both \<^verbatim>\<open>null\<close>.
\<close>

definition extractImageFromToolResult_google :: "json \<Rightarrow> js_error + image_details" where
  "extractImageFromToolResult_google mcpToolResult =
     (case locate_image mcpToolResult of
        Inl e \<Rightarrow> Inl e
      | Inr d \<Rightarrow> (if image_found d then Inr (strip_image_prefix d) else Inr no_image))"

subsection \<open>formatConversation (lines 397-471)\<close>

definition inline_data :: "json \<Rightarrow> json \<Rightarrow> json" where
  "inline_data mediaType base64Data =
     JObj [(''inlineData'', JObj [(''mimeType'', mediaType), (''data'', base64Data)])]"

definition text_part :: "string \<Rightarrow> json" where
  "text_part t = JObj [(''text'', JStr t)]"

text \<open>
  One part of a user message's content array. The callback of \<^verbatim>\<open>forEach\<close> reads
  \<^verbatim>\<open>part.type\<close> first, which raises TypeError for a part that is \<^verbatim>\<open>null\<close>.
  \<^verbatim>\<open>_parseDataUrl\<close> calls \<^verbatim>\<open>match\<close> on the url, which only a string has.
\<close>

definition google_user_part :: "json \<Rightarrow> js_error + json list" where
  "google_user_part part =
     (if part = JNull then Inl TypeError
      else if jget part ''type'' = Some (JStr ''text'') \<and> is_str_opt (jget part ''text'')
        then Inr [text_part (the (str_of (jget part ''text'')))]
      else if jget part ''type'' = Some (JStr ''image_url'') \<and> truthy_opt (jget2 part ''image_url'' ''url'')
        then (case jget2 part ''image_url'' ''url'' of
                Some (JStr url) \<Rightarrow>
                  (case parseDataUrl url of
                     Some (mediaType, base64Data) \<Rightarrow>
                       (if mediaType \<noteq> [] \<and> base64Data \<noteq> []
                        then Inr [inline_data (JStr mediaType) (JStr base64Data)] else Inr [])
                   | None \<Rightarrow> Inr [])
              | _ \<Rightarrow> Inl TypeError)
      else if jget part ''type'' = Some (JStr ''image'')
              \<and> jget2 part ''source'' ''type'' = Some (JStr ''base64'')
              \<and> truthy_opt (jget2 part ''source'' ''media_type'')
              \<and> truthy_opt (jget2 part ''source'' ''data'')
        then Inr [inline_data (the (jget2 part ''source'' ''media_type''))
                              (the (jget2 part ''source'' ''data''))]
      else if jget part ''type'' = Some (JStr ''image_mcp'') \<and> truthy_opt (jget part ''source'')
              \<and> truthy_opt (jget2 part ''source'' ''media_type'')
              \<and> truthy_opt (jget2 part ''source'' ''data'')
        then Inr [inline_data (the (jget2 part ''source'' ''media_type''))
                              (the (jget2 part ''source'' ''data''))]
      else Inr [])"

fun google_user_parts :: "json list \<Rightarrow> js_error + json list" where
  "google_user_parts [] = Inr []"
| "google_user_parts (part # rest) =
     (case google_user_part part of
        Inl e \<Rightarrow> Inl e
      | Inr ps \<Rightarrow>
          (case google_user_parts rest of
             Inl e \<Rightarrow> Inl e
           | Inr others \<Rightarrow> Inr (ps @ others)))"

definition google_turn :: "string \<Rightarrow> json list \<Rightarrow> json" where
  "google_turn r parts = JObj [(''role'', JStr r), (''parts'', JArr parts)]"

definition function_call_part :: "tool_call \<Rightarrow> json" where
  "function_call_part tc =
     JObj [(''functionCall'',
            JObj [(''name'', JStr (tc_name tc)),
                  (''args'', if truthy (tc_args tc) then tc_args tc else JObj [])])]"

definition modelParts :: "message \<Rightarrow> json list" where
  "modelParts message =
     (case nonblank_text (msg_content message) of Some s \<Rightarrow> [text_part s] | None \<Rightarrow> [])
     @ map function_call_part (calls_of message)"

text \<open>The turns that the loop pushes for one message of the history.\<close>

definition google_turns :: "(string \<Rightarrow> json option) \<Rightarrow> message \<Rightarrow> js_error + json list" where
  "google_turns parse message =
     (case msg_role message of
        User \<Rightarrow>
          (case (case msg_content message of
                   JStr s \<Rightarrow> Inr [text_part s]
                 | JArr parts \<Rightarrow> google_user_parts parts
                 | _ \<Rightarrow> Inr []) of
             Inl e \<Rightarrow> Inl e
           | Inr userParts \<Rightarrow>
               Inr (if length userParts > 0 then [google_turn ''user'' userParts] else []))
      | Assistant \<Rightarrow>
          Inr (if length (modelParts message) > 0
               then [google_turn ''model'' (modelParts message)] else [])
      | Tool \<Rightarrow>
          (if truthy_str (msg_name message) \<and> truthy_str (msg_tool_call_id message)
           then (case convertToolResult_google parse (msg_content message) (msg_name message) of
                   Inl e \<Rightarrow> Inl e
                 | Inr functionResponsePart \<Rightarrow>
                     Inr [google_turn ''function'' [functionResponsePart]])
           else Inr [])
      | System \<Rightarrow> Inr [])"

fun formatConversation_google ::
  "(string \<Rightarrow> json option) \<Rightarrow> message list \<Rightarrow> js_error + json list" where
  "formatConversation_google parse [] = Inr []"
| "formatConversation_google parse (message # rest) =
     (case google_turns parse message of
        Inl e \<Rightarrow> Inl e
      | Inr ts \<Rightarrow>
          (case formatConversation_google parse rest of
             Inl e \<Rightarrow> Inl e
           | Inr others \<Rightarrow> Inr (ts @ others)))"

subsection \<open>prepareImageMessageParts (lines 619-682)\<close>

text \<open>The last index of the list at which \<open>P\<close> holds: the backward search.\<close>

fun last_index :: "('a \<Rightarrow> bool) \<Rightarrow> 'a list \<Rightarrow> nat option" where
  "last_index P [] = None"
| "last_index P (x # xs) =
     (case last_index P xs of
        Some i \<Rightarrow> Some (Suc i)
      | None \<Rightarrow> (if P x then Some 0 else None))"

definition calls_tool :: "string option \<Rightarrow> message \<Rightarrow> bool" where
  "calls_tool toolName msg =
     (msg_role msg = Assistant \<and> list_ex (\<lambda>tc. Some (tc_name tc) = toolName) (calls_of msg))"

definition is_user_text :: "message \<Rightarrow> bool" where
  "is_user_text msg = (msg_role msg = User \<and> nonblank_text (msg_content msg) \<noteq> None)"

definition google_image_prompt :: "string option \<Rightarrow> message list \<Rightarrow> string" where
  "google_image_prompt toolName fullConversationHistory =
     (case (if length fullConversationHistory \<ge> 2
            then (case last_index (calls_tool toolName) fullConversationHistory of
                    Some i \<Rightarrow>
                      (if i > 0
                       then find is_user_text (rev (take i fullConversationHistory))
                       else None)
                  | None \<Rightarrow> None)
            else None) of
        Some userMsg \<Rightarrow>
          ''The tool '' @ quote @ opt_text toolName @ quote
            @ '' returned an image. Based on your request: '' @ dquote
            @ the (nonblank_text (msg_content userMsg)) @ dquote
            @ '', please use this image to formulate your response.''
      | None \<Rightarrow>
          ''The tool '' @ quote @ opt_text toolName @ quote
            @ '' returned the accompanying image. Please analyze it and respond to the ongoing request.'')"

definition prepareImageMessageParts ::
  "image_details \<Rightarrow> string option \<Rightarrow> message list \<Rightarrow> js_error + json list" where
  "prepareImageMessageParts d toolName fullConversationHistory =
     (if \<not> image_found d
      then Inl (Error ''Missing image data or mimeType for prepareImageMessageParts.'')
      else Inr [inline_data (the (mimeType d)) (JStr (the (base64ImageData d))),
                text_part (google_image_prompt toolName fullConversationHistory)])"

subsection \<open>extractTextContent\<close>

definition extractTextContent_google :: "google_response \<Rightarrow> string" where
  "extractTextContent_google llmResponse =
     (case gr_parts llmResponse of
        None \<Rightarrow> []
      | Some ps \<Rightarrow> concat (map (\<lambda>p. case gp_text p of Some t \<Rightarrow> t | None \<Rightarrow> []) ps))"

definition extractTextContent_openai :: "oa_response \<Rightarrow> string" where
  "extractTextContent_openai llmResponse =
     (case first_message llmResponse of
        None \<Rightarrow> []
      | Some m \<Rightarrow> (case oa_content m of Some t \<Rightarrow> t | None \<Rightarrow> []))"

fun anthropic_texts :: "anthropic_block list \<Rightarrow> string list" where
  "anthropic_texts [] = []"
| "anthropic_texts (TextBlock t # bs) = t # anthropic_texts bs"
| "anthropic_texts (_ # bs) = anthropic_texts bs"

definition extractTextContent_anthropic :: "anthropic_response \<Rightarrow> string" where
  "extractTextContent_anthropic llmResponse =
     (case ar_content llmResponse of
        None \<Rightarrow> []
      | Some bs \<Rightarrow> intercalate newline (anthropic_texts bs))"

section \<open>The client: providers and their configuration (mcp-client.js)\<close>

datatype provider_kind = AnthropicP | OpenAIP | GoogleP | DeepSeekP

text \<open>
  A provider instance: what its constructor stores. The client builds the OpenAI adapter
  without the seventh argument, so that \<^verbatim>\<open>imageAnalysisPromptSuffix\<close> is
  \<^verbatim>\<open>undefined\<close>. For the Google adapter \<open>pi_chatHistory\<close> is the history that the chat
  session was started with; \<open>None\<close> means that \<^verbatim>\<open>this.chatSession\<close> is still
  \<^verbatim>\<open>null\<close>, as it is for the stateless adapters. The tool catalogue is not modelled.
\<close>

record provider_instance =
  pi_kind :: provider_kind
  pi_apiKey :: string
  pi_modelName :: string
  pi_systemMessage :: string
  pi_imageAnalysisPromptSuffix :: "string option"
  pi_chatHistory :: "json list option"

text \<open>
  One call of the adapter's sendMessage: the formatted messages of a stateless adapter,
  or the parts given to the Google chat session.
\<close>

datatype payload = Messages "json list" | Parts "json list"

record sent_event =
  se_payload :: payload
  se_history :: "message list"

text \<open>
  The client. \<open>logs\<close> holds the lines that the client itself writes to its logger and
  to the console; the lines of the adapters are not recorded. \<open>llmProvider\<close> is
  \<^verbatim>\<open>this.config.llmProvider\<close>.
\<close>

record client = history_state +
  systemMessage :: string
  llmProvider :: "string option"
  currentLlmProviderInstance :: "provider_instance option"
  model :: "string option"
  openaiModel :: "string option"
  geminiModel :: "string option"
  deepseekModel :: "string option"
  sent :: "sent_event list"

datatype raw_response =
    OpenAIResponse oa_response
  | AnthropicResponse anthropic_response
  | GoogleResponse google_response

text \<open>
  What the client does not decide: the environment variables; the SDK constructors
  (\<open>Some msg\<close> when one raises); the Google SDK's \<^verbatim>\<open>startChat\<close>, which may refuse the
  history it is given (\<open>Some msg\<close>); the runtime's \<^verbatim>\<open>JSON.parse\<close>,
  \<^verbatim>\<open>JSON.stringify\<close> and \<^verbatim>\<open>parseInt\<close>, and the message text that the engine gives
  a TypeError or SyntaxError that it raises; the answers of the language model (by the
  number of the request; \<open>Inl msg\<close> is a failed request); the tool servers
  (\<open>Inl msg\<close> is a failed or unknown tool) and the clock.
\<close>

record world =
  environ :: "string \<Rightarrow> string option"
  sdk_fails :: "provider_kind \<Rightarrow> string option"
  startChat_fails :: "json list \<Rightarrow> string option"
  json_parse :: "string \<Rightarrow> json option"
  json_stringify :: "json \<Rightarrow> string"
  js_parseInt :: "json option \<Rightarrow> int option"
  engine_message :: "js_error \<Rightarrow> string"
  llm :: "nat \<Rightarrow> string + raw_response"
  call_tool :: "string \<Rightarrow> json \<Rightarrow> string + json"
  clock :: "nat \<Rightarrow> int"

text \<open>
  \<^verbatim>\<open>String.prototype.toLowerCase\<close> on code units below 256: the letters A to Z and
  the letters U+00C0 to U+00DE (the multiplication sign U+00D7 is not one) have a
  lower-case form, 32 places up.
\<close>

definition upper_case_letters :: string where
  "upper_case_letters =
     ''ABCDEFGHIJKLMNOPQRSTUVWXYZ''
     @ [CHR 0xC0, CHR 0xC1, CHR 0xC2, CHR 0xC3, CHR 0xC4, CHR 0xC5, CHR 0xC6, CHR 0xC7,
        CHR 0xC8, CHR 0xC9, CHR 0xCA, CHR 0xCB, CHR 0xCC, CHR 0xCD, CHR 0xCE, CHR 0xCF,
        CHR 0xD0, CHR 0xD1, CHR 0xD2, CHR 0xD3, CHR 0xD4, CHR 0xD5, CHR 0xD6, CHR 0xD8,
        CHR 0xD9, CHR 0xDA, CHR 0xDB, CHR 0xDC, CHR 0xDD, CHR 0xDE]"

definition lower_case_letters :: string where
  "lower_case_letters =
     ''abcdefghijklmnopqrstuvwxyz''
     @ [CHR 0xE0, CHR 0xE1, CHR 0xE2, CHR 0xE3, CHR 0xE4, CHR 0xE5, CHR 0xE6, CHR 0xE7,
        CHR 0xE8, CHR 0xE9, CHR 0xEA, CHR 0xEB, CHR 0xEC, CHR 0xED, CHR 0xEE, CHR 0xEF,
        CHR 0xF0, CHR 0xF1, CHR 0xF2, CHR 0xF3, CHR 0xF4, CHR 0xF5, CHR 0xF6, CHR 0xF8,
        CHR 0xF9, CHR 0xFA, CHR 0xFB, CHR 0xFC, CHR 0xFD, CHR 0xFE]"

definition lower_char :: "char \<Rightarrow> char" where
  "lower_char c =
     (case map_of (zip upper_case_letters lower_case_letters) c of
        Some l \<Rightarrow> l
      | None \<Rightarrow> c)"

definition toLowerCase :: "string \<Rightarrow> string" where
  "toLowerCase s = map lower_char s"

text \<open>\<^verbatim>\<open>a || b\<close> on strings that may be absent, and with a literal at the end.\<close>

definition or_opt :: "string option \<Rightarrow> string option \<Rightarrow> string option" where
  "or_opt a b = (if truthy_str a then a else b)"

definition or_default :: "string option \<Rightarrow> string \<Rightarrow> string" where
  "or_default a d = (if truthy_str a then the a else d)"

text \<open>
  The four branches of setLLMProvider are the same statements with different constants:
  the adapter class, the variable of the API key, the variable and the default of the
  model, and the name used in the messages.
\<close>

record provider_constants =
  pc_kind :: provider_kind
  pc_keyVar :: string
  pc_modelVar :: string
  pc_defaultModel :: string
  pc_label :: string

definition provider_constants_of :: "string \<Rightarrow> provider_constants option" where
  "provider_constants_of name =
     (if name = ''anthropic'' then
        Some \<lparr>pc_kind = AnthropicP, pc_keyVar = ''ANTHROPIC_API_KEY'',
              pc_modelVar = ''ANTHROPIC_MODEL'', pc_defaultModel = ''claude-3-5-sonnet-latest'',
              pc_label = ''Anthropic''\<rparr>
      else if name = ''openai'' then
        Some \<lparr>pc_kind = OpenAIP, pc_keyVar = ''OPENAI_API_KEY'',
              pc_modelVar = ''OPENAI_MODEL'', pc_defaultModel = ''gpt-4o'',
              pc_label = ''OpenAI''\<rparr>
      else if name = ''google'' then
        Some \<lparr>pc_kind = GoogleP, pc_keyVar = ''GOOGLE_GEMINI_API_KEY'',
              pc_modelVar = ''GOOGLE_GEMINI_MODEL'',
              pc_defaultModel = ''gemini-2.5-flash-preview-04-17'', pc_label = ''Google''\<rparr>
      else if name = ''deepseek'' then
        Some \<lparr>pc_kind = DeepSeekP, pc_keyVar = ''DEEPSEEK_API_KEY'',
              pc_modelVar = ''DEEPSEEK_MODEL'', pc_defaultModel = ''deepseek-chat'',
              pc_label = ''DeepSeek''\<rparr>
      else None)"

text \<open>
  \<^verbatim>\<open>new XProvider(apiKey, modelName, this.systemMessage, tools, logger, this.conversation)\<close>.
  The Google constructor calls \<^verbatim>\<open>initialize(initialConversationHistory)\<close>
  (huggingface.js, lines 269-285) and does not wait for it. \<^verbatim>\<open>initialize\<close> formats the
  history it was given and hands the result to \<^verbatim>\<open>startChat\<close>; when either raises, the
  promise of \<^verbatim>\<open>initialize\<close> is rejected, nobody handles the rejection, the constructor
  returns as usual, and \<^verbatim>\<open>this.chatSession\<close> stays \<^verbatim>\<open>null\<close>.
\<close>

definition new_provider ::
  "world \<Rightarrow> provider_kind \<Rightarrow> string \<Rightarrow> string \<Rightarrow> string \<Rightarrow> message list \<Rightarrow> provider_instance" where
  "new_provider w kind key modelName sysMsg initialConversationHistory =
     \<lparr>pi_kind = kind, pi_apiKey = key, pi_modelName = modelName, pi_systemMessage = sysMsg,
      pi_imageAnalysisPromptSuffix = None,
      pi_chatHistory =
        (if kind = GoogleP
         then (case formatConversation_google (json_parse w) initialConversationHistory of
                 Inr initialChatHistoryForSDK \<Rightarrow>
                   (case startChat_fails w initialChatHistoryForSDK of
                      None \<Rightarrow> Some initialChatHistoryForSDK
                    | Some msg \<Rightarrow> None)
               | Inl e \<Rightarrow> None)
         else None)\<rparr>"

definition set_display_model :: "provider_kind \<Rightarrow> string \<Rightarrow> client \<Rightarrow> client" where
  "set_display_model kind m c =
     (case kind of
        AnthropicP \<Rightarrow> c\<lparr>model := Some m\<rparr>
      | OpenAIP \<Rightarrow> c\<lparr>openaiModel := Some m\<rparr>
      | GoogleP \<Rightarrow> c\<lparr>geminiModel := Some m\<rparr>
      | DeepSeekP \<Rightarrow> c\<lparr>deepseekModel := Some m\<rparr>)"

definition add_logs :: "log_event list \<Rightarrow> client \<Rightarrow> client" where
  "add_logs es c = c\<lparr>logs := logs c @ es\<rparr>"

definition unsupported_message :: "string option \<Rightarrow> string" where
  "unsupported_message newProvider =
     ''Unsupported LLM provider: '' @ opt_text newProvider
       @ ''. Supported: '' @ quote @ ''anthropic'' @ quote @ '', '' @ quote @ ''openai'' @ quote
       @ '', '' @ quote @ ''google'' @ quote @ '', '' @ quote @ ''deepseek'' @ quote @ ''.''"

definition attempt_message :: "string option \<Rightarrow> string option \<Rightarrow> string" where
  "attempt_message newProvider newModelName =
     ''Attempting to set LLM provider to: '' @ opt_text newProvider
       @ (if truthy_str newModelName then '' with model: '' @ the newModelName
          else '' (using default model)'')"

text \<open>
  setLLMProvider (mcp-client.js, lines 195-320). The instance and the displayed model
  names are cleared first; each failure returns \<^verbatim>\<open>false\<close> from there.
\<close>

definition setLLMProvider ::
  "world \<Rightarrow> string option \<Rightarrow> string option \<Rightarrow> bool \<Rightarrow> client \<Rightarrow> bool \<times> client" where
  "setLLMProvider w newProvider0 newModelName initialSetup c0 =
     (let newProvider = map_option toLowerCase newProvider0;
          c = (add_logs [LogInfo (attempt_message newProvider newModelName)] c0)
                \<lparr>currentLlmProviderInstance := None, model := None, openaiModel := None,
                 geminiModel := None, deepseekModel := None\<rparr>
      in case (case newProvider of None \<Rightarrow> None | Some n \<Rightarrow> provider_constants_of n) of
           Some pc \<Rightarrow>
             (if \<not> truthy_str (environ w (pc_keyVar pc)) then
                (let errorMsg = pc_keyVar pc @ '' environment variable is required for ''
                                  @ pc_label pc @ '' provider.''
                 in (False, add_logs (LogError errorMsg
                        # (if \<not> initialSetup then [ConsoleError (''Error: '' @ errorMsg)] else [])) c))
              else
                (case sdk_fails w (pc_kind pc) of
                   Some msg \<Rightarrow>
                     (let errorMsg = ''Failed to initialize '' @ pc_label pc @ '' provider: '' @ msg
                      in (False, add_logs (LogError errorMsg
                            # (if \<not> initialSetup then [ConsoleError (''Error: '' @ errorMsg)] else [])) c))
                 | None \<Rightarrow>
                     (let determinedModelName =
                            or_default (or_opt newModelName (environ w (pc_modelVar pc)))
                              (pc_defaultModel pc);
                          inst = new_provider w (pc_kind pc) (the (environ w (pc_keyVar pc)))
                                   determinedModelName (systemMessage c) (conversation c)
                      in (True,
                          add_logs ((if \<not> initialSetup
                                     then [ConsoleLog (''Switched to '' @ pc_label pc
                                             @ '' provider with model: '' @ determinedModelName)]
                                     else [])
                                    @ [LogInfo (''Successfully set LLM provider to '' @ pc_label pc
                                         @ '' with model '' @ determinedModelName)])
                            ((set_display_model (pc_kind pc) determinedModelName c)
                               \<lparr>currentLlmProviderInstance := Some inst,
                                llmProvider := newProvider\<rparr>)))))
         | None \<Rightarrow>
             (let errorMsg = unsupported_message newProvider
              in (False, add_logs (LogError errorMsg
                     # (if \<not> initialSetup \<and> truthy_str newProvider
                        then [ConsoleError (''Error: '' @ errorMsg)]
                        else if \<not> initialSetup
                        then [ConsoleInfo ''No LLM provider specified in command.'']
                        else [])) c)))"

subsection \<open>The constructor (mcp-client.js, lines 80-152) and main (lines 1119-1132)\<close>

record config =
  cfg_llmProvider :: "string option"
  cfg_systemMessage :: "string option"
  cfg_maxConversationHistoryLength :: "json option"

definition DEFAULT_SYSTEM_MESSAGE :: string where
  "DEFAULT_SYSTEM_MESSAGE = ''You are a helpful AI assistant that has access to various tools through MCP servers. Use these tools when appropriate to help the user.''"

definition modelForProvider :: "world \<Rightarrow> string option \<Rightarrow> string option" where
  "modelForProvider w configuredProviderName =
     (case (case configuredProviderName of None \<Rightarrow> None | Some n \<Rightarrow> provider_constants_of n) of
        Some pc \<Rightarrow> Some (or_default (environ w (pc_modelVar pc)) (pc_defaultModel pc))
      | None \<Rightarrow> None)"

definition startup_error :: "string option \<Rightarrow> js_error" where
  "startup_error name =
     Error (''Failed to initialize the configured LLM provider '' @ dquote @ opt_text name @ dquote
            @ ''. Please check your '' @ quote @ ''config.json'' @ quote
            @ '', ensure the provider name is valid ('' @ quote @ ''anthropic'' @ quote @ '', ''
            @ quote @ ''openai'' @ quote @ '', '' @ quote @ ''google'' @ quote @ '', ''
            @ quote @ ''deepseek'' @ quote
            @ ''), and that the required API key (e.g., ANTHROPIC_API_KEY, OPENAI_API_KEY, GOOGLE_GEMINI_API_KEY, DEEPSEEK_API_KEY) is set in your environment. Client cannot start.'')"

definition system_message_line :: "string \<Rightarrow> string" where
  "system_message_line m =
     dquote @ take 100 m @ (if length m > 100 then ''...'' else []) @ dquote"

text \<open>
  The line \<^verbatim>\<open>Conversation history will be limited to N messages.\<close> is the event
  \<open>HistoryLimited N\<close>.
\<close>

definition new_MCPClient :: "world \<Rightarrow> config \<Rightarrow> js_error + client" where
  "new_MCPClient w cfg =
     (let sysMsg = or_default (or_opt (cfg_systemMessage cfg) (environ w ''SYSTEM_MESSAGE''))
                     DEFAULT_SYSTEM_MESSAGE;
          bound = initMaxConversationHistoryLength (js_parseInt w)
                    (cfg_maxConversationHistoryLength cfg)
                    (map_option JStr (environ w ''MAX_CONVERSATION_HISTORY_LENGTH''));
          c0 = \<lparr>conversation = [],
                maxConversationHistoryLength = bound,
                logs = [LogInfo (''Using system message: '' @ system_message_line sysMsg),
                        (if bound \<noteq> None \<and> the bound \<noteq> 0 then HistoryLimited (the bound)
                         else LogInfo ''No limit set for conversation history length.'')],
                systemMessage = sysMsg,
                llmProvider = cfg_llmProvider cfg,
                currentLlmProviderInstance = None,
                model = None, openaiModel = None, geminiModel = None, deepseekModel = None,
                sent = []\<rparr>;
          configuredProviderName = map_option toLowerCase (cfg_llmProvider cfg);
          r = setLLMProvider w configuredProviderName
                (modelForProvider w configuredProviderName) True c0
      in if \<not> fst r then Inl (startup_error (cfg_llmProvider cfg)) else Inr (snd r))"

text \<open>\<^verbatim>\<open>error.message\<close>.\<close>

definition error_text :: "world \<Rightarrow> js_error \<Rightarrow> string" where
  "error_text w e = (case e of Error msg \<Rightarrow> msg | _ \<Rightarrow> engine_message w e)"

text \<open>
  main: the configuration is read, the client is constructed and started. An error of
  the constructor is printed and the process exits with status 1. \<open>Started\<close> is the
  client handed to \<^verbatim>\<open>start()\<close>, which connects the tool servers and is not modelled.
\<close>

datatype process_outcome = Exited int "log_event list" | Started client

definition main :: "world \<Rightarrow> config \<Rightarrow> process_outcome" where
  "main w cfg =
     (case new_MCPClient w cfg of
        Inl e \<Rightarrow> Exited 1 [ConsoleError (''Initialization error: '' @ error_text w e)]
      | Inr c \<Rightarrow> Started c)"

subsection \<open>The /setsystem command (mcp-client.js, lines 586-611)\<close>

text \<open>
  The branch taken for an input line that starts with \<^verbatim>\<open>/setsystem \<close>.
\<close>

definition setsystem_command :: "world \<Rightarrow> string \<Rightarrow> client \<Rightarrow> client" where
  "setsystem_command w input c =
     (let newSystemMessage = js_trim (drop (length ''/setsystem '') input)
      in if newSystemMessage \<noteq> [] then
           (let c1 = add_logs
                       [LogInfo (''System message updated to: '' @ system_message_line newSystemMessage),
                        ConsoleLog ''System message updated. It will be applied on the next interaction.'']
                       (c\<lparr>systemMessage := newSystemMessage\<rparr>)
            in if llmProvider c1 = Some ''google'' then
                 (let c2 = add_logs
                             [ConsoleLog ''Re-initializing Google provider to apply new system message...''] c1;
                      currentGoogleModel =
                        or_default (or_opt (geminiModel c2) (environ w ''GOOGLE_GEMINI_MODEL''))
                          ''gemini-2.5-flash-preview-04-17'';
                      r = setLLMProvider w (Some ''google'') (Some currentGoogleModel) True c2
                  in if fst r
                     then add_logs [ConsoleLog ''Google provider re-initialized with new system message.''] (snd r)
                     else add_logs [ConsoleError ''Failed to re-initialize Google provider with new system message. Please try /setprovider manually.''] (snd r))
               else c1)
         else add_logs [ConsoleLog ''Current system message:'', ConsoleLog (systemMessage c),
                        ConsoleLog ''Usage: /setsystem <your new system message>''] c)"

subsection \<open>Configuration errors\<close>

text \<open>
  A configuration error for a provider name: the name is not one of the four supported
  ones, or the API key of the provider it names is missing from the environment.
\<close>

definition config_error :: "world \<Rightarrow> string \<Rightarrow> bool" where
  "config_error w name =
     (case provider_constants_of (toLowerCase name) of
        None \<Rightarrow> True
      | Some pc \<Rightarrow> \<not> truthy_str (environ w (pc_keyVar pc)))"

definition reported_error :: "world \<Rightarrow> string \<Rightarrow> string" where
  "reported_error w name =
     (case provider_constants_of (toLowerCase name) of
        None \<Rightarrow> unsupported_message (Some (toLowerCase name))
      | Some pc \<Rightarrow> pc_keyVar pc @ '' environment variable is required for ''
                     @ pc_label pc @ '' provider.'')"
section \<open>The tool loop (mcp-client.js, lines 772-1059)\<close>

text \<open>
  The client calls the methods of \<^verbatim>\<open>this.currentLlmProviderInstance\<close> in the branch
  that \<^verbatim>\<open>this.config.llmProvider\<close> selects. setLLMProvider is the only place that
  assigns either, and it assigns an instance together with the name of its class, so an
  instance that exists is the adapter of the configured provider; the functions below
  use the adapter of the branch.

  Of the lines that the client writes, \<open>logs\<close> records those of the constructor, of
  setLLMProvider, of the /setsystem command, of the trimming, of the re-initialisation
  and of the catch block of continueConversation; the lines of the tool loop are not
  recorded.
\<close>

definition kind_of_name :: "string option \<Rightarrow> provider_kind option" where
  "kind_of_name name =
     (case name of
        None \<Rightarrow> None
      | Some n \<Rightarrow> map_option pc_kind (provider_constants_of n))"

text \<open>
  The extraction that handleLLMResponse asks of the active adapter. A response of
  another provider's shape has none of the properties the adapter reads.
\<close>

definition extract_text :: "provider_kind \<Rightarrow> raw_response \<Rightarrow> string" where
  "extract_text kind response =
     (case (kind, response) of
        (AnthropicP, AnthropicResponse r) \<Rightarrow> extractTextContent_anthropic r
      | (OpenAIP, OpenAIResponse r) \<Rightarrow> extractTextContent_openai r
      | (DeepSeekP, OpenAIResponse r) \<Rightarrow> extractTextContent_openai r
      | (GoogleP, GoogleResponse r) \<Rightarrow> extractTextContent_google r
      | _ \<Rightarrow> [])"

definition extract_calls :: "world \<Rightarrow> provider_kind \<Rightarrow> raw_response \<Rightarrow> tool_call list option" where
  "extract_calls w kind response =
     (case (kind, response) of
        (AnthropicP, AnthropicResponse r) \<Rightarrow> extractToolCalls_anthropic r
      | (OpenAIP, OpenAIResponse r) \<Rightarrow> fst (extractToolCalls_openai (json_parse w) r)
      | (DeepSeekP, OpenAIResponse r) \<Rightarrow> fst (extractToolCalls_deepseek (json_parse w) r)
      | (GoogleP, GoogleResponse r) \<Rightarrow> extractToolCalls_google (clock w) r
      | _ \<Rightarrow> None)"

definition push :: "message list \<Rightarrow> client \<Rightarrow> client" where
  "push ms c = c\<lparr>conversation := conversation c @ ms\<rparr>"

definition record_send :: "payload \<Rightarrow> client \<Rightarrow> client" where
  "record_send p c = c\<lparr>sent := sent c @ [\<lparr>se_payload = p, se_history = conversation c\<rparr>]\<rparr>"

text \<open>The catch block of continueConversation (lines 1051-1058).\<close>

definition continuation_failed :: "world \<Rightarrow> js_error \<Rightarrow> client \<Rightarrow> client" where
  "continuation_failed w e c =
     push [assistant_message
             (''An API error occurred while continuing the conversation: '' @ error_text w e) None]
       (add_logs [LogError (''Error continuing conversation: '' @ error_text w e),
                  ConsoleError (''Error: '' @ error_text w e)] c)"

text \<open>
  The start of each branch of continueConversation (lines 881-889, 893-901, 905-913 and
  917-925): when there is no provider instance, setLLMProvider is called for the
  provider of the branch, with the displayed model, the environment's, or the default;
  a failure raises an Error. The Google branch words its lines differently.
\<close>

definition display_model :: "provider_kind \<Rightarrow> client \<Rightarrow> string option" where
  "display_model kind c =
     (case kind of
        AnthropicP \<Rightarrow> model c
      | OpenAIP \<Rightarrow> openaiModel c
      | GoogleP \<Rightarrow> geminiModel c
      | DeepSeekP \<Rightarrow> deepseekModel c)"

definition reinit_warning :: "provider_constants \<Rightarrow> string" where
  "reinit_warning pc =
     pc_label pc @ '' provider instance not available in continueConversation. ''
       @ (if pc_kind pc = GoogleP then ''Attempting to re-initialize.''
          else ''Attempting re-initialization.'')"

definition reinit_error :: "provider_constants \<Rightarrow> string \<Rightarrow> js_error" where
  "reinit_error pc name =
     Error (if pc_kind pc = GoogleP
            then ''Google provider instance failed to initialize. Please use /setprovider google [model_name] again.''
            else pc_label pc @ '' provider instance failed to re-initialize. Please use /setprovider ''
                   @ name @ '' [model_name].'')"

definition ensure_provider :: "world \<Rightarrow> provider_constants \<Rightarrow> string \<Rightarrow> client \<Rightarrow> js_error option \<times> client" where
  "ensure_provider w pc name c =
     (if currentLlmProviderInstance c = None then
        (let c1 = add_logs [LogWarn (reinit_warning pc)] c;
             m = or_default (or_opt (display_model (pc_kind pc) c1) (environ w (pc_modelVar pc)))
                   (pc_defaultModel pc);
             r = setLLMProvider w (Some name) (Some m) True c1
         in if \<not> fst r
            then (Some (reinit_error pc name), snd r)
            else (None,
                  add_logs [LogInfo (''Successfully re-initialized '' @ pc_label pc
                                       @ '' provider instance in continueConversation.'')] (snd r)))
      else (None, c))"

text \<open>
  \<^verbatim>\<open>response.choices[0].message.tool_calls\<close> as a condition (line 1006): an empty
  array is truthy.
\<close>

definition response_has_tool_calls :: "raw_response \<Rightarrow> bool" where
  "response_has_tool_calls response =
     (case response of
        OpenAIResponse r \<Rightarrow>
          (case first_message r of Some m \<Rightarrow> oa_tool_calls m \<noteq> None | None \<Rightarrow> False)
      | _ \<Rightarrow> False)"

text \<open>\<^verbatim>\<open>this.conversation[i]\<close> for an index that may lie outside the array.\<close>

definition at_index :: "'a list \<Rightarrow> int \<Rightarrow> 'a option" where
  "at_index xs i = (if 0 \<le> i \<and> i < int (length xs) then Some (xs ! nat i) else None)"

text \<open>
  The request that the image prompt quotes (lines 1015-1027): the message two places
  before the tool message, when it is a user message.
\<close>

definition originalUserQuery :: "message list \<Rightarrow> int \<Rightarrow> js_error + string" where
  "originalUserQuery conv userMessageIndex =
     (case at_index conv userMessageIndex of
        None \<Rightarrow> Inr ''Describe the image.''
      | Some m \<Rightarrow>
          (if msg_role m = User then
             (case msg_content m of
                JStr s \<Rightarrow> Inr s
              | JArr (p # ps) \<Rightarrow>
                  (if p = JNull then Inl TypeError
                   else (case jget p ''text'' of
                           Some (JStr t) \<Rightarrow> Inr t
                         | _ \<Rightarrow> Inr ''Describe the image.''))
              | _ \<Rightarrow> Inr ''Describe the image.'')
           else Inr ''Describe the image.''))"

definition openai_image_prompt :: "string option \<Rightarrow> string \<Rightarrow> string" where
  "openai_image_prompt toolName query =
     ''The tool '' @ quote @ or_default toolName ''the tool'' @ quote
       @ '' returned an image. Based on your previous request: '' @ dquote
       @ take 200 query @ (if length query > 200 then ''...'' else [])
       @ dquote @ '', please analyze this image.''"

text \<open>
  The user message of the second step (lines 1034-1038). Its \<^verbatim>\<open>timestamp\<close> property,
  which no adapter reads, is left out.
\<close>

definition image_user_message :: "json \<Rightarrow> message" where
  "image_user_message imageContentParts =
     \<lparr>msg_role = User, msg_content = imageContentParts, msg_tool_calls = None,
      msg_tool_call_id = None, msg_name = None\<rparr>"

text \<open>
  The display of a tool result (lines 828-835) searches the content array for a text
  part; a \<^verbatim>\<open>null\<close> part met first raises inside the try block.
\<close>

definition display_raises :: "json \<Rightarrow> js_error option" where
  "display_raises result =
     (case result of
        JStr s \<Rightarrow> None
      | _ \<Rightarrow>
         (case (if truthy result then content_array result else None) of
            Some parts \<Rightarrow>
              (case js_find (\<lambda>p. jget p ''type'' = Some (JStr ''text'')) parts of
                 Inl e \<Rightarrow> Some e
               | Inr found \<Rightarrow> None)
          | None \<Rightarrow> None))"

text \<open>
  formatConversation of the stateless adapters, with the system message and the suffix
  that the instance holds.
\<close>

definition formatConversation ::
  "world \<Rightarrow> provider_kind \<Rightarrow> provider_instance \<Rightarrow> message list \<Rightarrow> js_error + json list" where
  "formatConversation w kind inst conversationHistory =
     (case kind of
        AnthropicP \<Rightarrow> formatConversation_anthropic (json_stringify w) conversationHistory
      | OpenAIP \<Rightarrow>
          formatConversation_openai (json_parse w) (json_stringify w) (pi_systemMessage inst)
            (pi_imageAnalysisPromptSuffix inst) conversationHistory
      | DeepSeekP \<Rightarrow>
          formatConversation_deepseek (json_parse w) (json_stringify w) (pi_systemMessage inst)
            conversationHistory
      | GoogleP \<Rightarrow> formatConversation_google (json_parse w) conversationHistory)"

text \<open>
  A request of a stateless adapter: the history is trimmed and formatted, the formatted
  messages are sent. The result is the response, or the error that was raised.
\<close>

definition send_history :: "world \<Rightarrow> provider_kind \<Rightarrow> client \<Rightarrow> (js_error + raw_response) \<times> client" where
  "send_history w kind c =
     (let c1 = trimConversationHistory c
      in case formatConversation w kind (the (currentLlmProviderInstance c1)) (conversation c1) of
           Inl e \<Rightarrow> (Inl e, c1)
         | Inr messagesForLLM \<Rightarrow>
             (case llm w (length (sent c1)) of
                Inl msg \<Rightarrow> (Inl (Error msg), record_send (Messages messagesForLLM) c1)
              | Inr response \<Rightarrow> (Inr response, record_send (Messages messagesForLLM) c1)))"

text \<open>
  GoogleProvider.sendMessage (huggingface.js, lines 488-508): the parts go to the chat
  session, which must exist.
\<close>

definition send_parts :: "world \<Rightarrow> json list \<Rightarrow> client \<Rightarrow> (js_error + raw_response) \<times> client" where
  "send_parts w parts c =
     (if (case currentLlmProviderInstance c of None \<Rightarrow> True | Some inst \<Rightarrow> pi_chatHistory inst = None)
      then (Inl (Error ''GoogleProvider chat session not initialized.''), c)
      else (case llm w (length (sent c)) of
              Inl msg \<Rightarrow> (Inl (Error msg), record_send (Parts parts) c)
            | Inr response \<Rightarrow> (Inr response, record_send (Parts parts) c)))"

definition instance_not_found :: "provider_kind \<Rightarrow> js_error" where
  "instance_not_found kind =
     (case kind of
        AnthropicP \<Rightarrow> Error ''Anthropic provider instance not found in handleLLMResponse.''
      | OpenAIP \<Rightarrow> Error ''OpenAI provider instance not found in handleLLMResponse.''
      | GoogleP \<Rightarrow> Error ''Google provider instance not found in handleLLMResponse. This indicates a critical setup error.''
      | DeepSeekP \<Rightarrow> Error ''DeepSeek provider instance not found in handleLLMResponse.'')"

text \<open>
  handleLLMResponse, the loop over its tool calls, and continueConversation call one
  another; the language model decides how deep. The first argument bounds the depth of
  the calls: \<open>None\<close> means that the bound was reached. An error raised inside
  handleLLMResponse comes back as \<open>Some e\<close> beside the state reached; continueConversation
  catches every error.
\<close>

fun handleLLMResponse :: "nat \<Rightarrow> world \<Rightarrow> raw_response \<Rightarrow> client \<Rightarrow> (js_error option \<times> client) option"
and toolCallLoop :: "nat \<Rightarrow> world \<Rightarrow> tool_call list \<Rightarrow> client \<Rightarrow> (js_error option \<times> client) option"
and continueConversation :: "nat \<Rightarrow> world \<Rightarrow> client \<Rightarrow> client option"
where
  "handleLLMResponse 0 w response c = None"
| "handleLLMResponse (Suc n) w response c =
     (case kind_of_name (llmProvider c) of
        Some kind \<Rightarrow>
          (if currentLlmProviderInstance c = None
           then Some (Some (instance_not_found kind), c)
           else
             (let textContent = extract_text kind response;
                  toolCalls = extract_calls w kind response;
                  c1 = push [assistant_message textContent toolCalls] c
              in case toolCalls of
                   Some (tc # tcs) \<Rightarrow> toolCallLoop n w (tc # tcs) c1
                 | _ \<Rightarrow> Some (None, c1)))
      | None \<Rightarrow> Some (None, push [assistant_message [] None] c))"
| "toolCallLoop n w [] c = Some (None, c)"
| "toolCallLoop 0 w (toolCall # rest) c = None"
| "toolCallLoop (Suc n) w (toolCall # rest) c =
     (case (case call_tool w (tc_name toolCall) (tc_args toolCall) of
              Inl msg \<Rightarrow>
                (None,
                 continueConversation n w
                   (push [tool_message (tc_id toolCall) (tc_name toolCall)
                            (JStr (json_stringify w (JObj [(''error'', JStr msg)])))] c))
            | Inr result \<Rightarrow>
                (Some result,
                 (case display_raises result of
                    Some e \<Rightarrow>
                      continueConversation n w
                        (push [tool_message (tc_id toolCall) (tc_name toolCall) result,
                               tool_message (tc_id toolCall) (tc_name toolCall)
                                 (JStr (json_stringify w (JObj [(''error'', JStr (error_text w e))])))] c)
                  | None \<Rightarrow>
                      continueConversation n w
                        (push [tool_message (tc_id toolCall) (tc_name toolCall) result] c)))) of
        (toolResultForAugmentation, None) \<Rightarrow> None
      | (None, Some c2) \<Rightarrow> toolCallLoop n w rest c2
      | (Some result, Some c2) \<Rightarrow>
          (case augmentation (tc_name toolCall) result of
             Inl e \<Rightarrow> Some (Some e, c2)
           | Inr ms \<Rightarrow> toolCallLoop n w rest (push ms c2)))"
| "continueConversation 0 w c = None"
| "continueConversation (Suc n) w c =
     (case (case llmProvider c of None \<Rightarrow> None | Some name \<Rightarrow> provider_constants_of name) of
        None \<Rightarrow>
          (case handleLLMResponse n w (GoogleResponse \<lparr>gr_parts = None\<rparr>) c of
             None \<Rightarrow> None
           | Some (Some e, c1) \<Rightarrow> Some (continuation_failed w e c1)
           | Some (None, c1) \<Rightarrow> Some c1)
      | Some pc \<Rightarrow>
          (case ensure_provider w pc (the (llmProvider c)) c of
             (Some e, c1) \<Rightarrow> Some (continuation_failed w e c1)
           | (None, c1) \<Rightarrow>
              (if pc_kind pc = GoogleP then
                 (if conversation c1 = [] \<or> msg_role (last (conversation c1)) \<noteq> Tool
                  then Some (continuation_failed w
                         (Error ''Programming error: Expected last message to be a tool response for Google continuation.'') c1)
                  else
                    (let toolCallResult = msg_content (last (conversation c1));
                         toolName = msg_name (last (conversation c1))
                     in case convertToolResult_google (json_parse w) toolCallResult toolName of
                          Inl e \<Rightarrow> Some (continuation_failed w e c1)
                        | Inr functionResponsePart \<Rightarrow>
                           (case send_parts w [functionResponsePart] c1 of
                              (Inl e, c2) \<Rightarrow> Some (continuation_failed w e c2)
                            | (Inr llmResponseStep1, c2) \<Rightarrow>
                               (case handleLLMResponse n w llmResponseStep1 c2 of
                                  None \<Rightarrow> None
                                | Some (Some e, c3) \<Rightarrow> Some (continuation_failed w e c3)
                                | Some (None, c3) \<Rightarrow>
                                   (case extractImageFromToolResult_google toolCallResult of
                                      Inl e \<Rightarrow> Some (continuation_failed w e c3)
                                    | Inr imageDetails \<Rightarrow>
                                       (if image_found imageDetails then
                                          (case prepareImageMessageParts imageDetails toolName
                                                  (conversation c3) of
                                             Inl e \<Rightarrow> Some (continuation_failed w e c3)
                                           | Inr imageMessageParts \<Rightarrow>
                                              (case send_parts w imageMessageParts c3 of
                                                 (Inl e, c4) \<Rightarrow> Some (continuation_failed w e c4)
                                               | (Inr llmResponseStep2, c4) \<Rightarrow>
                                                  (case handleLLMResponse n w llmResponseStep2 c4 of
                                                     None \<Rightarrow> None
                                                   | Some (Some e, c5) \<Rightarrow>
                                                       Some (continuation_failed w e c5)
                                                   | Some (None, c5) \<Rightarrow> Some c5)))
                                        else Some c3))))))
               else
                 (case send_history w (pc_kind pc) c1 of
                    (Inl e, c2) \<Rightarrow> Some (continuation_failed w e c2)
                  | (Inr response, c2) \<Rightarrow>
                     (case handleLLMResponse n w response c2 of
                        None \<Rightarrow> None
                      | Some (Some e, c3) \<Rightarrow> Some (continuation_failed w e c3)
                      | Some (None, c3) \<Rightarrow>
                         (if pc_kind pc = OpenAIP then
                            (let lastToolMessageIndex =
                                   int (length (conversation c3))
                                     - (if response_has_tool_calls response then 3 else 2)
                             in case at_index (conversation c3) lastToolMessageIndex of
                                  None \<Rightarrow> Some c3
                                | Some lastToolMessage \<Rightarrow>
                                   (if msg_role lastToolMessage = Tool then
                                      (case extractImageFromToolResult_openai
                                              (msg_content lastToolMessage) of
                                         Inl e \<Rightarrow> Some (continuation_failed w e c3)
                                       | Inr d \<Rightarrow>
                                          (if image_found d then
                                             (case originalUserQuery (conversation c3)
                                                     (lastToolMessageIndex - 2) of
                                                Inl e \<Rightarrow> Some (continuation_failed w e c3)
                                              | Inr query \<Rightarrow>
                                                 (case send_history w OpenAIP
                                                         (push [image_user_message
                                                            (prepareImageMessageContent
                                                               (the (base64ImageData d))
                                                               (the (mimeType d))
                                                               (openai_image_prompt
                                                                  (msg_name lastToolMessage) query))]
                                                            c3) of
                                                    (Inl e, c4) \<Rightarrow> Some (continuation_failed w e c4)
                                                  | (Inr response_step2, c4) \<Rightarrow>
                                                     (case handleLLMResponse n w response_step2 c4 of
                                                        None \<Rightarrow> None
                                                      | Some (Some e, c5) \<Rightarrow>
                                                          Some (continuation_failed w e c5)
                                                      | Some (None, c5) \<Rightarrow> Some c5)))
                                           else Some c3))
                                    else Some c3))
                          else Some c3))))))"

section \<open>Example inputs\<close>

text \<open>
  The runtime's \<^verbatim>\<open>JSON.parse\<close> and \<^verbatim>\<open>JSON.stringify\<close> at the texts and values
  that the examples below give them: of those texts only \<^verbatim>\<open>{}\<close> parses.
\<close>

definition example_parse :: "string \<Rightarrow> json option" where
  "example_parse s = (if s = ''{}'' then Some (JObj []) else None)"

definition example_stringify :: "json \<Rightarrow> string" where
  "example_stringify v =
     (if v = JNum ''4'' then ''4''
      else if v = JObj [] then ''{}''
      else if v = JObj [(''error'', JStr ''no tool'')]
        then ''{'' @ dquote @ ''error'' @ dquote @ '':'' @ dquote @ ''no tool'' @ dquote @ ''}''
      else ''null'')"

text \<open>
  The check that the Google SDK makes of a history given to \<^verbatim>\<open>startChat\<close>: the
  first turn must have the role \<^verbatim>\<open>user\<close>.
\<close>

definition example_startChat :: "json list \<Rightarrow> string option" where
  "example_startChat history =
     (case history of
        [] \<Rightarrow> None
      | t # ts \<Rightarrow>
          (if jget t ''role'' = Some (JStr ''user'') then None
           else Some (''First content should be with role '' @ quote @ ''user'' @ quote
                      @ '', got '' @ interpolate (jget t ''role''))))"

text \<open>
  \<^verbatim>\<open>parseInt(v, 10)\<close> at the values the examples give it: \<^verbatim>\<open>undefined\<close> and
  \<^verbatim>\<open>'abc'\<close> give \<^verbatim>\<open>NaN\<close>, the number 0 gives 0, \<^verbatim>\<open>'-5'\<close> gives -5 and
  \<^verbatim>\<open>'3'\<close> gives 3.
\<close>

definition example_parseInt :: "json option \<Rightarrow> int option" where
  "example_parseInt v =
     (if v = Some (JNum ''0'') then Some 0
      else if v = Some (JStr ''-5'') then Some (- 5)
      else if v = Some (JStr ''3'') then Some 3
      else None)"

definition example_call :: "string \<Rightarrow> string \<Rightarrow> string \<Rightarrow> oa_tool_call" where
  "example_call i n args =
     \<lparr>oa_id = i, oa_type = ''function'', oa_function = \<lparr>fn_name = n, fn_arguments = args\<rparr>\<rparr>"

text \<open>
  A world in which only the Anthropic and Google keys are set, and a client that runs
  Anthropic with a model chosen by \<^verbatim>\<open>/setprovider anthropic claude-3-opus-latest\<close>.
\<close>

definition example_world :: world where
  "example_world =
     \<lparr>environ = (\<lambda>k. if k = ''ANTHROPIC_API_KEY'' then Some ''sk-ant''
                      else if k = ''GOOGLE_GEMINI_API_KEY'' then Some ''g-key'' else None),
      sdk_fails = (\<lambda>k. None),
      startChat_fails = example_startChat,
      json_parse = example_parse,
      json_stringify = example_stringify,
      js_parseInt = example_parseInt,
      engine_message = (\<lambda>e. ''Cannot read properties of null''),
      llm = (\<lambda>n. Inl ''offline''),
      call_tool = (\<lambda>n a. Inl ''no tool''),
      clock = (\<lambda>k. 0)\<rparr>"

definition example_history :: "message list" where
  "example_history =
     [user_message ''My name is Ada.'',
      assistant_message ''Nice to meet you, Ada.'' None]"

definition example_client :: client where
  "example_client =
     \<lparr>conversation = example_history,
      maxConversationHistoryLength = None,
      logs = [],
      systemMessage = ''Be brief.'',
      llmProvider = Some ''anthropic'',
      currentLlmProviderInstance =
        Some \<lparr>pi_kind = AnthropicP, pi_apiKey = ''sk-ant'', pi_modelName = ''claude-3-opus-latest'',
              pi_systemMessage = ''Be brief.'',
              pi_imageAnalysisPromptSuffix = None, pi_chatHistory = None\<rparr>,
      model = Some ''claude-3-opus-latest'',
      openaiModel = None, geminiModel = None, deepseekModel = None,
      sent = []\<rparr>"

text \<open>
  The same client with a history bound of two messages. Before the second question is
  sent the history is trimmed to its last two messages, and the answer is appended: the
  history now starts with an assistant message.
\<close>

definition bounded_client :: client where
  "bounded_client =
     example_client
       \<lparr>conversation := example_history @ [user_message ''What is my name?''],
        maxConversationHistoryLength := Some 2\<rparr>"

definition trimmed_client :: client where
  "trimmed_client =
     push [assistant_message ''Your name is Ada.'' None] (trimConversationHistory bounded_client)"



text \<open>
  A tool cycle under OpenAI: the screenshot tool has returned an image, and the model
  answers the tool result with a further tool call before it says anything about the
  image.
\<close>

definition screenshot_result :: json where
  "screenshot_result =
     JObj [(''content'',
            JArr [JObj [(''type'', JStr ''image''), (''data'', JStr ''iVBOR''),
                        (''mimeType'', JStr ''image/png'')]])]"

definition screenshot_history :: "message list" where
  "screenshot_history =
     [user_message ''Take a screenshot and click OK'',
      assistant_message [] (Some [\<lparr>tc_id = ''call_1'', tc_name = ''screenshot'', tc_args = JObj []\<rparr>]),
      tool_message ''call_1'' ''screenshot'' screenshot_result]"

definition openai_reply :: "string option \<Rightarrow> oa_tool_call list option \<Rightarrow> raw_response" where
  "openai_reply t calls =
     OpenAIResponse \<lparr>oa_choices = Some [\<lparr>choice_message =
        Some \<lparr>oa_content = t, oa_tool_calls = calls\<rparr>\<rparr>]\<rparr>"

definition screenshot_world :: world where
  "screenshot_world =
     \<lparr>environ = (\<lambda>k. if k = ''OPENAI_API_KEY'' then Some ''sk-oa'' else None),
      sdk_fails = (\<lambda>k. None),
      startChat_fails = example_startChat,
      json_parse = example_parse,
      json_stringify = example_stringify,
      js_parseInt = example_parseInt,
      engine_message = (\<lambda>e. ''Cannot read properties of null''),
      llm = (\<lambda>n. if n = 0
                   then Inr (openai_reply (Some ''Clicking.'')
                               (Some [example_call ''call_2'' ''click'' ''{}'']))
                   else Inr (openai_reply (Some ''Done.'') None)),
      call_tool = (\<lambda>n a. if n = ''click'' then Inr (JStr ''clicked'') else Inl ''unknown tool''),
      clock = (\<lambda>k. 0)\<rparr>"

definition screenshot_client :: client where
  "screenshot_client =
     \<lparr>conversation = screenshot_history,
      maxConversationHistoryLength = None,
      logs = [],
      systemMessage = ''Be brief.'',
      llmProvider = Some ''openai'',
      currentLlmProviderInstance =
        Some \<lparr>pi_kind = OpenAIP, pi_apiKey = ''sk-oa'', pi_modelName = ''gpt-4o'',
              pi_systemMessage = ''Be brief.'',
              pi_imageAnalysisPromptSuffix = None, pi_chatHistory = None\<rparr>,
      model = None, openaiModel = Some ''gpt-4o'', geminiModel = None, deepseekModel = None,
      sent = []\<rparr>"

text \<open>
  The same back-end answering every request with plain text.
\<close>

definition plain_world :: world where
  "plain_world = screenshot_world \<lparr>llm := (\<lambda>n. Inr (openai_reply (Some ''Done.'') None))\<rparr>"

text \<open>
  The same tool cycle under Google: the chat session exists, and the back-end answers
  the function response and the image parts in plain text.
\<close>

definition google_reply :: "string \<Rightarrow> raw_response" where
  "google_reply t = GoogleResponse \<lparr>gr_parts = Some [\<lparr>gp_text = Some t, gp_functionCall = None\<rparr>]\<rparr>"

definition google_screenshot_world :: world where
  "google_screenshot_world =
     screenshot_world
       \<lparr>environ := (\<lambda>k. if k = ''GOOGLE_GEMINI_API_KEY'' then Some ''g-key'' else None),
        llm := (\<lambda>n. if n = 0 then Inr (google_reply ''Screenshot taken.'')
                     else Inr (google_reply ''I see an OK button.''))\<rparr>"

definition google_screenshot_client :: client where
  "google_screenshot_client =
     screenshot_client
       \<lparr>llmProvider := Some ''google'',
        currentLlmProviderInstance :=
          Some \<lparr>pi_kind = GoogleP, pi_apiKey = ''g-key'',
                pi_modelName = ''gemini-2.5-flash-preview-04-17'',
                pi_systemMessage = ''Be brief.'', pi_imageAnalysisPromptSuffix = None,
                pi_chatHistory = Some []\<rparr>,
        openaiModel := None, geminiModel := Some ''gemini-2.5-flash-preview-04-17''\<rparr>"
section \<open>Properties of inputs used by the statements\<close>

subsection \<open>Images in tool results\<close>

text \<open>
  The image that a tool result carries, in the two places the client looks: the
  \<^verbatim>\<open>image\<close> property of the result, or the first block of type \<^verbatim>\<open>image\<close> in its
  content list. \<open>d\<close> is the base64 text as the tool wrote it, \<open>m\<close> the media type.
\<close>

definition carries_image :: "json \<Rightarrow> string \<Rightarrow> string \<Rightarrow> bool" where
  "carries_image toolResult d m =
     (\<exists>kvs. toolResult = JObj kvs \<and>
        ((\<exists>ikvs. map_of kvs ''image'' = Some (JObj ikvs)
            \<and> map_of ikvs ''base64Data'' = Some (JStr d)
            \<and> map_of ikvs ''mimeType'' = Some (JStr m))
         \<or> (\<exists>pre pkvs post.
               map_of kvs ''image'' = None \<and> map_of kvs ''base64Data'' = None
             \<and> map_of kvs ''content'' = Some (JArr (pre @ JObj pkvs # post))
             \<and> (\<forall>p \<in> set pre. p \<noteq> JNull \<and> jget p ''type'' \<noteq> Some (JStr ''image''))
             \<and> map_of pkvs ''type'' = Some (JStr ''image'')
             \<and> map_of pkvs ''data'' = Some (JStr d)
             \<and> map_of pkvs ''mimeType'' = Some (JStr m))))"

text \<open>
  \<open>d\<close> is the payload itself, or a data URI that ends with the payload.
\<close>

definition encodes :: "string \<Rightarrow> string \<Rightarrow> bool" where
  "encodes d payload =
     ((d = payload \<and> \<not> (\<exists>r. payload = ''data:'' @ r))
      \<or> (\<exists>mt. d = ''data:'' @ mt @ '';base64,'' @ payload \<and> CHR '','' \<notin> set mt))"


subsection \<open>Histories of the block-structured adapter\<close>











subsection \<open>Images as the OpenAI and Google adapters read them\<close>

text \<open>
  \<open>d\<close> is the payload itself, which does not start with \<^verbatim>\<open>data:\<close>, or the payload
  behind a data-URI prefix whose media type is made of letters, digits, \<^verbatim>\<open>/\<close> and
  \<^verbatim>\<open>+\<close>.
\<close>

definition encodes_plainly :: "string \<Rightarrow> string \<Rightarrow> bool" where
  "encodes_plainly d payload =
     ((d = payload \<and> \<not> (\<exists>r. payload = ''data:'' @ r))
      \<or> (\<exists>mt. mt \<noteq> [] \<and> (\<forall>c \<in> set mt. is_alnum c \<or> c = CHR ''/'' \<or> c = CHR ''+'')
              \<and> d = ''data:'' @ mt @ '';base64,'' @ payload))"
section \<open>Theorems: the history bound\<close>

lemma init_bound_none:
  "not_positive (parseInt c) \<Longrightarrow> not_positive (parseInt e) \<Longrightarrow>
   initMaxConversationHistoryLength parseInt c e = None"
  by (auto simp: initMaxConversationHistoryLength_def not_positive_def Let_def split: option.splits)

text \<open>
  Claim C5. For a positive bound \<open>m\<close>: a history longer than \<open>m\<close> loses exactly its
  \<open>length - m\<close> oldest messages, the last \<open>m\<close> messages stay in their order, and one
  log entry records the number dropped; a history of length at most \<open>m\<close> is left
  as it is (and nothing is logged).
\<close>

theorem trim_positive_bound:
  assumes "0 < m" and "maxConversationHistoryLength st = Some m"
  shows "(int (length (conversation st)) > m \<longrightarrow>
            conversation (trimConversationHistory st)
              = drop (length (conversation st) - nat m) (conversation st)
          \<and> length (conversation (trimConversationHistory st)) = nat m
          \<and> (\<forall>i < nat m. conversation (trimConversationHistory st) ! i
                = conversation st ! (length (conversation st) - nat m + i))
          \<and> logs (trimConversationHistory st)
              = logs st @ [HistoryTrimmed (int (length (conversation st)) - m) m])
       \<and> (int (length (conversation st)) \<le> m \<longrightarrow> trimConversationHistory st = st)"
proof -
  have d: "nat (int (length (conversation st)) - m) = length (conversation st) - nat m"
    using assms(1) by linarith
  show ?thesis
    using assms by (auto simp: trimConversationHistory_def Let_def d)
qed

theorem trim_positive_bound_witness:
  "conversation (trimConversationHistory
      \<lparr>conversation = map user_message [''m1'', ''m2'', ''m3'', ''m4'', ''m5''],
       maxConversationHistoryLength = Some 3, logs = []\<rparr>)
     = map user_message [''m3'', ''m4'', ''m5'']
   \<and> logs (trimConversationHistory
      \<lparr>conversation = map user_message [''m1'', ''m2'', ''m3'', ''m4'', ''m5''],
       maxConversationHistoryLength = Some 3, logs = []\<rparr>) = [HistoryTrimmed 2 3]
   \<and> trimConversationHistory
      \<lparr>conversation = map user_message [''m1'', ''m2''],
       maxConversationHistoryLength = Some 3, logs = []\<rparr>
     = \<lparr>conversation = map user_message [''m1'', ''m2''],
       maxConversationHistoryLength = Some 3, logs = []\<rparr>"
  using trim_positive_bound [of 3 "\<lparr>conversation = map user_message [''m1'', ''m2'', ''m3'', ''m4'', ''m5''],
       maxConversationHistoryLength = Some 3, logs = []\<rparr>"]
    trim_positive_bound [of 3 "\<lparr>conversation = map user_message [''m1'', ''m2''],
       maxConversationHistoryLength = Some 3, logs = []\<rparr>"]
  by simp

text \<open>
  Claim C10. When \<^verbatim>\<open>parseInt\<close> reads a positive number neither from the configuration
  value nor from the environment value (each is absent, not a number, zero or negative),
  the stored bound is \<^verbatim>\<open>null\<close> and trimming returns the state it was given, for
  every history: same messages, same order, nothing logged.
\<close>

theorem no_bound_trim_identity:
  assumes "not_positive (parseInt configValue)" and "not_positive (parseInt envValue)"
  shows "initMaxConversationHistoryLength parseInt configValue envValue = None
       \<and> trimConversationHistory
             \<lparr>conversation = conv,
              maxConversationHistoryLength =
                initMaxConversationHistoryLength parseInt configValue envValue,
              logs = lg\<rparr>
           = \<lparr>conversation = conv, maxConversationHistoryLength = None, logs = lg\<rparr>"
  using init_bound_none [OF assms] by (simp add: trimConversationHistory_def)

theorem no_bound_trim_identity_witness:
  "initMaxConversationHistoryLength example_parseInt None (Some (JStr ''abc'')) = None
   \<and> trimConversationHistory
         \<lparr>conversation = map user_message [''m1'', ''m2'', ''m3''],
          maxConversationHistoryLength =
            initMaxConversationHistoryLength example_parseInt None (Some (JStr ''abc'')),
          logs = []\<rparr>
       = \<lparr>conversation = map user_message [''m1'', ''m2'', ''m3''],
          maxConversationHistoryLength = None, logs = []\<rparr>
   \<and> initMaxConversationHistoryLength example_parseInt (Some (JNum ''0'')) (Some (JStr ''-5''))
       = None"
proof -
  have h1: "not_positive (example_parseInt None)"
    by (simp add: not_positive_def example_parseInt_def)
  have h2: "not_positive (example_parseInt (Some (JStr ''abc'')))"
    by (simp add: not_positive_def example_parseInt_def)
  have h3: "not_positive (example_parseInt (Some (JNum ''0'')))"
    by (simp add: not_positive_def example_parseInt_def)
  have h4: "not_positive (example_parseInt (Some (JStr ''-5'')))"
    by (simp add: not_positive_def example_parseInt_def)
  show ?thesis
    using no_bound_trim_identity [OF h1 h2, of "map user_message [''m1'', ''m2'', ''m3'']" "[]"]
      no_bound_trim_identity [OF h3 h4, of "[]" "[]"]
    by blast
qed
section \<open>Theorems: extractToolCalls\<close>

lemma openai_valid_calls_all_bad:
  "list_all (\<lambda>tc. parse (fn_arguments (oa_function tc)) = None) tcs \<Longrightarrow>
   fst (openai_valid_calls parse tcs) = []"
  by (induction tcs) auto

lemma extractToolCalls_openai_not_empty:
  "fst (extractToolCalls_openai parse r) \<noteq> Some []"
  by (auto simp: extractToolCalls_openai_def Let_def split: option.splits)

lemma extractToolCalls_deepseek_not_empty:
  "fst (extractToolCalls_deepseek parse r) \<noteq> Some []"
  by (auto simp: extractToolCalls_deepseek_def Let_def split: option.splits)

lemma extractToolCalls_anthropic_not_empty:
  "extractToolCalls_anthropic r \<noteq> Some []"
  by (auto simp: extractToolCalls_anthropic_def Let_def split: option.splits)

lemma extractToolCalls_google_not_empty:
  "extractToolCalls_google now r \<noteq> Some []"
  by (auto simp: extractToolCalls_google_def Let_def split: option.splits)

text \<open>
  The four adapters with the guard \<^verbatim>\<open>length > 0 ? calls : null\<close> never return an
  empty list; OpenAI and DeepSeek return \<^verbatim>\<open>null\<close> when every argument string fails
  to parse.
\<close>

lemma guarded_extractors_never_empty:
  "fst (extractToolCalls_openai parse r) \<noteq> Some []
   \<and> fst (extractToolCalls_deepseek parse r) \<noteq> Some []
   \<and> extractToolCalls_anthropic a \<noteq> Some []
   \<and> extractToolCalls_google now g \<noteq> Some []"
  by (simp add: extractToolCalls_openai_not_empty extractToolCalls_deepseek_not_empty
      extractToolCalls_anthropic_not_empty extractToolCalls_google_not_empty)

lemma extractToolCalls_openai_all_bad:
  assumes "first_message r = Some m" and "oa_tool_calls m = Some tcs"
    and "list_all (\<lambda>tc. parse (fn_arguments (oa_function tc)) = None) tcs"
  shows "fst (extractToolCalls_openai parse r) = None"
  using assms openai_valid_calls_all_bad [OF assms(3)]
  by (simp add: extractToolCalls_openai_def)

text \<open>
  The scenario of the specification on the OpenAI adapter: one call that parses and one
  that does not give the list of the first alone, and one error is logged.
\<close>

lemma extractToolCalls_openai_scenario:
  assumes "parse (fn_arguments (oa_function good)) = Some a"
    and "parse (fn_arguments (oa_function bad)) = None"
  shows "extractToolCalls_openai parse
           \<lparr>oa_choices = Some [\<lparr>choice_message =
              Some \<lparr>oa_content = None, oa_tool_calls = Some [good, bad]\<rparr>\<rparr>]\<rparr>
         = (Some [\<lparr>tc_id = oa_id good, tc_name = fn_name (oa_function good), tc_args = a\<rparr>],
            [LogError (''Failed to parse arguments for tool call '' @ fn_name (oa_function bad))])"
  using assms by (simp add: extractToolCalls_openai_def first_message_def)

text \<open>
  Claim C7, on the code. With one call whose arguments parse and one whose arguments do
  not, HuggingFaceProvider.extractToolCalls does not return the list of the first call:
  the SyntaxError of \<^verbatim>\<open>JSON.parse\<close> leaves the function, in either order of the two
  calls. The OpenAI adapter returns the list of the well-formed call on the same response.
\<close>

theorem extractToolCalls_huggingface_malformed:
  assumes "parse (fn_arguments (oa_function good)) = Some a"
    and "parse (fn_arguments (oa_function bad)) = None"
  shows "extractToolCalls_huggingface parse
           \<lparr>oa_choices = Some [\<lparr>choice_message =
              Some \<lparr>oa_content = None, oa_tool_calls = Some [good, bad]\<rparr>\<rparr>]\<rparr>
           = Inl SyntaxError
       \<and> extractToolCalls_huggingface parse
           \<lparr>oa_choices = Some [\<lparr>choice_message =
              Some \<lparr>oa_content = None, oa_tool_calls = Some [bad, good]\<rparr>\<rparr>]\<rparr>
           = Inl SyntaxError
       \<and> fst (extractToolCalls_openai parse
           \<lparr>oa_choices = Some [\<lparr>choice_message =
              Some \<lparr>oa_content = None, oa_tool_calls = Some [good, bad]\<rparr>\<rparr>]\<rparr>)
           = Some [\<lparr>tc_id = oa_id good, tc_name = fn_name (oa_function good), tc_args = a\<rparr>]"
  using assms by (simp add: extractToolCalls_huggingface_def extractToolCalls_openai_def
      first_message_def)

theorem extractToolCalls_huggingface_malformed_witness:
  "extractToolCalls_huggingface example_parse
     \<lparr>oa_choices = Some [\<lparr>choice_message =
        Some \<lparr>oa_content = None,
              oa_tool_calls = Some [example_call ''call_1'' ''add'' ''{}'',
                                    example_call ''call_2'' ''add'' ''{a:''] \<rparr>\<rparr>]\<rparr>
     = Inl SyntaxError"
proof -
  have g: "example_parse (fn_arguments (oa_function (example_call ''call_1'' ''add'' ''{}'')))
             = Some (JObj [])"
    by (simp add: example_parse_def example_call_def)
  have b: "example_parse (fn_arguments (oa_function (example_call ''call_2'' ''add'' ''{a:'')))
             = None"
    by (simp add: example_parse_def example_call_def)
  show ?thesis
    using extractToolCalls_huggingface_malformed [OF g b] by blast
qed

text \<open>
  Claim C9, on the code. On a response whose \<^verbatim>\<open>tool_calls\<close> is the empty array
  (which is truthy), HuggingFaceProvider.extractToolCalls returns the empty list, not
  \<^verbatim>\<open>null\<close>; the OpenAI adapter returns \<^verbatim>\<open>null\<close> on the same response.
\<close>

theorem extractToolCalls_huggingface_empty_list:
  "extractToolCalls_huggingface parse
     \<lparr>oa_choices = Some [\<lparr>choice_message =
        Some \<lparr>oa_content = Some ''Hello'', oa_tool_calls = Some []\<rparr>\<rparr>]\<rparr>
     = Inr (Some [])
   \<and> fst (extractToolCalls_openai parse
     \<lparr>oa_choices = Some [\<lparr>choice_message =
        Some \<lparr>oa_content = Some ''Hello'', oa_tool_calls = Some []\<rparr>\<rparr>]\<rparr>) = None"
  by (simp add: extractToolCalls_huggingface_def extractToolCalls_openai_def first_message_def)

section \<open>Theorems: convertToolResult of the string-variant adapters\<close>










section \<open>Theorems: formatConversation of the block-structured adapter\<close>























text \<open>
  What well-formedness excludes. A \<^verbatim>\<open>null\<close> content block makes formatConversation
  raise TypeError. A tool result that converts to the empty string gets no block, since
  the entry of the map is tested for truthiness. A call whose id names a property that
  every object inherits finds that property in the map, and gets a block although the
  history holds no result for it.
\<close>

lemma null_block_raises:
  "formatConversation_anthropic example_stringify
     [tool_message ''call_a'' ''weather'' (JObj [(''content'', JArr [JNull])])] = Inl TypeError"
  "formatConversation_anthropic example_stringify
     [\<lparr>msg_role = User, msg_content = JArr [JNull], msg_tool_calls = None,
       msg_tool_call_id = None, msg_name = None\<rparr>] = Inl TypeError"
  by code_simp+

lemma empty_result_dropped:
  "formatConversation_anthropic example_stringify
     [assistant_message [] (Some [\<lparr>tc_id = ''call_a'', tc_name = ''weather'', tc_args = JNull\<rparr>]),
      tool_message ''call_a'' ''weather'' (JStr [])]
   = Inr [JObj [(''role'', JStr ''assistant''),
                (''content'',
                 JArr [JObj [(''type'', JStr ''tool_use''), (''id'', JStr ''call_a''),
                             (''name'', JStr ''weather''), (''input'', JObj [])]])]]"
  by code_simp

lemma inherited_id_block:
  "formatConversation_anthropic example_stringify
     [assistant_message [] (Some [\<lparr>tc_id = ''constructor'', tc_name = ''weather'', tc_args = JNull\<rparr>])]
   = Inr [JObj [(''role'', JStr ''assistant''),
                (''content'',
                 JArr [JObj [(''type'', JStr ''tool_use''), (''id'', JStr ''constructor''),
                             (''name'', JStr ''weather''), (''input'', JObj [])]])],
          JObj [(''role'', JStr ''user''),
                (''content'',
                 JArr [JObj [(''type'', JStr ''tool_result''),
                             (''tool_use_id'', JStr ''constructor'')]])]]"
  by code_simp
section \<open>Theorems: the canonical image part\<close>

lemma startsWith_iff: "startsWith s p \<longleftrightarrow> (\<exists>r. s = p @ r)"
  unfolding startsWith_def by (metis append_eq_conv_conj append_take_drop_id)

lemma raw_base64_plain: "\<not> (\<exists>r. d = ''data:'' @ r) \<Longrightarrow> raw_base64 d = d"
  unfolding raw_base64_def startsWith_iff by simp

lemma dropWhile_no_comma:
  "CHR '','' \<notin> set xs \<Longrightarrow> dropWhile (\<lambda>c. c \<noteq> CHR '','') (xs @ CHR '','' # ys) = CHR '','' # ys"
  by (induction xs) auto

lemma raw_base64_data_uri:
  assumes "CHR '','' \<notin> set mt"
  shows "raw_base64 (''data:'' @ mt @ '';base64,'' @ payload) = payload"
proof -
  have e: "''data:'' @ mt @ '';base64,'' @ payload = (''data:'' @ mt @ '';base64'') @ CHR '','' # payload"
    by simp
  have n: "CHR '','' \<notin> set (''data:'' @ mt @ '';base64'')"
    using assms by simp
  have "after_first_comma (''data:'' @ mt @ '';base64,'' @ payload) = payload"
    unfolding after_first_comma_def e dropWhile_no_comma [OF n] by simp
  moreover have "startsWith (''data:'' @ mt @ '';base64,'' @ payload) ''data:''"
    by (simp add: startsWith_def)
  ultimately show ?thesis by (simp add: raw_base64_def)
qed

lemma find_first_image:
  assumes "\<forall>p \<in> set pre. p \<noteq> JNull \<and> jget p ''type'' \<noteq> Some (JStr ''image'')"
    and "is_mcp_image_part img" and "img \<noteq> JNull"
  shows "js_find is_mcp_image_part (pre @ img # post) = Inr (Some img)"
  using assms by (induction pre) (auto simp: is_mcp_image_part_def)

lemma encodes_raw:
  assumes "encodes d payload"
  shows "raw_base64 d = payload"
proof -
  from assms consider "d = payload" "\<not> (\<exists>r. payload = ''data:'' @ r)"
    | mt where "d = ''data:'' @ mt @ '';base64,'' @ payload" "CHR '','' \<notin> set mt"
    unfolding encodes_def by blast
  then show ?thesis
  proof cases
    case 1
    then show ?thesis using raw_base64_plain [of payload] by blast
  next
    case 2
    then show ?thesis using raw_base64_data_uri [of mt payload] by blast
  qed
qed

lemma extract_carried_image:
  assumes "carries_image toolResult d m"
  shows "extractImageFromMcpToolResult toolResult = Inr (Some (raw_base64 d, m))"
proof -
  obtain kvs where r: "toolResult = JObj kvs"
    and c: "(\<exists>ikvs. map_of kvs ''image'' = Some (JObj ikvs)
            \<and> map_of ikvs ''base64Data'' = Some (JStr d)
            \<and> map_of ikvs ''mimeType'' = Some (JStr m))
         \<or> (\<exists>pre pkvs post.
               map_of kvs ''image'' = None \<and> map_of kvs ''base64Data'' = None
             \<and> map_of kvs ''content'' = Some (JArr (pre @ JObj pkvs # post))
             \<and> (\<forall>p \<in> set pre. p \<noteq> JNull \<and> jget p ''type'' \<noteq> Some (JStr ''image''))
             \<and> map_of pkvs ''type'' = Some (JStr ''image'')
             \<and> map_of pkvs ''data'' = Some (JStr d)
             \<and> map_of pkvs ''mimeType'' = Some (JStr m))"
    using assms unfolding carries_image_def by blast
  from c show ?thesis
  proof
    assume "\<exists>ikvs. map_of kvs ''image'' = Some (JObj ikvs)
            \<and> map_of ikvs ''base64Data'' = Some (JStr d)
            \<and> map_of ikvs ''mimeType'' = Some (JStr m)"
    then show ?thesis
      unfolding r
      by (auto simp: extractImageFromMcpToolResult_def truthy_opt_def is_str_opt_def Let_def)
  next
    assume "\<exists>pre pkvs post.
               map_of kvs ''image'' = None \<and> map_of kvs ''base64Data'' = None
             \<and> map_of kvs ''content'' = Some (JArr (pre @ JObj pkvs # post))
             \<and> (\<forall>p \<in> set pre. p \<noteq> JNull \<and> jget p ''type'' \<noteq> Some (JStr ''image''))
             \<and> map_of pkvs ''type'' = Some (JStr ''image'')
             \<and> map_of pkvs ''data'' = Some (JStr d)
             \<and> map_of pkvs ''mimeType'' = Some (JStr m)"
    then obtain pre pkvs post where
      i: "map_of kvs ''image'' = None" "map_of kvs ''base64Data'' = None"
      and cn: "map_of kvs ''content'' = Some (JArr (pre @ JObj pkvs # post))"
      and p: "\<forall>p \<in> set pre. p \<noteq> JNull \<and> jget p ''type'' \<noteq> Some (JStr ''image'')"
      and k: "map_of pkvs ''type'' = Some (JStr ''image'')" "map_of pkvs ''data'' = Some (JStr d)"
        "map_of pkvs ''mimeType'' = Some (JStr m)"
      by blast
    have im: "is_mcp_image_part (JObj pkvs)"
      using k by (simp add: is_mcp_image_part_def is_str_opt_def)
    have f: "js_find is_mcp_image_part (pre @ JObj pkvs # post) = Inr (Some (JObj pkvs))"
      using p im by (intro find_first_image) simp_all
    show ?thesis
      unfolding r using i cn k
      by (simp add: extractImageFromMcpToolResult_def truthy_opt_def is_str_opt_def Let_def f)
  qed
qed

text \<open>
  Claim C3. Let a tool result carry an image whose base64 text is the payload, with or
  without a data-URI prefix, and whose media type is \<open>m\<close>. The client appends a user
  message whose first part is the canonical image part with exactly the payload and
  \<open>m\<close>. From the history that holds that message, formatConversation of the Anthropic
  adapter makes a user turn whose image source block carries exactly the payload and
  \<open>m\<close>, and formatConversation of the OpenAI adapter makes, after the system message
  when there is one, a user turn whose image part is the data URI
  \<^verbatim>\<open>data:m;base64,payload\<close>.
\<close>

theorem canonical_image_roundtrip:
  assumes "carries_image toolResult d m" and "encodes d payload"
    and "payload \<noteq> []" and "m \<noteq> []"
  shows "(let note = JObj [(''type'', JStr ''text''),
                          (''text'', JStr (''[Image from tool '' @ [CHR 0x27] @ toolName @ [CHR 0x27]
                             @ ''. This is the image content. You can now analyze this image.]''))];
              canonical =
                \<lparr>msg_role = User,
                 msg_content =
                   JArr [JObj [(''type'', JStr ''image_mcp''),
                               (''source'', JObj [(''media_type'', JStr m), (''data'', JStr payload)])],
                         note],
                 msg_tool_calls = None, msg_tool_call_id = None, msg_name = None\<rparr>
          in augmentation toolName toolResult = Inr [canonical]
           \<and> formatConversation_anthropic stringify [canonical]
               = Inr [JObj [(''role'', JStr ''user''),
                            (''content'',
                             JArr [JObj [(''type'', JStr ''image''),
                                         (''source'', JObj [(''type'', JStr ''base64''),
                                                           (''media_type'', JStr m),
                                                           (''data'', JStr payload)])],
                                   note])]]
           \<and> formatConversation_openai parse stringify sysMsg suffix [canonical]
               = Inr ((if sysMsg \<noteq> []
                       then [JObj [(''role'', JStr ''system''), (''content'', JStr sysMsg)]] else [])
                      @ [JObj [(''role'', JStr ''user''),
                            (''content'',
                             JArr [JObj [(''type'', JStr ''image_url''),
                                         (''image_url'',
                                          JObj [(''url'', JStr (''data:'' @ m @ '';base64,'' @ payload))])],
                                   note])]]))"
proof -
  have x: "extractImageFromMcpToolResult toolResult = Inr (Some (payload, m))"
    using extract_carried_image [OF assms(1)] encodes_raw [OF assms(2)] by simp
  have a: "augmentation toolName toolResult = Inr [syntheticUserMessage toolName m payload]"
    using x assms(3,4) by (simp add: augmentation_def)
  have an: "formatConversation_anthropic stringify [syntheticUserMessage toolName m payload]
      = Inr [wire_message ''user'' (JArr [image_block (JStr m) (JStr payload),
                                          text_block (image_note toolName)])]"
    using assms(3,4)
    by (simp add: formatConversation_anthropic_def syntheticUserMessage_def anthropic_user_turn_def
        convertUserContentForAnthropic_def anthropic_user_part_def image_mcp_part_def jget2_def
        truthy_opt_def is_str_opt_def text_block_def flush_def)
  have oa: "formatConversation_openai parse stringify sysMsg suffix [syntheticUserMessage toolName m payload]
      = Inr ((if sysMsg \<noteq> [] then [wire_message ''system'' (JStr sysMsg)] else [])
             @ [wire_message ''user''
                  (JArr [image_url_part (''data:'' @ m @ '';base64,'' @ payload),
                         text_block (image_note toolName)])])"
    using assms(3,4)
    by (simp add: formatConversation_openai_def system_turn_def openai_turns_def
        openai_user_turn_def syntheticUserMessage_def openai_user_part_def image_mcp_part_def
        jget2_def truthy_opt_def is_str_opt_def text_block_def data_url_def interpolate_def)
  show ?thesis
    using a an oa
    by (simp add: Let_def syntheticUserMessage_def image_mcp_part_def image_note_def
        wire_message_def image_block_def text_block_def image_url_part_def)
qed

theorem canonical_image_roundtrip_witness:
  "augmentation ''screenshot''
     (JObj [(''content'',
        JArr [JObj [(''type'', JStr ''text''), (''text'', JStr ''done'')],
              JObj [(''type'', JStr ''image''), (''data'', JStr ''data:image/png;base64,iVBOR''),
                    (''mimeType'', JStr ''image/png'')]])])
     = Inr [\<lparr>msg_role = User,
             msg_content =
               JArr [JObj [(''type'', JStr ''image_mcp''),
                           (''source'', JObj [(''media_type'', JStr ''image/png''),
                                             (''data'', JStr ''iVBOR'')])],
                     JObj [(''type'', JStr ''text''),
                           (''text'', JStr (''[Image from tool '' @ [CHR 0x27] @ ''screenshot'' @ [CHR 0x27]
                              @ ''. This is the image content. You can now analyze this image.]''))]],
             msg_tool_calls = None, msg_tool_call_id = None, msg_name = None\<rparr>]
   \<and> formatConversation_anthropic example_stringify
       [\<lparr>msg_role = User,
         msg_content =
           JArr [JObj [(''type'', JStr ''image_mcp''),
                       (''source'', JObj [(''media_type'', JStr ''image/png''),
                                         (''data'', JStr ''iVBOR'')])],
                 JObj [(''type'', JStr ''text''),
                       (''text'', JStr (''[Image from tool '' @ [CHR 0x27] @ ''screenshot'' @ [CHR 0x27]
                          @ ''. This is the image content. You can now analyze this image.]''))]],
         msg_tool_calls = None, msg_tool_call_id = None, msg_name = None\<rparr>]
     = Inr [JObj [(''role'', JStr ''user''),
                  (''content'',
                   JArr [JObj [(''type'', JStr ''image''),
                               (''source'', JObj [(''type'', JStr ''base64''),
                                                 (''media_type'', JStr ''image/png''),
                                                 (''data'', JStr ''iVBOR'')])],
                         JObj [(''type'', JStr ''text''),
                               (''text'', JStr (''[Image from tool '' @ [CHR 0x27] @ ''screenshot'' @ [CHR 0x27]
                                  @ ''. This is the image content. You can now analyze this image.]''))]])]]
   \<and> formatConversation_openai example_parse example_stringify ''Be brief.'' None
       [\<lparr>msg_role = User,
         msg_content =
           JArr [JObj [(''type'', JStr ''image_mcp''),
                       (''source'', JObj [(''media_type'', JStr ''image/png''),
                                         (''data'', JStr ''iVBOR'')])],
                 JObj [(''type'', JStr ''text''),
                       (''text'', JStr (''[Image from tool '' @ [CHR 0x27] @ ''screenshot'' @ [CHR 0x27]
                          @ ''. This is the image content. You can now analyze this image.]''))]],
         msg_tool_calls = None, msg_tool_call_id = None, msg_name = None\<rparr>]
     = Inr [JObj [(''role'', JStr ''system''), (''content'', JStr ''Be brief.'')],
            JObj [(''role'', JStr ''user''),
                  (''content'',
                   JArr [JObj [(''type'', JStr ''image_url''),
                               (''image_url'', JObj [(''url'', JStr ''data:image/png;base64,iVBOR'')])],
                         JObj [(''type'', JStr ''text''),
                               (''text'', JStr (''[Image from tool '' @ [CHR 0x27] @ ''screenshot'' @ [CHR 0x27]
                                  @ ''. This is the image content. You can now analyze this image.]''))]])]]"
proof -
  let ?r = "JObj [(''content'',
        JArr [JObj [(''type'', JStr ''text''), (''text'', JStr ''done'')],
              JObj [(''type'', JStr ''image''), (''data'', JStr ''data:image/png;base64,iVBOR''),
                    (''mimeType'', JStr ''image/png'')]])]"
  have "\<exists>pre pkvs post.
          [JObj [(''type'', JStr ''text''), (''text'', JStr ''done'')],
           JObj [(''type'', JStr ''image''), (''data'', JStr ''data:image/png;base64,iVBOR''),
                 (''mimeType'', JStr ''image/png'')]] = pre @ JObj pkvs # post
        \<and> (\<forall>p \<in> set pre. p \<noteq> JNull \<and> jget p ''type'' \<noteq> Some (JStr ''image''))
        \<and> map_of pkvs ''type'' = Some (JStr ''image'')
        \<and> map_of pkvs ''data'' = Some (JStr ''data:image/png;base64,iVBOR'')
        \<and> map_of pkvs ''mimeType'' = Some (JStr ''image/png'')"
    by (rule exI [of _ "[JObj [(''type'', JStr ''text''), (''text'', JStr ''done'')]]"],
        rule exI [of _ "[(''type'', JStr ''image''), (''data'', JStr ''data:image/png;base64,iVBOR''),
                 (''mimeType'', JStr ''image/png'')]"],
        rule exI [of _ "[]"]) simp
  then have c: "carries_image ?r ''data:image/png;base64,iVBOR'' ''image/png''"
    by (simp add: carries_image_def)
  have "''data:image/png;base64,iVBOR'' = ''data:'' @ ''image/png'' @ '';base64,'' @ ''iVBOR''
        \<and> CHR '','' \<notin> set ''image/png''"
    by simp
  then have e: "encodes ''data:image/png;base64,iVBOR'' ''iVBOR''"
    unfolding encodes_def by blast
  show ?thesis
    using canonical_image_roundtrip [OF c e, of "''screenshot''" example_stringify example_parse
        "''Be brief.''" None]
    by (simp add: Let_def)
qed
section \<open>Theorems: configuration errors\<close>

lemma lower_char_idem: "lower_char (lower_char c) = lower_char c"
  by (simp add: lower_char_def upper_case_letters_def lower_case_letters_def)

lemma toLowerCase_idem: "toLowerCase (toLowerCase name) = toLowerCase name"
  by (simp add: toLowerCase_def lower_char_idem)

lemma toLowerCase_Nil: "toLowerCase name = [] \<longleftrightarrow> name = []"
  by (simp add: toLowerCase_def)

lemma setLLMProvider_config_error:
  assumes "config_error w name"
  shows "setLLMProvider w (Some name) m initialSetup c
           = (False,
              (add_logs (LogInfo (attempt_message (Some (toLowerCase name)) m)
                         # LogError (reported_error w name)
                         # (if \<not> initialSetup \<and> name \<noteq> []
                            then [ConsoleError (''Error: '' @ reported_error w name)]
                            else if \<not> initialSetup
                            then [ConsoleInfo ''No LLM provider specified in command.'']
                            else [])) c)
                \<lparr>currentLlmProviderInstance := None, model := None, openaiModel := None,
                 geminiModel := None, deepseekModel := None\<rparr>)"
proof (cases "provider_constants_of (toLowerCase name)")
  case None
  then show ?thesis
    by (simp add: setLLMProvider_def Let_def add_logs_def reported_error_def truthy_str_def
        toLowerCase_Nil)
next
  case (Some pc)
  then have k: "\<not> truthy_str (environ w (pc_keyVar pc))"
    using assms by (simp add: config_error_def)
  have ne: "name \<noteq> []"
    using Some by (auto simp: provider_constants_of_def toLowerCase_def split: if_splits)
  show ?thesis
    using Some k ne
    by (simp add: setLLMProvider_def Let_def add_logs_def reported_error_def)
qed

text \<open>
  Claim C8, as amended. A configuration error (unsupported provider name or missing API
  key) for the configured provider makes the constructor raise, and main then prints the
  error and ends the process with status 1. In a runtime switch setLLMProvider logs the
  error, prints it, and returns \<^verbatim>\<open>false\<close>; the configured provider name, the history,
  the system message and the bound are unchanged, while the provider instance and the
  four displayed model names are cleared.
\<close>

theorem config_error_startup_and_switch:
  assumes "config_error w name"
  shows "(let message = ''Failed to initialize the configured LLM provider '' @ [CHR 0x22] @ name
                @ [CHR 0x22] @ ''. Please check your '' @ [CHR 0x27] @ ''config.json'' @ [CHR 0x27]
                @ '', ensure the provider name is valid ('' @ [CHR 0x27] @ ''anthropic''
                @ [CHR 0x27] @ '', '' @ [CHR 0x27] @ ''openai'' @ [CHR 0x27] @ '', '' @ [CHR 0x27]
                @ ''google'' @ [CHR 0x27] @ '', '' @ [CHR 0x27] @ ''deepseek'' @ [CHR 0x27]
                @ ''), and that the required API key (e.g., ANTHROPIC_API_KEY, OPENAI_API_KEY, GOOGLE_GEMINI_API_KEY, DEEPSEEK_API_KEY) is set in your environment. Client cannot start.''
          in new_MCPClient w (cfg\<lparr>cfg_llmProvider := Some name\<rparr>) = Inl (Error message)
             \<and> main w (cfg\<lparr>cfg_llmProvider := Some name\<rparr>)
                 = Exited 1 [ConsoleError (''Initialization error: '' @ message)])
       \<and> fst (setLLMProvider w (Some name) m False c) = False
       \<and> LogError (reported_error w name) \<in> set (logs (snd (setLLMProvider w (Some name) m False c)))
       \<and> (name \<noteq> [] \<longrightarrow> ConsoleError (''Error: '' @ reported_error w name)
                          \<in> set (logs (snd (setLLMProvider w (Some name) m False c))))
       \<and> llmProvider (snd (setLLMProvider w (Some name) m False c)) = llmProvider c
       \<and> conversation (snd (setLLMProvider w (Some name) m False c)) = conversation c
       \<and> systemMessage (snd (setLLMProvider w (Some name) m False c)) = systemMessage c
       \<and> maxConversationHistoryLength (snd (setLLMProvider w (Some name) m False c))
           = maxConversationHistoryLength c
       \<and> currentLlmProviderInstance (snd (setLLMProvider w (Some name) m False c)) = None
       \<and> model (snd (setLLMProvider w (Some name) m False c)) = None
       \<and> openaiModel (snd (setLLMProvider w (Some name) m False c)) = None
       \<and> geminiModel (snd (setLLMProvider w (Some name) m False c)) = None
       \<and> deepseekModel (snd (setLLMProvider w (Some name) m False c)) = None"
proof -
  have ce: "config_error w (toLowerCase name)"
    using assms by (simp add: config_error_def toLowerCase_idem)
  have start: "new_MCPClient w (cfg\<lparr>cfg_llmProvider := Some name\<rparr>) = Inl (startup_error (Some name))"
    by (simp add: new_MCPClient_def Let_def setLLMProvider_config_error [OF ce])
  have sw: "setLLMProvider w (Some name) m False c
           = (False,
              (add_logs (LogInfo (attempt_message (Some (toLowerCase name)) m)
                         # LogError (reported_error w name)
                         # (if name \<noteq> []
                            then [ConsoleError (''Error: '' @ reported_error w name)]
                            else [ConsoleInfo ''No LLM provider specified in command.''])) c)
                \<lparr>currentLlmProviderInstance := None, model := None, openaiModel := None,
                 geminiModel := None, deepseekModel := None\<rparr>)"
    using setLLMProvider_config_error [OF assms, of m False c] by simp
  have m: "main w (cfg\<lparr>cfg_llmProvider := Some name\<rparr>)
             = Exited 1 [ConsoleError (''Initialization error: '' @ error_text w (startup_error (Some name)))]"
    by (simp add: main_def start)
  show ?thesis
    using start m unfolding sw
    by (simp add: add_logs_def startup_error_def error_text_def opt_text_def quote_def dquote_def
        Let_def)
qed

lemma example_config_error: "config_error example_world ''openai''"
  by (simp add: config_error_def toLowerCase_def lower_char_def upper_case_letters_def
      lower_case_letters_def provider_constants_of_def example_world_def truthy_str_def)

theorem config_error_startup_and_switch_witness:
  "(let message = ''Failed to initialize the configured LLM provider '' @ [CHR 0x22] @ ''openai''
                @ [CHR 0x22] @ ''. Please check your '' @ [CHR 0x27] @ ''config.json'' @ [CHR 0x27]
                @ '', ensure the provider name is valid ('' @ [CHR 0x27] @ ''anthropic''
                @ [CHR 0x27] @ '', '' @ [CHR 0x27] @ ''openai'' @ [CHR 0x27] @ '', '' @ [CHR 0x27]
                @ ''google'' @ [CHR 0x27] @ '', '' @ [CHR 0x27] @ ''deepseek'' @ [CHR 0x27]
                @ ''), and that the required API key (e.g., ANTHROPIC_API_KEY, OPENAI_API_KEY, GOOGLE_GEMINI_API_KEY, DEEPSEEK_API_KEY) is set in your environment. Client cannot start.''
    in new_MCPClient example_world
         \<lparr>cfg_llmProvider = Some ''openai'', cfg_systemMessage = None,
          cfg_maxConversationHistoryLength = None\<rparr> = Inl (Error message)
       \<and> main example_world
         \<lparr>cfg_llmProvider = Some ''openai'', cfg_systemMessage = None,
          cfg_maxConversationHistoryLength = None\<rparr>
         = Exited 1 [ConsoleError (''Initialization error: '' @ message)])
   \<and> fst (setLLMProvider example_world (Some ''openai'') None False example_client) = False
   \<and> ConsoleError ''Error: OPENAI_API_KEY environment variable is required for OpenAI provider.''
       \<in> set (logs (snd (setLLMProvider example_world (Some ''openai'') None False example_client)))
   \<and> llmProvider (snd (setLLMProvider example_world (Some ''openai'') None False example_client))
       = Some ''anthropic''
   \<and> conversation (snd (setLLMProvider example_world (Some ''openai'') None False example_client))
       = example_history
   \<and> currentLlmProviderInstance
        (snd (setLLMProvider example_world (Some ''openai'') None False example_client)) = None
   \<and> model (snd (setLLMProvider example_world (Some ''openai'') None False example_client)) = None"
proof -
  have a: "\<lparr>cfg_llmProvider = Some ''openai'', cfg_systemMessage = None,
       cfg_maxConversationHistoryLength = None\<rparr>
      = \<lparr>cfg_llmProvider = None, cfg_systemMessage = None,
       cfg_maxConversationHistoryLength = None\<rparr>\<lparr>cfg_llmProvider := Some ''openai''\<rparr>"
    by simp
  have r: "reported_error example_world ''openai''
      = ''OPENAI_API_KEY environment variable is required for OpenAI provider.''"
    by (simp add: reported_error_def toLowerCase_def lower_char_def upper_case_letters_def
        lower_case_letters_def provider_constants_of_def)
  show ?thesis
    unfolding a
    using config_error_startup_and_switch [OF example_config_error,
        of "\<lparr>cfg_llmProvider = None, cfg_systemMessage = None,
             cfg_maxConversationHistoryLength = None\<rparr>" None example_client]
    by (simp add: example_client_def r Let_def)
qed

text \<open>
  Claim C8 as stated fails: after a rejected switch the previously active provider
  instance is gone and the model name that was displayed is cleared. (The instance
  that the next request re-creates runs the default model, not the model that was
  active.)
\<close>

theorem failed_switch_discards_instance:
  "fst (setLLMProvider example_world (Some ''openai'') None False example_client) = False
   \<and> currentLlmProviderInstance example_client
       = Some \<lparr>pi_kind = AnthropicP, pi_apiKey = ''sk-ant'', pi_modelName = ''claude-3-opus-latest'',
               pi_systemMessage = ''Be brief.'', pi_imageAnalysisPromptSuffix = None,
               pi_chatHistory = None\<rparr>
   \<and> currentLlmProviderInstance
        (snd (setLLMProvider example_world (Some ''openai'') None False example_client)) = None
   \<and> model example_client = Some ''claude-3-opus-latest''
   \<and> model (snd (setLLMProvider example_world (Some ''openai'') None False example_client)) = None
   \<and> map_option pi_modelName (currentLlmProviderInstance
        (snd (ensure_provider example_world
               \<lparr>pc_kind = AnthropicP, pc_keyVar = ''ANTHROPIC_API_KEY'',
                pc_modelVar = ''ANTHROPIC_MODEL'', pc_defaultModel = ''claude-3-5-sonnet-latest'',
                pc_label = ''Anthropic''\<rparr> ''anthropic''
               (snd (setLLMProvider example_world (Some ''openai'') None False example_client)))))
       = Some ''claude-3-5-sonnet-latest''"
proof -
  have sw: "setLLMProvider example_world (Some ''openai'') None False example_client
           = (False,
              (add_logs [LogInfo (attempt_message (Some (toLowerCase ''openai'')) None),
                         LogError (reported_error example_world ''openai''),
                         ConsoleError (''Error: '' @ reported_error example_world ''openai'')]
                 example_client)
                \<lparr>currentLlmProviderInstance := None, model := None, openaiModel := None,
                 geminiModel := None, deepseekModel := None\<rparr>)"
    using setLLMProvider_config_error [OF example_config_error, of None False example_client]
    by simp
  have lp: "provider_constants_of (toLowerCase ''anthropic'')
      = Some \<lparr>pc_kind = AnthropicP, pc_keyVar = ''ANTHROPIC_API_KEY'',
                pc_modelVar = ''ANTHROPIC_MODEL'', pc_defaultModel = ''claude-3-5-sonnet-latest'',
                pc_label = ''Anthropic''\<rparr>"
    by (simp add: provider_constants_of_def toLowerCase_def lower_char_def upper_case_letters_def
        lower_case_letters_def)
  show ?thesis
    unfolding sw
    by (simp add: lp example_client_def ensure_provider_def setLLMProvider_def Let_def
        add_logs_def display_model_def set_display_model_def or_opt_def or_default_def
        truthy_str_def example_world_def new_provider_def)
qed
section \<open>Theorems: the seed of the Google session\<close>

lemma formatConversation_google_turns:
  "formatConversation_google parse conv = Inr h \<Longrightarrow>
   \<exists>tss. length tss = length conv
        \<and> (\<forall>i < length conv. google_turns parse (conv ! i) = Inr (tss ! i))
        \<and> h = concat tss"
proof (induction conv arbitrary: h)
  case Nil
  then show ?case by simp
next
  case (Cons m rest)
  from Cons.prems obtain ts others where ts: "google_turns parse m = Inr ts"
    and o: "formatConversation_google parse rest = Inr others" and h: "h = ts @ others"
    by (auto split: sum.splits)
  from Cons.IH [OF o] obtain tss where l: "length tss = length rest"
    and a: "\<forall>i < length rest. google_turns parse (rest ! i) = Inr (tss ! i)"
    and c: "others = concat tss" by blast
  have "\<forall>i < length (m # rest). google_turns parse ((m # rest) ! i) = Inr ((ts # tss) ! i)"
    using ts a by (auto simp: nth_Cons split: nat.splits)
  then show ?case
    using l c h by (intro exI [of _ "ts # tss"]) simp
qed

lemma setLLMProvider_google:
  assumes "truthy_str (environ w ''GOOGLE_GEMINI_API_KEY'')" and "sdk_fails w GoogleP = None"
  shows "fst (setLLMProvider w (Some ''google'') m initialSetup c)
       \<and> currentLlmProviderInstance (snd (setLLMProvider w (Some ''google'') m initialSetup c))
           = Some (new_provider w GoogleP (the (environ w ''GOOGLE_GEMINI_API_KEY''))
                     (or_default (or_opt m (environ w ''GOOGLE_GEMINI_MODEL''))
                        ''gemini-2.5-flash-preview-04-17'')
                     (systemMessage c) (conversation c))
       \<and> conversation (snd (setLLMProvider w (Some ''google'') m initialSetup c)) = conversation c
       \<and> llmProvider (snd (setLLMProvider w (Some ''google'') m initialSetup c)) = Some ''google''"
proof -
  have lp: "provider_constants_of ''google''
      = Some \<lparr>pc_kind = GoogleP, pc_keyVar = ''GOOGLE_GEMINI_API_KEY'',
              pc_modelVar = ''GOOGLE_GEMINI_MODEL'',
              pc_defaultModel = ''gemini-2.5-flash-preview-04-17'', pc_label = ''Google''\<rparr>"
    by (simp add: provider_constants_of_def)
  have lg: "toLowerCase ''google'' = ''google''"
    by code_simp
  show ?thesis
    using assms
    by (simp add: setLLMProvider_def Let_def lp lg add_logs_def set_display_model_def)
qed

text \<open>
  When the Google provider is set up (its key is present and the SDK constructor does
  not fail), the history can be formatted and \<^verbatim>\<open>startChat\<close> accepts the result, the
  new instance's chat session is started with formatConversation of the whole canonical
  history, which is left unchanged, at a provider switch and at \<^verbatim>\<open>/setsystem\<close> while
  Google is the configured provider.
\<close>

lemma google_session_seeded_when_accepted:
  assumes "truthy_str (environ w ''GOOGLE_GEMINI_API_KEY'')" and "sdk_fails w GoogleP = None"
    and "formatConversation_google (json_parse w) (conversation c) = Inr h"
    and "startChat_fails w h = None"
  shows "fst (setLLMProvider w (Some ''google'') m initialSetup c)
       \<and> map_option pi_chatHistory
           (currentLlmProviderInstance (snd (setLLMProvider w (Some ''google'') m initialSetup c)))
           = Some (Some h)
       \<and> conversation (snd (setLLMProvider w (Some ''google'') m initialSetup c)) = conversation c
       \<and> (llmProvider c = Some ''google'' \<and> js_trim s \<noteq> [] \<longrightarrow>
            map_option pi_chatHistory
              (currentLlmProviderInstance (setsystem_command w (''/setsystem '' @ s) c))
              = Some (Some h)
          \<and> map_option pi_systemMessage
              (currentLlmProviderInstance (setsystem_command w (''/setsystem '' @ s) c))
              = Some (js_trim s)
          \<and> conversation (setsystem_command w (''/setsystem '' @ s) c) = conversation c)"
proof -
  have sw: "fst (setLLMProvider w (Some ''google'') m initialSetup c)
       \<and> map_option pi_chatHistory
           (currentLlmProviderInstance (snd (setLLMProvider w (Some ''google'') m initialSetup c)))
           = Some (Some h)
       \<and> conversation (snd (setLLMProvider w (Some ''google'') m initialSetup c)) = conversation c"
    using setLLMProvider_google [OF assms(1,2), of m initialSetup c] assms(3,4)
    by (simp add: new_provider_def)
  have ss: "map_option pi_chatHistory
              (currentLlmProviderInstance (setsystem_command w (''/setsystem '' @ s) c))
              = Some (Some h)
          \<and> map_option pi_systemMessage
              (currentLlmProviderInstance (setsystem_command w (''/setsystem '' @ s) c))
              = Some (js_trim s)
          \<and> conversation (setsystem_command w (''/setsystem '' @ s) c) = conversation c"
    if g: "llmProvider c = Some ''google''" and ne: "js_trim s \<noteq> []"
  proof -
    let ?c1 = "add_logs [ConsoleLog ''Re-initializing Google provider to apply new system message...'']
                 (add_logs
                    [LogInfo (''System message updated to: '' @ system_message_line (js_trim s)),
                     ConsoleLog ''System message updated. It will be applied on the next interaction.'']
                    (c\<lparr>systemMessage := js_trim s\<rparr>))"
    let ?m = "Some (or_default (or_opt (geminiModel ?c1) (environ w ''GOOGLE_GEMINI_MODEL''))
                          ''gemini-2.5-flash-preview-04-17'')"
    have c1: "conversation ?c1 = conversation c" "systemMessage ?c1 = js_trim s"
      "llmProvider ?c1 = Some ''google''"
      using g by (simp_all add: add_logs_def)
    have r: "fst (setLLMProvider w (Some ''google'') ?m True ?c1)"
      "currentLlmProviderInstance (snd (setLLMProvider w (Some ''google'') ?m True ?c1))
           = Some (new_provider w GoogleP (the (environ w ''GOOGLE_GEMINI_API_KEY''))
                     (or_default (or_opt ?m (environ w ''GOOGLE_GEMINI_MODEL''))
                        ''gemini-2.5-flash-preview-04-17'')
                     (js_trim s) (conversation c))"
      "conversation (snd (setLLMProvider w (Some ''google'') ?m True ?c1)) = conversation c"
      using setLLMProvider_google [OF assms(1,2), of ?m True ?c1] c1 by simp_all
    have e: "setsystem_command w (''/setsystem '' @ s) c
          = add_logs [ConsoleLog ''Google provider re-initialized with new system message.'']
              (snd (setLLMProvider w (Some ''google'') ?m True ?c1))"
      using ne r(1) g by (simp add: setsystem_command_def Let_def add_logs_def)
    show ?thesis
      unfolding e using r(2,3) assms(3,4) by (simp add: add_logs_def new_provider_def)
  qed
  show ?thesis
    using sw ss by blast
qed

text \<open>
  The messages that the client appends give one turn each: a user text a
  \<^verbatim>\<open>user\<close> turn, an assistant message with text or tool calls a \<^verbatim>\<open>model\<close> turn,
  a tool message with a string result a \<^verbatim>\<open>function\<close> turn.
\<close>

lemma google_turns_shapes:
  "google_turns parse (user_message q) = Inr [google_turn ''user'' [text_part q]]"
  "nonblank_text (JStr t) = Some t \<Longrightarrow>
     google_turns parse (assistant_message t None) = Inr [google_turn ''model'' [text_part t]]"
  "tcs \<noteq> [] \<Longrightarrow>
     google_turns parse (assistant_message [] (Some tcs))
       = Inr [google_turn ''model'' (map function_call_part tcs)]"
  "i \<noteq> [] \<Longrightarrow> n \<noteq> [] \<Longrightarrow>
     google_turns parse (tool_message i n (JStr r))
       = Inr [google_turn ''function''
                [JObj [(''functionResponse'',
                        JObj [(''name'', JStr n), (''response'', JObj [(''result'', JStr r)])])]]]"
  by (simp_all add: google_turns_def user_message_def assistant_message_def tool_message_def
      modelParts_def calls_of_def nonblank_text_def truthy_str_def convertToolResult_google_def
      google_response_data_def content_array_def opt_field_def)

text \<open>
  A history that starts with a user message is accepted, and the session holds its turns.
\<close>

lemma google_session_seeded_example:
  "map_option pi_chatHistory
     (currentLlmProviderInstance
        (snd (setLLMProvider example_world (Some ''google'') None False example_client)))
     = Some (Some [JObj [(''role'', JStr ''user''),
                         (''parts'', JArr [JObj [(''text'', JStr ''My name is Ada.'')]])],
                   JObj [(''role'', JStr ''model''),
                         (''parts'', JArr [JObj [(''text'', JStr ''Nice to meet you, Ada.'')]])]])"
  by code_simp

text \<open>
  Claim C2. The history bound is two messages, so the history was trimmed before the
  second question was sent and now starts with an assistant message. Its translation
  starts with a \<^verbatim>\<open>model\<close> turn, which \<^verbatim>\<open>startChat\<close> rejects. The switch to Google
  reports success (\<^verbatim>\<open>Switched to Google provider\<close>), but the new instance has no chat
  session: nothing of the history was given to it, and the next message cannot be sent.
  The same happens when \<^verbatim>\<open>/setsystem\<close> re-initialises the Google provider.
\<close>

theorem google_switch_without_session:
  "conversation trimmed_client
     = [assistant_message ''Nice to meet you, Ada.'' None,
        user_message ''What is my name?'',
        assistant_message ''Your name is Ada.'' None]
   \<and> formatConversation_google example_parse (conversation trimmed_client)
     = Inr [JObj [(''role'', JStr ''model''),
                  (''parts'', JArr [JObj [(''text'', JStr ''Nice to meet you, Ada.'')]])],
            JObj [(''role'', JStr ''user''),
                  (''parts'', JArr [JObj [(''text'', JStr ''What is my name?'')]])],
            JObj [(''role'', JStr ''model''),
                  (''parts'', JArr [JObj [(''text'', JStr ''Your name is Ada.'')]])]]
   \<and> fst (setLLMProvider example_world (Some ''google'') None False trimmed_client) = True
   \<and> last (logs (snd (setLLMProvider example_world (Some ''google'') None False trimmed_client)))
     = LogInfo ''Successfully set LLM provider to Google with model gemini-2.5-flash-preview-04-17''
   \<and> conversation (snd (setLLMProvider example_world (Some ''google'') None False trimmed_client))
     = conversation trimmed_client
   \<and> map_option pi_chatHistory
       (currentLlmProviderInstance
          (snd (setLLMProvider example_world (Some ''google'') None False trimmed_client)))
     = Some None
   \<and> fst (send_parts example_world [JObj [(''text'', JStr ''And my surname?'')]]
            (snd (setLLMProvider example_world (Some ''google'') None False trimmed_client)))
     = Inl (Error ''GoogleProvider chat session not initialized.'')
   \<and> map_option pi_chatHistory
       (currentLlmProviderInstance
          (setsystem_command example_world ''/setsystem Answer in French.''
             (trimmed_client\<lparr>llmProvider := Some ''google''\<rparr>)))
     = Some None
   \<and> last (logs (setsystem_command example_world ''/setsystem Answer in French.''
                    (trimmed_client\<lparr>llmProvider := Some ''google''\<rparr>)))
     = ConsoleLog ''Google provider re-initialized with new system message.''"
  by code_simp
section \<open>The two-step image exchange\<close>

text \<open>
  Table rows of the two providers that send an image in a step of its own.
\<close>

lemma kind_google: "provider_constants_of ''google''
      = Some \<lparr>pc_kind = GoogleP, pc_keyVar = ''GOOGLE_GEMINI_API_KEY'',
              pc_modelVar = ''GOOGLE_GEMINI_MODEL'',
              pc_defaultModel = ''gemini-2.5-flash-preview-04-17'', pc_label = ''Google''\<rparr>"
  by (simp add: provider_constants_of_def)

lemma kind_openai: "provider_constants_of ''openai''
      = Some \<lparr>pc_kind = OpenAIP, pc_keyVar = ''OPENAI_API_KEY'',
              pc_modelVar = ''OPENAI_MODEL'', pc_defaultModel = ''gpt-4o'',
              pc_label = ''OpenAI''\<rparr>"
  by (simp add: provider_constants_of_def)

text \<open>
  A response without tool calls appends one assistant message and nothing else.
\<close>

lemma handle_plain_google:
  assumes "llmProvider c = Some ''google''" and "currentLlmProviderInstance c \<noteq> None"
    and "extractToolCalls_google (clock w) r = None"
  shows "handleLLMResponse (Suc n) w (GoogleResponse r) c
           = Some (None, push [assistant_message (extractTextContent_google r) None] c)"
  using assms by (simp add: kind_of_name_def kind_google extract_text_def extract_calls_def)

lemma handle_plain_openai:
  assumes "llmProvider c = Some ''openai''" and "currentLlmProviderInstance c \<noteq> None"
    and "fst (extractToolCalls_openai (json_parse w) r) = None"
  shows "handleLLMResponse (Suc n) w (OpenAIResponse r) c
           = Some (None, push [assistant_message (extractTextContent_openai r) None] c)"
  using assms by (simp add: kind_of_name_def kind_openai extract_text_def extract_calls_def)

lemma no_tool_calls_openai:
  "\<not> response_has_tool_calls (OpenAIResponse r) \<Longrightarrow>
   fst (extractToolCalls_openai parse r) = None"
  by (auto simp: response_has_tool_calls_def extractToolCalls_openai_def split: option.splits)

lemma trim_no_bound: "maxConversationHistoryLength c = None \<Longrightarrow> trimConversationHistory c = c"
  by (simp add: trimConversationHistory_def)

text \<open>
  Google: the function response is sent alone, its answer is appended to the history, and
  only then the image parts are sent, whose prompt is built from the history that already
  holds the answer.
\<close>

lemma google_two_step:
  assumes g: "llmProvider c = Some ''google''"
    and inst: "currentLlmProviderInstance c = Some inst" "pi_chatHistory inst \<noteq> None"
    and last: "conversation c = hist @ [t]" "msg_role t = Tool"
    and conv: "convertToolResult_google (json_parse w) (msg_content t) (msg_name t) = Inr part"
    and img: "extractImageFromToolResult_google (msg_content t) = Inr d" "image_found d"
    and r1: "llm w (length (sent c)) = Inr (GoogleResponse r1)"
            "extractToolCalls_google (clock w) r1 = None"
    and r2: "llm w (Suc (length (sent c))) = Inr (GoogleResponse r2)"
            "extractToolCalls_google (clock w) r2 = None"
  shows "\<exists>c'. continueConversation (Suc (Suc n)) w c = Some c'
       \<and> sent c' = sent c @
           [\<lparr>se_payload = Parts [part], se_history = conversation c\<rparr>,
            \<lparr>se_payload = Parts [inline_data (the (mimeType d)) (JStr (the (base64ImageData d))),
                 text_part (google_image_prompt (msg_name t)
                   (conversation c @ [assistant_message (extractTextContent_google r1) None]))],
              se_history = conversation c @ [assistant_message (extractTextContent_google r1) None]\<rparr>]
       \<and> conversation c' = conversation c @
           [assistant_message (extractTextContent_google r1) None,
            assistant_message (extractTextContent_google r2) None]"
proof -
  let ?ack = "assistant_message (extractTextContent_google r1) None"
  let ?c2 = "record_send (Parts [part]) c"
  let ?c3 = "push [?ack] ?c2"
  let ?parts = "[inline_data (the (mimeType d)) (JStr (the (base64ImageData d))),
                 text_part (google_image_prompt (msg_name t) (conversation c @ [?ack]))]"
  let ?c4 = "record_send (Parts ?parts) ?c3"
  have e: "ensure_provider w \<lparr>pc_kind = GoogleP, pc_keyVar = ''GOOGLE_GEMINI_API_KEY'',
              pc_modelVar = ''GOOGLE_GEMINI_MODEL'',
              pc_defaultModel = ''gemini-2.5-flash-preview-04-17'', pc_label = ''Google''\<rparr>
              ''google'' c = (None, c)"
    using inst by (simp add: ensure_provider_def)
  have s1: "send_parts w [part] c = (Inr (GoogleResponse r1), ?c2)"
    using inst r1 by (simp add: send_parts_def)
  have h1: "handleLLMResponse (Suc n) w (GoogleResponse r1) ?c2 = Some (None, ?c3)"
    using g inst r1 by (intro handle_plain_google) (simp_all add: record_send_def)
  have p: "prepareImageMessageParts d (msg_name t) (conversation ?c3) = Inr ?parts"
    using img by (simp add: prepareImageMessageParts_def push_def record_send_def)
  have s2: "send_parts w ?parts ?c3 = (Inr (GoogleResponse r2), ?c4)"
    using inst r2 by (simp add: send_parts_def push_def record_send_def)
  have h2: "handleLLMResponse (Suc n) w (GoogleResponse r2) ?c4
      = Some (None, push [assistant_message (extractTextContent_google r2) None] ?c4)"
    using g inst r2 by (intro handle_plain_google) (simp_all add: record_send_def push_def)
  have l: "conversation c \<noteq> []" "last (conversation c) = t"
    using last by simp_all
  have "continueConversation (Suc (Suc n)) w c
      = Some (push [assistant_message (extractTextContent_google r2) None] ?c4)"
    using g l last(2) conv img
    by (simp add: kind_google e s1 h1 p s2 h2 Let_def del: handleLLMResponse.simps)
  then show ?thesis
    by (simp add: push_def record_send_def)
qed

text \<open>
  OpenAI, when the answer to the tool result carries no tool calls: the history ending with
  the tool message is formatted and sent, the answer is appended, and the image-bearing
  user message is appended and the history formatted and sent again.
\<close>

lemma openai_two_step:
  assumes o: "llmProvider c = Some ''openai''"
    and inst: "currentLlmProviderInstance c = Some inst"
    and nb: "maxConversationHistoryLength c = None"
    and last: "conversation c = hist @ [t]" "msg_role t = Tool"
    and img: "extractImageFromToolResult_openai (msg_content t) = Inr d" "image_found d"
    and q: "originalUserQuery
              (conversation c @ [assistant_message (extractTextContent_openai r1) None])
              (int (length hist) - 2) = Inr query"
    and f1: "formatConversation w OpenAIP inst (conversation c) = Inr request1"
    and f2: "formatConversation w OpenAIP inst
               (conversation c @
                  [assistant_message (extractTextContent_openai r1) None,
                   image_user_message
                     (prepareImageMessageContent (the (base64ImageData d)) (the (mimeType d))
                        (openai_image_prompt (msg_name t) query))]) = Inr request2"
    and r1: "llm w (length (sent c)) = Inr (OpenAIResponse r1)"
            "\<not> response_has_tool_calls (OpenAIResponse r1)"
    and r2: "llm w (Suc (length (sent c))) = Inr (OpenAIResponse r2)"
            "fst (extractToolCalls_openai (json_parse w) r2) = None"
  shows "\<exists>c'. continueConversation (Suc (Suc n)) w c = Some c'
       \<and> sent c' = sent c @
           [\<lparr>se_payload = Messages request1, se_history = conversation c\<rparr>,
            \<lparr>se_payload = Messages request2,
              se_history = conversation c @
                [assistant_message (extractTextContent_openai r1) None,
                 image_user_message
                   (prepareImageMessageContent (the (base64ImageData d)) (the (mimeType d))
                      (openai_image_prompt (msg_name t) query))]\<rparr>]
       \<and> conversation c' = conversation c @
           [assistant_message (extractTextContent_openai r1) None,
            image_user_message
              (prepareImageMessageContent (the (base64ImageData d)) (the (mimeType d))
                 (openai_image_prompt (msg_name t) query)),
            assistant_message (extractTextContent_openai r2) None]"
proof -
  let ?ack = "assistant_message (extractTextContent_openai r1) None"
  let ?img = "image_user_message
              (prepareImageMessageContent (the (base64ImageData d)) (the (mimeType d))
                 (openai_image_prompt (msg_name t) query))"
  let ?c2 = "record_send (Messages request1) c"
  let ?c3 = "push [?ack] ?c2"
  let ?c4 = "record_send (Messages request2) (push [?img] ?c3)"
  have e: "ensure_provider w \<lparr>pc_kind = OpenAIP, pc_keyVar = ''OPENAI_API_KEY'',
              pc_modelVar = ''OPENAI_MODEL'', pc_defaultModel = ''gpt-4o'',
              pc_label = ''OpenAI''\<rparr> ''openai'' c = (None, c)"
    using inst by (auto simp: ensure_provider_def)
  have s1: "send_history w OpenAIP c = (Inr (OpenAIResponse r1), ?c2)"
    using nb inst f1 r1 by (simp add: send_history_def trim_no_bound)
  have h1: "handleLLMResponse (Suc n) w (OpenAIResponse r1) ?c2 = Some (None, ?c3)"
    using o inst no_tool_calls_openai [OF r1(2)]
    by (intro handle_plain_openai) (simp_all add: record_send_def)
  have cq: "conversation ?c3 = conversation c @ [?ack]"
    by (simp add: push_def record_send_def)
  have at: "at_index (conversation ?c3) (int (length (conversation ?c3)) - 2) = Some t"
    using last by (simp add: at_index_def cq nth_append)
  have q': "originalUserQuery (conversation ?c3) (int (length (conversation ?c3)) - 4)
              = Inr query"
    using q last by (simp add: cq)
  have s2: "send_history w OpenAIP (push [?img] ?c3) = (Inr (OpenAIResponse r2), ?c4)"
    using f2 r2 nb inst
    by (simp add: send_history_def trimConversationHistory_def push_def record_send_def)
  have h2: "handleLLMResponse (Suc n) w (OpenAIResponse r2) ?c4
      = Some (None, push [assistant_message (extractTextContent_openai r2) None] ?c4)"
    using o inst r2 by (intro handle_plain_openai) (simp_all add: record_send_def push_def)
  have "continueConversation (Suc (Suc n)) w c
      = Some (push [assistant_message (extractTextContent_openai r2) None] ?c4)"
    using o last(2) img r1(2)
    by (simp add: kind_openai e s1 h1 at q' s2 h2 Let_def del: handleLLMResponse.simps)
  then show ?thesis
    by (simp add: push_def record_send_def)
qed

text \<open>
  The screenshot example: the provider finds the image in the tool result.
\<close>

lemma screenshot_image:
  "extractImageFromToolResult_openai screenshot_result
     = Inr \<lparr>base64ImageData = Some ''iVBOR'', mimeType = Some (JStr ''image/png'')\<rparr>"
  by code_simp

text \<open>
  The image of a tool result as the OpenAI and Google adapters find it.
\<close>

lemma js_find_first:
  assumes "\<forall>p \<in> set pre. p \<noteq> JNull \<and> \<not> P p" and "P x" and "x \<noteq> JNull"
  shows "js_find P (pre @ x # post) = Inr (Some x)"
  using assms by (induction pre) auto

lemma carried_image_found:
  assumes c: "carries_image r d m" and ne: "d \<noteq> []" "m \<noteq> []"
  shows "locate_image r = Inr \<lparr>base64ImageData = Some d, mimeType = Some (JStr m)\<rparr>"
    and "hasImage r = Inr True"
proof -
  obtain kvs where r: "r = JObj kvs"
    and cs: "(\<exists>ikvs. map_of kvs ''image'' = Some (JObj ikvs)
            \<and> map_of ikvs ''base64Data'' = Some (JStr d)
            \<and> map_of ikvs ''mimeType'' = Some (JStr m))
         \<or> (\<exists>pre pkvs post.
               map_of kvs ''image'' = None \<and> map_of kvs ''base64Data'' = None
             \<and> map_of kvs ''content'' = Some (JArr (pre @ JObj pkvs # post))
             \<and> (\<forall>p \<in> set pre. p \<noteq> JNull \<and> jget p ''type'' \<noteq> Some (JStr ''image''))
             \<and> map_of pkvs ''type'' = Some (JStr ''image'')
             \<and> map_of pkvs ''data'' = Some (JStr d)
             \<and> map_of pkvs ''mimeType'' = Some (JStr m))"
    using c unfolding carries_image_def by blast
  have "locate_image r = Inr \<lparr>base64ImageData = Some d, mimeType = Some (JStr m)\<rparr>
        \<and> hasImage r = Inr True"
    using cs
  proof
    assume "\<exists>ikvs. map_of kvs ''image'' = Some (JObj ikvs)
            \<and> map_of ikvs ''base64Data'' = Some (JStr d)
            \<and> map_of ikvs ''mimeType'' = Some (JStr m)"
    then show ?thesis
      unfolding r using ne
      by (auto simp: locate_image_def hasImage_def has_direct_image_def jget2_def truthy_opt_def
          is_str_opt_def)
  next
    assume "\<exists>pre pkvs post.
               map_of kvs ''image'' = None \<and> map_of kvs ''base64Data'' = None
             \<and> map_of kvs ''content'' = Some (JArr (pre @ JObj pkvs # post))
             \<and> (\<forall>p \<in> set pre. p \<noteq> JNull \<and> jget p ''type'' \<noteq> Some (JStr ''image''))
             \<and> map_of pkvs ''type'' = Some (JStr ''image'')
             \<and> map_of pkvs ''data'' = Some (JStr d)
             \<and> map_of pkvs ''mimeType'' = Some (JStr m)"
    then obtain pre pkvs post where
      i: "map_of kvs ''image'' = None"
      and cn: "map_of kvs ''content'' = Some (JArr (pre @ JObj pkvs # post))"
      and p: "\<forall>p \<in> set pre. p \<noteq> JNull \<and> jget p ''type'' \<noteq> Some (JStr ''image'')"
      and k: "map_of pkvs ''type'' = Some (JStr ''image'')" "map_of pkvs ''data'' = Some (JStr d)"
        "map_of pkvs ''mimeType'' = Some (JStr m)"
      by blast
    have im: "is_image_part (JObj pkvs)"
      using k ne by (simp add: is_image_part_def is_str_opt_def truthy_opt_def)
    have "\<forall>p \<in> set pre. p \<noteq> JNull \<and> \<not> is_image_part p"
      using p by (simp add: is_image_part_def)
    then have f: "js_find is_image_part (pre @ JObj pkvs # post) = Inr (Some (JObj pkvs))"
      using im by (intro js_find_first) simp_all
    show ?thesis
      unfolding r using i cn k
      by (simp add: locate_image_def hasImage_def has_direct_image_def truthy_opt_def
          content_array_def f)
  qed
  then show "locate_image r = Inr \<lparr>base64ImageData = Some d, mimeType = Some (JStr m)\<rparr>"
    and "hasImage r = Inr True" by simp_all
qed

lemma takeWhile_class:
  "\<forall>c \<in> set mt. P c \<Longrightarrow> \<not> P x \<Longrightarrow>
   takeWhile P (mt @ x # rest) = mt \<and> dropWhile P (mt @ x # rest) = x # rest"
  by (induction mt) auto

lemma strip_encoded:
  assumes "encodes_plainly d payload"
  shows "strip_image_prefix \<lparr>base64ImageData = Some d, mimeType = mediaType\<rparr>
           = \<lparr>base64ImageData = Some payload, mimeType = mediaType\<rparr>"
proof -
  from assms consider "d = payload" "\<not> (\<exists>r. payload = ''data:'' @ r)"
    | mt where "mt \<noteq> []" "\<forall>c \<in> set mt. is_alnum c \<or> c = CHR ''/'' \<or> c = CHR ''+''"
        "d = ''data:'' @ mt @ '';base64,'' @ payload"
    unfolding encodes_plainly_def by blast
  then show ?thesis
  proof cases
    case 1
    then have "data_uri_prefix openai_mime_class d = None"
      by (simp add: data_uri_prefix_def startsWith_iff)
    then show ?thesis using 1 by (simp add: strip_image_prefix_def)
  next
    case 2
    have cls: "\<forall>c \<in> set mt. openai_mime_class c"
      using 2(2) by (auto simp: openai_mime_class_def)
    have semi: "\<not> openai_mime_class CHR '';''"
      by (simp add: openai_mime_class_def is_alnum_def)
    have dr: "drop 5 d = mt @ CHR '';'' # (''base64,'' @ payload)"
      unfolding 2(3) by simp
    have sw: "startsWith d ''data:''"
      unfolding 2(3) by (simp add: startsWith_def)
    have "data_uri_prefix openai_mime_class d = Some (5 + length mt + 8)"
      unfolding data_uri_prefix_def dr
      using takeWhile_class [OF cls semi, of "''base64,'' @ payload"] sw 2(1)
      by (simp add: startsWith_def Let_def)
    moreover have "drop (5 + length mt + 8) d = payload"
    proof -
      have "length (''data:'' @ mt @ '';base64,'') = 5 + length mt + 8" by simp
      moreover have "d = (''data:'' @ mt @ '';base64,'') @ payload"
        unfolding 2(3) by simp
      ultimately show ?thesis by (metis append_eq_conv_conj)
    qed
    ultimately show ?thesis by (simp add: strip_image_prefix_def)
  qed
qed

lemma encodes_nonempty: "encodes_plainly d payload \<Longrightarrow> payload \<noteq> [] \<Longrightarrow> d \<noteq> []"
  by (auto simp: encodes_plainly_def)

lemma extract_carried_openai:
  assumes "carries_image r d m" and "encodes_plainly d payload" and "payload \<noteq> []" and "m \<noteq> []"
  shows "extractImageFromToolResult_openai r
           = Inr \<lparr>base64ImageData = Some payload, mimeType = Some (JStr m)\<rparr>"
    and "extractImageFromToolResult_google r
           = Inr \<lparr>base64ImageData = Some payload, mimeType = Some (JStr m)\<rparr>"
proof -
  have d: "d \<noteq> []" using encodes_nonempty [OF assms(2,3)] .
  have f: "image_found \<lparr>base64ImageData = Some d, mimeType = Some (JStr m)\<rparr>"
    using d assms(4) by (simp add: image_found_def truthy_opt_def)
  show "extractImageFromToolResult_openai r
           = Inr \<lparr>base64ImageData = Some payload, mimeType = Some (JStr m)\<rparr>"
    using carried_image_found(1) [OF assms(1) d assms(4)] f strip_encoded [OF assms(2)]
    by (simp add: extractImageFromToolResult_openai_def)
  show "extractImageFromToolResult_google r
           = Inr \<lparr>base64ImageData = Some payload, mimeType = Some (JStr m)\<rparr>"
    using carried_image_found(1) [OF assms(1) d assms(4)] f strip_encoded [OF assms(2)]
    by (simp add: extractImageFromToolResult_google_def)
qed

text \<open>
  formatConversation of the OpenAI adapter works message by message.
\<close>

lemma openai_loop_append:
  "openai_loop parse stringify suffix (xs @ ys)
     = (case openai_loop parse stringify suffix xs of
          Inl e \<Rightarrow> Inl e
        | Inr a \<Rightarrow>
            (case openai_loop parse stringify suffix ys of
               Inl e \<Rightarrow> Inl e
             | Inr b \<Rightarrow> Inr (a @ b)))"
  by (induction xs) (auto split: sum.splits)

text \<open>
  A tool message that holds an image gives two turns: the tool turn with the placeholder
  text, and after it a user turn with a prompt and the image.
\<close>

lemma openai_tool_turn_carried:
  assumes c: "carries_image (msg_content t) d m" and e: "encodes_plainly d payload"
    and ne: "payload \<noteq> []" "m \<noteq> []"
    and i: "msg_tool_call_id t = Some callId"
    and ok: "openai_tool_turn parse stringify suffix t = Inr turns"
  shows "\<exists>prompt. turns =
     [JObj [(''role'', JStr ''tool''), (''tool_call_id'', JStr callId),
            (''content'', JStr ''Tool execution was successful. Output includes image data, which will be processed separately if applicable by the client.'')],
      JObj [(''role'', JStr ''user''),
            (''content'',
             JArr [JObj [(''type'', JStr ''text''), (''text'', JStr prompt)],
                   JObj [(''type'', JStr ''image_url''),
                         (''image_url'',
                          JObj [(''url'', JStr (''data:'' @ m @ '';base64,'' @ payload))])]])]]"
proof -
  have d: "d \<noteq> []" using encodes_nonempty [OF e ne(1)] .
  have s: "convertToolResultForOpenAI parse stringify (msg_content t) = Inr image_placeholder"
    using carried_image_found(2) [OF c d ne(2)] by (simp add: convertToolResultForOpenAI_def)
  have x: "extractImageFromToolResult_openai (msg_content t)
           = Inr \<lparr>base64ImageData = Some payload, mimeType = Some (JStr m)\<rparr>"
    using extract_carried_openai(1) [OF c e ne] .
  have f: "image_found \<lparr>base64ImageData = Some payload, mimeType = Some (JStr m)\<rparr>"
    using ne by (simp add: image_found_def truthy_opt_def)
  obtain quoted where "textualContentFromToolResult stringify t = Inr (JStr quoted)"
    and "turns = [wire_tool_message (Some callId) image_placeholder,
                  wire_message ''user''
                    (JArr [text_block (historical_image_prompt suffix t quoted),
                           image_url_part (data_url (Some (JStr m)) (Some (JStr payload)))])]"
    using ok s x f i
    by (auto simp: openai_tool_turn_def split: sum.splits json.splits)
  then show ?thesis
    by (simp add: wire_tool_message_def wire_message_def text_block_def image_url_part_def
        data_url_def interpolate_def opt_field_def image_placeholder_def)
qed

text \<open>
  The first request ends with those two turns, and what is appended to the history is
  formatted behind them.
\<close>

lemma openai_request_carried:
  assumes c: "carries_image (msg_content t) d m" and e: "encodes_plainly d payload"
    and ne: "payload \<noteq> []" "m \<noteq> []"
    and i: "msg_tool_call_id t = Some callId" and r: "msg_role t = Tool"
    and f1: "formatConversation_openai parse stringify sysMsg suffix (hist @ [t]) = Inr request1"
  shows "\<exists>pre prompt. request1 = pre @
     [JObj [(''role'', JStr ''tool''), (''tool_call_id'', JStr callId),
            (''content'', JStr ''Tool execution was successful. Output includes image data, which will be processed separately if applicable by the client.'')],
      JObj [(''role'', JStr ''user''),
            (''content'',
             JArr [JObj [(''type'', JStr ''text''), (''text'', JStr prompt)],
                   JObj [(''type'', JStr ''image_url''),
                         (''image_url'',
                          JObj [(''url'', JStr (''data:'' @ m @ '';base64,'' @ payload))])]])]]"
    and "openai_loop parse stringify suffix added = Inr addedTurns \<Longrightarrow>
         formatConversation_openai parse stringify sysMsg suffix ((hist @ [t]) @ added)
           = Inr (request1 @ addedTurns)"
proof -
  obtain a b where a: "openai_loop parse stringify suffix hist = Inr a"
    and b: "openai_loop parse stringify suffix [t] = Inr b"
    and r1: "request1 = system_turn sysMsg (hist @ [t]) @ a @ b"
    using f1
    by (auto simp: formatConversation_openai_def openai_loop_append split: sum.splits)
  have "openai_tool_turn parse stringify suffix t = Inr b"
    using b r by (auto simp: openai_turns_def split: sum.splits)
  from openai_tool_turn_carried [OF c e ne i this]
  show "\<exists>pre prompt. request1 = pre @
     [JObj [(''role'', JStr ''tool''), (''tool_call_id'', JStr callId),
            (''content'', JStr ''Tool execution was successful. Output includes image data, which will be processed separately if applicable by the client.'')],
      JObj [(''role'', JStr ''user''),
            (''content'',
             JArr [JObj [(''type'', JStr ''text''), (''text'', JStr prompt)],
                   JObj [(''type'', JStr ''image_url''),
                         (''image_url'',
                          JObj [(''url'', JStr (''data:'' @ m @ '';base64,'' @ payload))])]])]]"
    unfolding r1 by (metis append.assoc)
  have st: "system_turn sysMsg ((hist @ [t]) @ added) = system_turn sysMsg (hist @ [t])"
    by (cases hist) (simp_all add: system_turn_def)
  show "formatConversation_openai parse stringify sysMsg suffix ((hist @ [t]) @ added)
           = Inr (request1 @ addedTurns)"
    if "openai_loop parse stringify suffix added = Inr addedTurns"
  proof -
    have "openai_loop parse stringify suffix ((hist @ [t]) @ added) = Inr ((a @ b) @ addedTurns)"
      using that a b unfolding openai_loop_append [of _ _ _ "hist @ [t]" added]
      by (simp add: openai_loop_append)
    then show ?thesis
      unfolding formatConversation_openai_def st r1 by simp
  qed
qed

text \<open>
  The acknowledgement and the image-bearing user message of the client, as formatted.
\<close>

lemma openai_second_step_turns:
  "openai_loop parse stringify suffix
     [assistant_message ack None,
      image_user_message (prepareImageMessageContent payload (JStr m) prompt)]
   = Inr ((if list_all is_js_space ack then []
           else [JObj [(''role'', JStr ''assistant''), (''content'', JStr ack)]])
          @ [JObj [(''role'', JStr ''user''),
                   (''content'',
                    JArr [JObj [(''type'', JStr ''text''), (''text'', JStr prompt)],
                          JObj [(''type'', JStr ''image_url''),
                                (''image_url'',
                                 JObj [(''url'', JStr (''data:'' @ m @ '';base64,'' @ payload))])]])]])"
  by (simp add: openai_turns_def assistant_message_def image_user_message_def
      openai_assistant_turn_def nonblank_text_def calls_of_def openai_user_turn_def
      prepareImageMessageContent_def openai_user_part_def text_block_def image_url_part_def
      data_url_def interpolate_def wire_message_def jget2_def truthy_opt_def is_str_opt_def)

text \<open>
  The request that the client's prompt quotes can be read from every history that was
  formatted.
\<close>

lemma originalUserQuery_ok:
  assumes "openai_loop parse stringify suffix conv = Inr ts"
  shows "\<exists>query. originalUserQuery (conv @ [assistant_message ack None]) i = Inr query"
proof (cases "at_index (conv @ [assistant_message ack None]) i")
  case None
  then show ?thesis by (simp add: originalUserQuery_def)
next
  case (Some x)
  show ?thesis
  proof (cases "msg_role x = User \<and> (\<exists>ps. msg_content x = JArr (JNull # ps))")
    case False
    then show ?thesis
      using Some
      by (auto simp: originalUserQuery_def split: json.splits list.splits option.splits)
  next
    case True
    then obtain ps where u: "msg_role x = User" and n: "msg_content x = JArr (JNull # ps)"
      by blast
    have "nat i < length (conv @ [assistant_message ack None])"
      and "x = (conv @ [assistant_message ack None]) ! nat i"
      using Some by (auto simp: at_index_def split: if_splits)
    then have "x \<in> set (conv @ [assistant_message ack None])"
      using nth_mem by blast
    then have "x \<in> set conv"
      using u by (auto simp: assistant_message_def)
    then obtain xs ys where "conv = xs @ x # ys"
      by (meson split_list)
    then obtain b where "openai_loop parse stringify suffix [x] = Inr b"
      using assms by (auto simp: openai_loop_append split: sum.splits)
    then have False
      using u n by (simp add: openai_turns_def openai_user_turn_def openai_user_part_def
          split: sum.splits)
    then show ?thesis ..
  qed
qed

text \<open>
  With a back-end that answers in plain text, the first request already holds the image
  turn that formatConversation puts after the tool message; the second request holds it
  again, and after the answer the image-bearing user message that the client appended.
\<close>

lemma screenshot_plain_run:
  "(let first =
      [JObj [(''role'', JStr ''system''), (''content'', JStr ''Be brief.'')],
       JObj [(''role'', JStr ''user''), (''content'', JStr ''Take a screenshot and click OK'')],
       JObj [(''role'', JStr ''assistant''), (''content'', JNull),
             (''tool_calls'',
              JArr [JObj [(''id'', JStr ''call_1''), (''type'', JStr ''function''),
                          (''function'', JObj [(''name'', JStr ''screenshot''),
                                              (''arguments'', JStr ''{}'')])]])],
       JObj [(''role'', JStr ''tool''), (''tool_call_id'', JStr ''call_1''),
             (''content'', JStr ''Tool execution was successful. Output includes image data, which will be processed separately if applicable by the client.'')],
       JObj [(''role'', JStr ''user''),
             (''content'',
              JArr [JObj [(''type'', JStr ''text''),
                          (''text'', JStr (''The tool '' @ [CHR 0x27] @ ''screenshot'' @ [CHR 0x27]
                             @ '' (called with ID: call_1) previously returned an image, and its summary has just been provided. Original textual information from tool: ''
                             @ [CHR 0x22] @ ''Image captured by tool '' @ [CHR 0x27] @ ''screenshot''
                             @ [CHR 0x27] @ ''.'' @ [CHR 0x22]
                             @ ''. This image is now being provided separately. undefined''))],
                    JObj [(''type'', JStr ''image_url''),
                          (''image_url'', JObj [(''url'', JStr ''data:image/png;base64,iVBOR'')])]])]];
        second =
          \<lparr>msg_role = User,
           msg_content =
             JArr [JObj [(''type'', JStr ''text''),
                         (''text'', JStr (''The tool '' @ [CHR 0x27] @ ''screenshot'' @ [CHR 0x27]
                            @ '' returned an image. Based on your previous request: '' @ [CHR 0x22]
                            @ ''Take a screenshot and click OK'' @ [CHR 0x22]
                            @ '', please analyze this image.''))],
                   JObj [(''type'', JStr ''image_url''),
                         (''image_url'', JObj [(''url'', JStr ''data:image/png;base64,iVBOR'')])]],
           msg_tool_calls = None, msg_tool_call_id = None, msg_name = None\<rparr>
    in map_option sent (continueConversation 2 plain_world screenshot_client)
       = Some [\<lparr>se_payload = Messages first, se_history = screenshot_history\<rparr>,
               \<lparr>se_payload =
                  Messages (first @
                    [JObj [(''role'', JStr ''assistant''), (''content'', JStr ''Done.'')],
                     JObj [(''role'', JStr ''user''), (''content'', msg_content second)]]),
                 se_history = screenshot_history @ [assistant_message ''Done.'' None, second]\<rparr>]
     \<and> map_option conversation (continueConversation 2 plain_world screenshot_client)
       = Some (screenshot_history
                 @ [assistant_message ''Done.'' None, second, assistant_message ''Done.'' None]))"
  by code_simp

text \<open>
  Claim C4 as stated fails under OpenAI: the first request, sent when the history ends
  with the tool message and holds no answer to it yet, already carries the image-bearing
  user turn, directly after the tool turn.
\<close>

theorem openai_image_sent_before_acknowledgement:
  "screenshot_history
     = [user_message ''Take a screenshot and click OK'',
        assistant_message [] (Some [\<lparr>tc_id = ''call_1'', tc_name = ''screenshot'', tc_args = JObj []\<rparr>]),
        tool_message ''call_1'' ''screenshot''
          (JObj [(''content'',
                  JArr [JObj [(''type'', JStr ''image''), (''data'', JStr ''iVBOR''),
                              (''mimeType'', JStr ''image/png'')]])])]
   \<and> map_option (hd o sent) (continueConversation 2 plain_world screenshot_client)
     = Some \<lparr>se_payload =
                Messages
                  [JObj [(''role'', JStr ''system''), (''content'', JStr ''Be brief.'')],
                   JObj [(''role'', JStr ''user''), (''content'', JStr ''Take a screenshot and click OK'')],
                   JObj [(''role'', JStr ''assistant''), (''content'', JNull),
                         (''tool_calls'',
                          JArr [JObj [(''id'', JStr ''call_1''), (''type'', JStr ''function''),
                                      (''function'', JObj [(''name'', JStr ''screenshot''),
                                                          (''arguments'', JStr ''{}'')])]])],
                   JObj [(''role'', JStr ''tool''), (''tool_call_id'', JStr ''call_1''),
                         (''content'', JStr ''Tool execution was successful. Output includes image data, which will be processed separately if applicable by the client.'')],
                   JObj [(''role'', JStr ''user''),
                         (''content'',
                          JArr [JObj [(''type'', JStr ''text''),
                                      (''text'', JStr (''The tool '' @ [CHR 0x27] @ ''screenshot'' @ [CHR 0x27]
                                         @ '' (called with ID: call_1) previously returned an image, and its summary has just been provided. Original textual information from tool: ''
                                         @ [CHR 0x22] @ ''Image captured by tool '' @ [CHR 0x27] @ ''screenshot''
                                         @ [CHR 0x27] @ ''.'' @ [CHR 0x22]
                                         @ ''. This image is now being provided separately. undefined''))],
                                JObj [(''type'', JStr ''image_url''),
                                      (''image_url'', JObj [(''url'', JStr ''data:image/png;base64,iVBOR'')])]])]],
              se_history = screenshot_history\<rparr>"
  by code_simp

text \<open>
  When the answer to the tool result asks for one more tool, the client's own image
  message is lost (\<^verbatim>\<open>continueConversation\<close>, lines 1004-1048). The history ends with
  the result of \<^verbatim>\<open>screenshot\<close>, which holds an image; the answer asks for
  \<^verbatim>\<open>click\<close>. After the answer and the nested tool round are appended, the history
  has six messages and the index \<^verbatim>\<open>length - 3\<close> names the assistant message that asked
  for \<^verbatim>\<open>click\<close>, not the tool message with the image: the run ends after two requests
  and the client never appends or sends its image-bearing user message. Both requests
  hold the image turn that formatConversation puts after the tool message.
\<close>

lemma openai_image_turn_skipped:
  "(let first =
      [JObj [(''role'', JStr ''system''), (''content'', JStr ''Be brief.'')],
       JObj [(''role'', JStr ''user''), (''content'', JStr ''Take a screenshot and click OK'')],
       JObj [(''role'', JStr ''assistant''), (''content'', JNull),
             (''tool_calls'',
              JArr [JObj [(''id'', JStr ''call_1''), (''type'', JStr ''function''),
                          (''function'', JObj [(''name'', JStr ''screenshot''),
                                              (''arguments'', JStr ''{}'')])]])],
       JObj [(''role'', JStr ''tool''), (''tool_call_id'', JStr ''call_1''),
             (''content'', JStr ''Tool execution was successful. Output includes image data, which will be processed separately if applicable by the client.'')],
       JObj [(''role'', JStr ''user''),
             (''content'',
              JArr [JObj [(''type'', JStr ''text''),
                          (''text'', JStr (''The tool '' @ [CHR 0x27] @ ''screenshot'' @ [CHR 0x27]
                             @ '' (called with ID: call_1) previously returned an image, and its summary has just been provided. Original textual information from tool: ''
                             @ [CHR 0x22] @ ''Image captured by tool '' @ [CHR 0x27] @ ''screenshot''
                             @ [CHR 0x27] @ ''.'' @ [CHR 0x22]
                             @ ''. This image is now being provided separately. undefined''))],
                    JObj [(''type'', JStr ''image_url''),
                          (''image_url'', JObj [(''url'', JStr ''data:image/png;base64,iVBOR'')])]])]];
        nested =
          [assistant_message ''Clicking.''
             (Some [\<lparr>tc_id = ''call_2'', tc_name = ''click'', tc_args = JObj []\<rparr>]),
           tool_message ''call_2'' ''click'' (JStr ''clicked'')]
    in extractImageFromToolResult_openai screenshot_result
         = Inr \<lparr>base64ImageData = Some ''iVBOR'', mimeType = Some (JStr ''image/png'')\<rparr>
     \<and> map_option sent (continueConversation 5 screenshot_world screenshot_client)
       = Some [\<lparr>se_payload = Messages first, se_history = screenshot_history\<rparr>,
               \<lparr>se_payload =
                  Messages (first @
                    [JObj [(''role'', JStr ''assistant''), (''content'', JStr ''Clicking.''),
                           (''tool_calls'',
                            JArr [JObj [(''id'', JStr ''call_2''), (''type'', JStr ''function''),
                                        (''function'', JObj [(''name'', JStr ''click''),
                                                            (''arguments'', JStr ''{}'')])]])],
                     JObj [(''role'', JStr ''tool''), (''tool_call_id'', JStr ''call_2''),
                           (''content'', JStr ''clicked'')]]),
                 se_history = screenshot_history @ nested\<rparr>]
     \<and> map_option conversation (continueConversation 5 screenshot_world screenshot_client)
       = Some (screenshot_history @ nested @ [assistant_message ''Done.'' None]))"
  by code_simp

text \<open>
  Claim C4, as amended. The history ends with a tool message whose result holds an
  image.

  Under Google the function response is sent alone; its answer is appended to the
  history; then the image parts are sent, in a request of their own, and the answer to
  them is appended.

  Under OpenAI the first request, formatted from the history that ends with the tool
  message, already ends with the tool turn (with the placeholder text) followed by a
  separate user turn that holds the image: the image is not held back until the
  acknowledgement exists. When the answer to that request carries no tool calls, it is
  appended to the history, the client appends its own image-bearing user message after
  it, and the second request is the first one followed by the acknowledgement and that
  message.
\<close>

theorem two_step_image_exchange:
  assumes last: "conversation c = hist @ [t]" "msg_role t = Tool"
    and img: "carries_image (msg_content t) d m" "encodes_plainly d payload"
             "payload \<noteq> []" "m \<noteq> []"
    and inst: "currentLlmProviderInstance c = Some inst"
  shows "(llmProvider c = Some ''google'' \<and> pi_chatHistory inst \<noteq> None
          \<and> convertToolResult_google (json_parse w) (msg_content t) (msg_name t) = Inr functionResponse
          \<and> llm w (length (sent c)) = Inr (GoogleResponse g1)
          \<and> extractToolCalls_google (clock w) g1 = None
          \<and> llm w (Suc (length (sent c))) = Inr (GoogleResponse g2)
          \<and> extractToolCalls_google (clock w) g2 = None
          \<longrightarrow> (\<exists>c' prompt.
                 continueConversation (Suc (Suc n)) w c = Some c'
               \<and> sent c' = sent c @
                   [\<lparr>se_payload = Parts [functionResponse], se_history = conversation c\<rparr>,
                    \<lparr>se_payload =
                       Parts [JObj [(''inlineData'',
                                     JObj [(''mimeType'', JStr m), (''data'', JStr payload)])],
                              JObj [(''text'', JStr prompt)]],
                      se_history = conversation c
                        @ [assistant_message (extractTextContent_google g1) None]\<rparr>]
               \<and> conversation c' = conversation c
                   @ [assistant_message (extractTextContent_google g1) None,
                      assistant_message (extractTextContent_google g2) None]))
       \<and> (llmProvider c = Some ''openai'' \<and> maxConversationHistoryLength c = None
          \<and> msg_tool_call_id t = Some callId
          \<and> formatConversation w OpenAIP inst (conversation c) = Inr request1
          \<and> llm w (length (sent c)) = Inr (OpenAIResponse r1)
          \<and> \<not> response_has_tool_calls (OpenAIResponse r1)
          \<and> llm w (Suc (length (sent c))) = Inr (OpenAIResponse r2)
          \<and> fst (extractToolCalls_openai (json_parse w) r2) = None
          \<longrightarrow> (\<exists>c' pre prompt1 prompt2.
                 (let imageTurn = (\<lambda>prompt.
                        JObj [(''role'', JStr ''user''),
                              (''content'',
                               JArr [JObj [(''type'', JStr ''text''), (''text'', JStr prompt)],
                                     JObj [(''type'', JStr ''image_url''),
                                           (''image_url'',
                                            JObj [(''url'',
                                                   JStr (''data:'' @ m @ '';base64,'' @ payload))])]])]);
                      ack = extractTextContent_openai r1;
                      imageMessage =
                        \<lparr>msg_role = User,
                         msg_content =
                           JArr [JObj [(''type'', JStr ''text''), (''text'', JStr prompt2)],
                                 JObj [(''type'', JStr ''image_url''),
                                       (''image_url'',
                                        JObj [(''url'',
                                               JStr (''data:'' @ m @ '';base64,'' @ payload))])]],
                         msg_tool_calls = None, msg_tool_call_id = None, msg_name = None\<rparr>
                  in continueConversation (Suc (Suc n)) w c = Some c'
                   \<and> request1 = pre @
                       [JObj [(''role'', JStr ''tool''), (''tool_call_id'', JStr callId),
                              (''content'', JStr ''Tool execution was successful. Output includes image data, which will be processed separately if applicable by the client.'')],
                        imageTurn prompt1]
                   \<and> sent c' = sent c @
                       [\<lparr>se_payload = Messages request1, se_history = conversation c\<rparr>,
                        \<lparr>se_payload =
                           Messages (request1
                             @ (if list_all is_js_space ack then []
                                else [JObj [(''role'', JStr ''assistant''), (''content'', JStr ack)]])
                             @ [imageTurn prompt2]),
                          se_history = conversation c @ [assistant_message ack None, imageMessage]\<rparr>]
                   \<and> conversation c' = conversation c
                       @ [assistant_message ack None, imageMessage,
                          assistant_message (extractTextContent_openai r2) None])))"
proof (intro conjI impI)
  assume g: "llmProvider c = Some ''google'' \<and> pi_chatHistory inst \<noteq> None
          \<and> convertToolResult_google (json_parse w) (msg_content t) (msg_name t) = Inr functionResponse
          \<and> llm w (length (sent c)) = Inr (GoogleResponse g1)
          \<and> extractToolCalls_google (clock w) g1 = None
          \<and> llm w (Suc (length (sent c))) = Inr (GoogleResponse g2)
          \<and> extractToolCalls_google (clock w) g2 = None"
  let ?d = "\<lparr>base64ImageData = Some payload, mimeType = Some (JStr m)\<rparr>"
  have x: "extractImageFromToolResult_google (msg_content t) = Inr ?d"
    using extract_carried_openai(2) [OF img] .
  have f: "image_found ?d"
    using img(3,4) by (simp add: image_found_def truthy_opt_def)
  from g have g': "llmProvider c = Some ''google''" "pi_chatHistory inst \<noteq> None"
    "convertToolResult_google (json_parse w) (msg_content t) (msg_name t) = Inr functionResponse"
    "llm w (length (sent c)) = Inr (GoogleResponse g1)"
    "extractToolCalls_google (clock w) g1 = None"
    "llm w (Suc (length (sent c))) = Inr (GoogleResponse g2)"
    "extractToolCalls_google (clock w) g2 = None"
    by simp_all
  obtain c' where "continueConversation (Suc (Suc n)) w c = Some c'"
    and "sent c' = sent c @
           [\<lparr>se_payload = Parts [functionResponse], se_history = conversation c\<rparr>,
            \<lparr>se_payload = Parts [inline_data (the (mimeType ?d)) (JStr (the (base64ImageData ?d))),
                 text_part (google_image_prompt (msg_name t)
                   (conversation c @ [assistant_message (extractTextContent_google g1) None]))],
              se_history = conversation c @ [assistant_message (extractTextContent_google g1) None]\<rparr>]"
    and "conversation c' = conversation c @
           [assistant_message (extractTextContent_google g1) None,
            assistant_message (extractTextContent_google g2) None]"
    using google_two_step [OF g'(1) inst g'(2) last g'(3) x f g'(4,5,6,7), of n]
    by blast
  then show "\<exists>c' prompt.
                 continueConversation (Suc (Suc n)) w c = Some c'
               \<and> sent c' = sent c @
                   [\<lparr>se_payload = Parts [functionResponse], se_history = conversation c\<rparr>,
                    \<lparr>se_payload =
                       Parts [JObj [(''inlineData'',
                                     JObj [(''mimeType'', JStr m), (''data'', JStr payload)])],
                              JObj [(''text'', JStr prompt)]],
                      se_history = conversation c
                        @ [assistant_message (extractTextContent_google g1) None]\<rparr>]
               \<and> conversation c' = conversation c
                   @ [assistant_message (extractTextContent_google g1) None,
                      assistant_message (extractTextContent_google g2) None]"
    by (simp add: inline_data_def text_part_def)
next
  assume o: "llmProvider c = Some ''openai'' \<and> maxConversationHistoryLength c = None
          \<and> msg_tool_call_id t = Some callId
          \<and> formatConversation w OpenAIP inst (conversation c) = Inr request1
          \<and> llm w (length (sent c)) = Inr (OpenAIResponse r1)
          \<and> \<not> response_has_tool_calls (OpenAIResponse r1)
          \<and> llm w (Suc (length (sent c))) = Inr (OpenAIResponse r2)
          \<and> fst (extractToolCalls_openai (json_parse w) r2) = None"
  let ?d = "\<lparr>base64ImageData = Some payload, mimeType = Some (JStr m)\<rparr>"
  let ?ack = "extractTextContent_openai r1"
  have x: "extractImageFromToolResult_openai (msg_content t) = Inr ?d"
    using extract_carried_openai(1) [OF img] .
  have f: "image_found ?d"
    using img(3,4) by (simp add: image_found_def truthy_opt_def)
  have f1: "formatConversation_openai (json_parse w) (json_stringify w) (pi_systemMessage inst)
              (pi_imageAnalysisPromptSuffix inst) (hist @ [t]) = Inr request1"
    using o last(1) by (simp add: formatConversation_def)
  obtain ts where ts: "openai_loop (json_parse w) (json_stringify w)
                         (pi_imageAnalysisPromptSuffix inst) (hist @ [t]) = Inr ts"
    using f1 by (auto simp: formatConversation_openai_def split: sum.splits)
  obtain query where q: "originalUserQuery (conversation c @ [assistant_message ?ack None])
                           (int (length hist) - 2) = Inr query"
    using originalUserQuery_ok [OF ts] last(1) by metis
  let ?prompt2 = "openai_image_prompt (msg_name t) query"
  let ?img = "image_user_message (prepareImageMessageContent payload (JStr m) ?prompt2)"
  obtain pre prompt1 where r1: "request1 = pre @
     [JObj [(''role'', JStr ''tool''), (''tool_call_id'', JStr callId),
            (''content'', JStr ''Tool execution was successful. Output includes image data, which will be processed separately if applicable by the client.'')],
      JObj [(''role'', JStr ''user''),
            (''content'',
             JArr [JObj [(''type'', JStr ''text''), (''text'', JStr prompt1)],
                   JObj [(''type'', JStr ''image_url''),
                         (''image_url'',
                          JObj [(''url'', JStr (''data:'' @ m @ '';base64,'' @ payload))])]])]]"
    using openai_request_carried(1) [OF img _ last(2) f1, of callId] o by blast
  let ?added = "(if list_all is_js_space ?ack then []
           else [JObj [(''role'', JStr ''assistant''), (''content'', JStr ?ack)]])
          @ [JObj [(''role'', JStr ''user''),
                   (''content'',
                    JArr [JObj [(''type'', JStr ''text''), (''text'', JStr ?prompt2)],
                          JObj [(''type'', JStr ''image_url''),
                                (''image_url'',
                                 JObj [(''url'', JStr (''data:'' @ m @ '';base64,'' @ payload))])]])]]"
  have f2: "formatConversation w OpenAIP inst
               (conversation c @ [assistant_message ?ack None, ?img]) = Inr (request1 @ ?added)"
    using openai_request_carried(2) [OF img _ last(2) f1 openai_second_step_turns, of callId] o last(1)
    by (simp add: formatConversation_def)
  from o have o': "llmProvider c = Some ''openai''" "maxConversationHistoryLength c = None"
    "formatConversation w OpenAIP inst (conversation c) = Inr request1"
    "llm w (length (sent c)) = Inr (OpenAIResponse r1)"
    "\<not> response_has_tool_calls (OpenAIResponse r1)"
    "llm w (Suc (length (sent c))) = Inr (OpenAIResponse r2)"
    "fst (extractToolCalls_openai (json_parse w) r2) = None"
    by simp_all
  have f2': "formatConversation w OpenAIP inst
               (conversation c @
                  [assistant_message (extractTextContent_openai r1) None,
                   image_user_message
                     (prepareImageMessageContent (the (base64ImageData ?d)) (the (mimeType ?d))
                        (openai_image_prompt (msg_name t) query))]) = Inr (request1 @ ?added)"
    using f2 by simp
  obtain c' where c': "continueConversation (Suc (Suc n)) w c = Some c'"
    and s: "sent c' = sent c @
           [\<lparr>se_payload = Messages request1, se_history = conversation c\<rparr>,
            \<lparr>se_payload = Messages (request1 @ ?added),
              se_history = conversation c @ [assistant_message ?ack None, ?img]\<rparr>]"
    and cv: "conversation c' = conversation c @
           [assistant_message ?ack None, ?img,
            assistant_message (extractTextContent_openai r2) None]"
    using openai_two_step [OF o'(1) inst o'(2) last x f q o'(3) f2' o'(4,5,6,7), of n]
    by auto
  have im: "?img = \<lparr>msg_role = User,
                         msg_content =
                           JArr [JObj [(''type'', JStr ''text''), (''text'', JStr ?prompt2)],
                                 JObj [(''type'', JStr ''image_url''),
                                       (''image_url'',
                                        JObj [(''url'',
                                               JStr (''data:'' @ m @ '';base64,'' @ payload))])]],
                         msg_tool_calls = None, msg_tool_call_id = None, msg_name = None\<rparr>"
    by (simp add: image_user_message_def prepareImageMessageContent_def text_block_def
        image_url_part_def data_url_def interpolate_def)
  show "\<exists>c' pre prompt1 prompt2.
                 (let imageTurn = (\<lambda>prompt.
                        JObj [(''role'', JStr ''user''),
                              (''content'',
                               JArr [JObj [(''type'', JStr ''text''), (''text'', JStr prompt)],
                                     JObj [(''type'', JStr ''image_url''),
                                           (''image_url'',
                                            JObj [(''url'',
                                                   JStr (''data:'' @ m @ '';base64,'' @ payload))])]])]);
                      ack = extractTextContent_openai r1;
                      imageMessage =
                        \<lparr>msg_role = User,
                         msg_content =
                           JArr [JObj [(''type'', JStr ''text''), (''text'', JStr prompt2)],
                                 JObj [(''type'', JStr ''image_url''),
                                       (''image_url'',
                                        JObj [(''url'',
                                               JStr (''data:'' @ m @ '';base64,'' @ payload))])]],
                         msg_tool_calls = None, msg_tool_call_id = None, msg_name = None\<rparr>
                  in continueConversation (Suc (Suc n)) w c = Some c'
                   \<and> request1 = pre @
                       [JObj [(''role'', JStr ''tool''), (''tool_call_id'', JStr callId),
                              (''content'', JStr ''Tool execution was successful. Output includes image data, which will be processed separately if applicable by the client.'')],
                        imageTurn prompt1]
                   \<and> sent c' = sent c @
                       [\<lparr>se_payload = Messages request1, se_history = conversation c\<rparr>,
                        \<lparr>se_payload =
                           Messages (request1
                             @ (if list_all is_js_space ack then []
                                else [JObj [(''role'', JStr ''assistant''), (''content'', JStr ack)]])
                             @ [imageTurn prompt2]),
                          se_history = conversation c @ [assistant_message ack None, imageMessage]\<rparr>]
                   \<and> conversation c' = conversation c
                       @ [assistant_message ack None, imageMessage,
                          assistant_message (extractTextContent_openai r2) None])"
    apply (rule exI [of _ c'], rule exI [of _ pre], rule exI [of _ prompt1], rule exI [of _ ?prompt2])
    unfolding Let_def
    using c' r1 s cv unfolding im by simp
qed

theorem two_step_image_exchange_witness:
  "(\<exists>c' prompt.
       continueConversation 2 google_screenshot_world google_screenshot_client = Some c'
     \<and> sent c' =
         [\<lparr>se_payload =
             Parts [JObj [(''functionResponse'',
                          JObj [(''name'', JStr ''screenshot''),
                                (''response'',
                                 JObj [(''image_captured_summary'',
                                        JObj [(''mime_type'', JStr ''image/png''),
                                              (''status'', JStr ''Image data provided separately to the model.''),
                                              (''description'', JStr ''Image content.'')])])])]],
            se_history = screenshot_history\<rparr>,
          \<lparr>se_payload =
             Parts [JObj [(''inlineData'',
                          JObj [(''mimeType'', JStr ''image/png''), (''data'', JStr ''iVBOR'')])],
                    JObj [(''text'', JStr prompt)]],
            se_history = screenshot_history @ [assistant_message ''Screenshot taken.'' None]\<rparr>]
     \<and> conversation c' = screenshot_history
         @ [assistant_message ''Screenshot taken.'' None,
            assistant_message ''I see an OK button.'' None])
   \<and> map_option (map se_payload o sent)
       (continueConversation 2 google_screenshot_world google_screenshot_client)
     = Some [Parts [JObj [(''functionResponse'',
                          JObj [(''name'', JStr ''screenshot''),
                                (''response'',
                                 JObj [(''image_captured_summary'',
                                        JObj [(''mime_type'', JStr ''image/png''),
                                              (''status'', JStr ''Image data provided separately to the model.''),
                                              (''description'', JStr ''Image content.'')])])])]],
             Parts [JObj [(''inlineData'',
                          JObj [(''mimeType'', JStr ''image/png''), (''data'', JStr ''iVBOR'')])],
                    JObj [(''text'',
                          JStr (''The tool '' @ [CHR 0x27] @ ''screenshot'' @ [CHR 0x27]
                            @ '' returned an image. Based on your request: '' @ [CHR 0x22]
                            @ ''Take a screenshot and click OK'' @ [CHR 0x22]
                            @ '', please use this image to formulate your response.''))]]]
   \<and> (\<exists>c' pre prompt1 prompt2.
         continueConversation 2 plain_world screenshot_client = Some c'
       \<and> [JObj [(''role'', JStr ''system''), (''content'', JStr ''Be brief.'')],
          JObj [(''role'', JStr ''user''), (''content'', JStr ''Take a screenshot and click OK'')],
          JObj [(''role'', JStr ''assistant''), (''content'', JNull),
                (''tool_calls'',
                 JArr [JObj [(''id'', JStr ''call_1''), (''type'', JStr ''function''),
                             (''function'', JObj [(''name'', JStr ''screenshot''),
                                                 (''arguments'', JStr ''{}'')])]])],
          JObj [(''role'', JStr ''tool''), (''tool_call_id'', JStr ''call_1''),
                (''content'', JStr ''Tool execution was successful. Output includes image data, which will be processed separately if applicable by the client.'')],
          JObj [(''role'', JStr ''user''),
                (''content'',
                 JArr [JObj [(''type'', JStr ''text''),
                             (''text'', JStr (''The tool '' @ [CHR 0x27] @ ''screenshot'' @ [CHR 0x27]
                                @ '' (called with ID: call_1) previously returned an image, and its summary has just been provided. Original textual information from tool: ''
                                @ [CHR 0x22] @ ''Image captured by tool '' @ [CHR 0x27] @ ''screenshot''
                                @ [CHR 0x27] @ ''.'' @ [CHR 0x22]
                                @ ''. This image is now being provided separately. undefined''))],
                       JObj [(''type'', JStr ''image_url''),
                             (''image_url'', JObj [(''url'', JStr ''data:image/png;base64,iVBOR'')])]])]]
         = pre @
           [JObj [(''role'', JStr ''tool''), (''tool_call_id'', JStr ''call_1''),
                  (''content'', JStr ''Tool execution was successful. Output includes image data, which will be processed separately if applicable by the client.'')],
            JObj [(''role'', JStr ''user''),
                  (''content'',
                   JArr [JObj [(''type'', JStr ''text''), (''text'', JStr prompt1)],
                         JObj [(''type'', JStr ''image_url''),
                               (''image_url'', JObj [(''url'', JStr ''data:image/png;base64,iVBOR'')])]])]]
       \<and> map se_history (sent c')
         = [screenshot_history,
            screenshot_history
              @ [assistant_message ''Done.'' None,
                 \<lparr>msg_role = User,
                  msg_content =
                    JArr [JObj [(''type'', JStr ''text''), (''text'', JStr prompt2)],
                          JObj [(''type'', JStr ''image_url''),
                                (''image_url'', JObj [(''url'', JStr ''data:image/png;base64,iVBOR'')])]],
                  msg_tool_calls = None, msg_tool_call_id = None, msg_name = None\<rparr>]]
       \<and> conversation c' = screenshot_history
           @ [assistant_message ''Done.'' None,
              \<lparr>msg_role = User,
               msg_content =
                 JArr [JObj [(''type'', JStr ''text''), (''text'', JStr prompt2)],
                       JObj [(''type'', JStr ''image_url''),
                             (''image_url'', JObj [(''url'', JStr ''data:image/png;base64,iVBOR'')])]],
               msg_tool_calls = None, msg_tool_call_id = None, msg_name = None\<rparr>,
              assistant_message ''Done.'' None])"
proof -
  let ?hist = "[user_message ''Take a screenshot and click OK'',
                assistant_message [] (Some [\<lparr>tc_id = ''call_1'', tc_name = ''screenshot'', tc_args = JObj []\<rparr>])]"
  let ?t = "tool_message ''call_1'' ''screenshot'' screenshot_result"
  let ?request1 =
    "[JObj [(''role'', JStr ''system''), (''content'', JStr ''Be brief.'')],
          JObj [(''role'', JStr ''user''), (''content'', JStr ''Take a screenshot and click OK'')],
          JObj [(''role'', JStr ''assistant''), (''content'', JNull),
                (''tool_calls'',
                 JArr [JObj [(''id'', JStr ''call_1''), (''type'', JStr ''function''),
                             (''function'', JObj [(''name'', JStr ''screenshot''),
                                                 (''arguments'', JStr ''{}'')])]])],
          JObj [(''role'', JStr ''tool''), (''tool_call_id'', JStr ''call_1''),
                (''content'', JStr ''Tool execution was successful. Output includes image data, which will be processed separately if applicable by the client.'')],
          JObj [(''role'', JStr ''user''),
                (''content'',
                 JArr [JObj [(''type'', JStr ''text''),
                             (''text'', JStr (''The tool '' @ [CHR 0x27] @ ''screenshot'' @ [CHR 0x27]
                                @ '' (called with ID: call_1) previously returned an image, and its summary has just been provided. Original textual information from tool: ''
                                @ [CHR 0x22] @ ''Image captured by tool '' @ [CHR 0x27] @ ''screenshot''
                                @ [CHR 0x27] @ ''.'' @ [CHR 0x22]
                                @ ''. This image is now being provided separately. undefined''))],
                       JObj [(''type'', JStr ''image_url''),
                             (''image_url'', JObj [(''url'', JStr ''data:image/png;base64,iVBOR'')])]])]]"
  have "\<exists>pre pkvs post.
          [JObj [(''type'', JStr ''image''), (''data'', JStr ''iVBOR''),
                 (''mimeType'', JStr ''image/png'')]] = pre @ JObj pkvs # post
        \<and> (\<forall>p \<in> set pre. p \<noteq> JNull \<and> jget p ''type'' \<noteq> Some (JStr ''image''))
        \<and> map_of pkvs ''type'' = Some (JStr ''image'')
        \<and> map_of pkvs ''data'' = Some (JStr ''iVBOR'')
        \<and> map_of pkvs ''mimeType'' = Some (JStr ''image/png'')"
    by (rule exI [of _ "[]"],
        rule exI [of _ "[(''type'', JStr ''image''), (''data'', JStr ''iVBOR''),
                 (''mimeType'', JStr ''image/png'')]"],
        rule exI [of _ "[]"]) simp
  then have ci: "carries_image (msg_content ?t) ''iVBOR'' ''image/png''"
    by (simp add: carries_image_def tool_message_def screenshot_result_def)
  have "\<not> (\<exists>r. ''iVBOR'' = ''data:'' @ r)" by simp
  then have en: "encodes_plainly ''iVBOR'' ''iVBOR''"
    unfolding encodes_plainly_def by blast
  have ne: "''iVBOR'' \<noteq> []" "''image/png'' \<noteq> []" by simp_all
  have role: "msg_role ?t = Tool" by (simp add: tool_message_def)
  have gl: "conversation google_screenshot_client = ?hist @ [?t]"
    by (simp add: google_screenshot_client_def screenshot_client_def screenshot_history_def)
  have gi: "currentLlmProviderInstance google_screenshot_client
      = Some \<lparr>pi_kind = GoogleP, pi_apiKey = ''g-key'',
                pi_modelName = ''gemini-2.5-flash-preview-04-17'',
                pi_systemMessage = ''Be brief.'', pi_imageAnalysisPromptSuffix = None,
                pi_chatHistory = Some []\<rparr>"
    by (simp add: google_screenshot_client_def)
  have gh: "llmProvider google_screenshot_client = Some ''google''
      \<and> pi_chatHistory \<lparr>pi_kind = GoogleP, pi_apiKey = ''g-key'',
                pi_modelName = ''gemini-2.5-flash-preview-04-17'',
                pi_systemMessage = ''Be brief.'', pi_imageAnalysisPromptSuffix = None,
                pi_chatHistory = Some []\<rparr> \<noteq> None
      \<and> convertToolResult_google (json_parse google_screenshot_world) (msg_content ?t) (msg_name ?t)
          = Inr (JObj [(''functionResponse'',
                          JObj [(''name'', JStr ''screenshot''),
                                (''response'',
                                 JObj [(''image_captured_summary'',
                                        JObj [(''mime_type'', JStr ''image/png''),
                                              (''status'', JStr ''Image data provided separately to the model.''),
                                              (''description'', JStr ''Image content.'')])])])])
      \<and> llm google_screenshot_world (length (sent google_screenshot_client))
          = Inr (GoogleResponse \<lparr>gr_parts = Some [\<lparr>gp_text = Some ''Screenshot taken.'', gp_functionCall = None\<rparr>]\<rparr>)
      \<and> extractToolCalls_google (clock google_screenshot_world)
            \<lparr>gr_parts = Some [\<lparr>gp_text = Some ''Screenshot taken.'', gp_functionCall = None\<rparr>]\<rparr> = None
      \<and> llm google_screenshot_world (Suc (length (sent google_screenshot_client)))
          = Inr (GoogleResponse \<lparr>gr_parts = Some [\<lparr>gp_text = Some ''I see an OK button.'', gp_functionCall = None\<rparr>]\<rparr>)
      \<and> extractToolCalls_google (clock google_screenshot_world)
            \<lparr>gr_parts = Some [\<lparr>gp_text = Some ''I see an OK button.'', gp_functionCall = None\<rparr>]\<rparr> = None"
    by code_simp
  have gt: "extractTextContent_google
              \<lparr>gr_parts = Some [\<lparr>gp_text = Some ''Screenshot taken.'', gp_functionCall = None\<rparr>]\<rparr>
            = ''Screenshot taken.''"
    "extractTextContent_google
              \<lparr>gr_parts = Some [\<lparr>gp_text = Some ''I see an OK button.'', gp_functionCall = None\<rparr>]\<rparr>
            = ''I see an OK button.''"
    by (simp_all add: extractTextContent_google_def)
  have gs: "sent google_screenshot_client = []" "conversation google_screenshot_client = screenshot_history"
    by (simp_all add: google_screenshot_client_def screenshot_client_def)
  have two: "Suc (Suc 0) = 2" by simp
  have A: "\<exists>c' prompt.
       continueConversation 2 google_screenshot_world google_screenshot_client = Some c'
     \<and> sent c' =
         [\<lparr>se_payload =
             Parts [JObj [(''functionResponse'',
                          JObj [(''name'', JStr ''screenshot''),
                                (''response'',
                                 JObj [(''image_captured_summary'',
                                        JObj [(''mime_type'', JStr ''image/png''),
                                              (''status'', JStr ''Image data provided separately to the model.''),
                                              (''description'', JStr ''Image content.'')])])])]],
            se_history = screenshot_history\<rparr>,
          \<lparr>se_payload =
             Parts [JObj [(''inlineData'',
                          JObj [(''mimeType'', JStr ''image/png''), (''data'', JStr ''iVBOR'')])],
                    JObj [(''text'', JStr prompt)]],
            se_history = screenshot_history @ [assistant_message ''Screenshot taken.'' None]\<rparr>]
     \<and> conversation c' = screenshot_history
         @ [assistant_message ''Screenshot taken.'' None,
            assistant_message ''I see an OK button.'' None]"
    using two_step_image_exchange [OF gl role ci en ne gi, THEN conjunct1, rule_format, OF gh, of 0]
    unfolding gt gs two by simp
  have A': "map_option (map se_payload o sent)
       (continueConversation 2 google_screenshot_world google_screenshot_client)
     = Some [Parts [JObj [(''functionResponse'',
                          JObj [(''name'', JStr ''screenshot''),
                                (''response'',
                                 JObj [(''image_captured_summary'',
                                        JObj [(''mime_type'', JStr ''image/png''),
                                              (''status'', JStr ''Image data provided separately to the model.''),
                                              (''description'', JStr ''Image content.'')])])])]],
             Parts [JObj [(''inlineData'',
                          JObj [(''mimeType'', JStr ''image/png''), (''data'', JStr ''iVBOR'')])],
                    JObj [(''text'',
                          JStr (''The tool '' @ [CHR 0x27] @ ''screenshot'' @ [CHR 0x27]
                            @ '' returned an image. Based on your request: '' @ [CHR 0x22]
                            @ ''Take a screenshot and click OK'' @ [CHR 0x22]
                            @ '', please use this image to formulate your response.''))]]]"
    by code_simp
  have ol: "conversation screenshot_client = ?hist @ [?t]"
    by (simp add: screenshot_client_def screenshot_history_def)
  have oi: "currentLlmProviderInstance screenshot_client
      = Some \<lparr>pi_kind = OpenAIP, pi_apiKey = ''sk-oa'', pi_modelName = ''gpt-4o'',
              pi_systemMessage = ''Be brief.'',
              pi_imageAnalysisPromptSuffix = None, pi_chatHistory = None\<rparr>"
    by (simp add: screenshot_client_def)
  have oh: "llmProvider screenshot_client = Some ''openai''
      \<and> maxConversationHistoryLength screenshot_client = None
      \<and> msg_tool_call_id ?t = Some ''call_1''
      \<and> formatConversation plain_world OpenAIP
            \<lparr>pi_kind = OpenAIP, pi_apiKey = ''sk-oa'', pi_modelName = ''gpt-4o'',
              pi_systemMessage = ''Be brief.'',
              pi_imageAnalysisPromptSuffix = None, pi_chatHistory = None\<rparr>
            (conversation screenshot_client) = Inr ?request1
      \<and> llm plain_world (length (sent screenshot_client))
          = Inr (OpenAIResponse \<lparr>oa_choices = Some [\<lparr>choice_message =
                   Some \<lparr>oa_content = Some ''Done.'', oa_tool_calls = None\<rparr>\<rparr>]\<rparr>)
      \<and> \<not> response_has_tool_calls (OpenAIResponse \<lparr>oa_choices = Some [\<lparr>choice_message =
                   Some \<lparr>oa_content = Some ''Done.'', oa_tool_calls = None\<rparr>\<rparr>]\<rparr>)
      \<and> llm plain_world (Suc (length (sent screenshot_client)))
          = Inr (OpenAIResponse \<lparr>oa_choices = Some [\<lparr>choice_message =
                   Some \<lparr>oa_content = Some ''Done.'', oa_tool_calls = None\<rparr>\<rparr>]\<rparr>)
      \<and> fst (extractToolCalls_openai (json_parse plain_world) \<lparr>oa_choices = Some [\<lparr>choice_message =
                   Some \<lparr>oa_content = Some ''Done.'', oa_tool_calls = None\<rparr>\<rparr>]\<rparr>) = None"
    by code_simp
  have ot: "extractTextContent_openai \<lparr>oa_choices = Some [\<lparr>choice_message =
                   Some \<lparr>oa_content = Some ''Done.'', oa_tool_calls = None\<rparr>\<rparr>]\<rparr> = ''Done.''"
    by code_simp
  have os: "sent screenshot_client = []" "conversation screenshot_client = screenshot_history"
    by (simp_all add: screenshot_client_def)
  have sp: "\<not> list_all is_js_space ''Done.''" by code_simp
  obtain c' pre prompt1 prompt2 where
    B0: "continueConversation (Suc (Suc 0)) plain_world screenshot_client = Some c'"
        "?request1 = pre @
           [JObj [(''role'', JStr ''tool''), (''tool_call_id'', JStr ''call_1''),
                  (''content'', JStr ''Tool execution was successful. Output includes image data, which will be processed separately if applicable by the client.'')],
            JObj [(''role'', JStr ''user''),
                  (''content'',
                   JArr [JObj [(''type'', JStr ''text''), (''text'', JStr prompt1)],
                         JObj [(''type'', JStr ''image_url''),
                               (''image_url'', JObj [(''url'', JStr (''data:'' @ ''image/png'' @ '';base64,'' @ ''iVBOR''))])]])]]"
        "sent c' = sent screenshot_client @
           [\<lparr>se_payload = Messages ?request1, se_history = conversation screenshot_client\<rparr>,
            \<lparr>se_payload =
               Messages (?request1
                 @ (if list_all is_js_space ''Done.'' then []
                    else [JObj [(''role'', JStr ''assistant''), (''content'', JStr ''Done.'')]])
                 @ [JObj [(''role'', JStr ''user''),
                      (''content'',
                       JArr [JObj [(''type'', JStr ''text''), (''text'', JStr prompt2)],
                             JObj [(''type'', JStr ''image_url''),
                                   (''image_url'', JObj [(''url'', JStr (''data:'' @ ''image/png'' @ '';base64,'' @ ''iVBOR''))])]])]]),
              se_history = conversation screenshot_client
                @ [assistant_message ''Done.'' None,
                   \<lparr>msg_role = User,
                    msg_content =
                      JArr [JObj [(''type'', JStr ''text''), (''text'', JStr prompt2)],
                            JObj [(''type'', JStr ''image_url''),
                                  (''image_url'', JObj [(''url'', JStr (''data:'' @ ''image/png'' @ '';base64,'' @ ''iVBOR''))])]],
                    msg_tool_calls = None, msg_tool_call_id = None, msg_name = None\<rparr>]\<rparr>]"
        "conversation c' = conversation screenshot_client
           @ [assistant_message ''Done.'' None,
              \<lparr>msg_role = User,
               msg_content =
                 JArr [JObj [(''type'', JStr ''text''), (''text'', JStr prompt2)],
                       JObj [(''type'', JStr ''image_url''),
                             (''image_url'', JObj [(''url'', JStr (''data:'' @ ''image/png'' @ '';base64,'' @ ''iVBOR''))])]],
               msg_tool_calls = None, msg_tool_call_id = None, msg_name = None\<rparr>,
              assistant_message ''Done.'' None]"
    using two_step_image_exchange [OF ol role ci en ne oi, THEN conjunct2, rule_format, OF oh, of 0]
    unfolding ot Let_def by blast
  have u: "''data:'' @ ''image/png'' @ '';base64,'' @ ''iVBOR'' = ''data:image/png;base64,iVBOR''"
    by simp
  have B: "\<exists>c' pre prompt1 prompt2.
         continueConversation 2 plain_world screenshot_client = Some c'
       \<and> ?request1
         = pre @
           [JObj [(''role'', JStr ''tool''), (''tool_call_id'', JStr ''call_1''),
                  (''content'', JStr ''Tool execution was successful. Output includes image data, which will be processed separately if applicable by the client.'')],
            JObj [(''role'', JStr ''user''),
                  (''content'',
                   JArr [JObj [(''type'', JStr ''text''), (''text'', JStr prompt1)],
                         JObj [(''type'', JStr ''image_url''),
                               (''image_url'', JObj [(''url'', JStr ''data:image/png;base64,iVBOR'')])]])]]
       \<and> map se_history (sent c')
         = [screenshot_history,
            screenshot_history
              @ [assistant_message ''Done.'' None,
                 \<lparr>msg_role = User,
                  msg_content =
                    JArr [JObj [(''type'', JStr ''text''), (''text'', JStr prompt2)],
                          JObj [(''type'', JStr ''image_url''),
                                (''image_url'', JObj [(''url'', JStr ''data:image/png;base64,iVBOR'')])]],
                  msg_tool_calls = None, msg_tool_call_id = None, msg_name = None\<rparr>]]
       \<and> conversation c' = screenshot_history
           @ [assistant_message ''Done.'' None,
              \<lparr>msg_role = User,
               msg_content =
                 JArr [JObj [(''type'', JStr ''text''), (''text'', JStr prompt2)],
                       JObj [(''type'', JStr ''image_url''),
                             (''image_url'', JObj [(''url'', JStr ''data:image/png;base64,iVBOR'')])]],
               msg_tool_calls = None, msg_tool_call_id = None, msg_name = None\<rparr>,
              assistant_message ''Done.'' None]"
    apply (rule exI [of _ c'], rule exI [of _ pre], rule exI [of _ prompt1], rule exI [of _ prompt2])
    using B0 unfolding os u two by simp
  show ?thesis
    using A A' B by blast
qed
end
